theory Spec2Isabelle
  imports Complex_Main "HOL-Library.Sublist"
begin

section \<open>Python strings\<close>

text \<open>
  A Python \<open>str\<close> is modelled as a \<open>string\<close>, one \<open>char\<close> per code point, so
  the model covers the code points below 256.  \<open>len\<close> is \<open>length\<close>.  Every keyword the
  program searches for is ASCII, and no code point between 128 and 255 lower-cases to an
  ASCII letter, so \<open>lower\<close> is written on the letters A to Z.  \<open>upper\<close> and \<open>title\<close>
  are written on ASCII letters too: the program applies them to ASCII literals only (a
  platform value, a scene type).
\<close>

definition isspace :: "char \<Rightarrow> bool" where
  \<comment> \<open>\<open>str.isspace\<close> on one code point: TAB..CR, FS..US, space, NEL, NBSP.\<close>
  "isspace c = (let n = (of_char c :: nat) in
     (9 \<le> n \<and> n \<le> 13) \<or> (28 \<le> n \<and> n \<le> 32) \<or> n = 133 \<or> n = 160)"

definition strip :: "string \<Rightarrow> string" where
  "strip s = rev (dropWhile isspace (rev (dropWhile isspace s)))"

definition blank :: "string \<Rightarrow> bool" where
  \<comment> \<open>\<open>not s or not s.strip()\<close>\<close>
  "blank s = (s = [] \<or> strip s = [])"

definition lower_char :: "char \<Rightarrow> char" where
  "lower_char c = (let n = (of_char c :: nat) in
     if 65 \<le> n \<and> n \<le> 90 then char_of (n + 32) else c)"

definition upper_char :: "char \<Rightarrow> char" where
  "upper_char c = (let n = (of_char c :: nat) in
     if 97 \<le> n \<and> n \<le> 122 then char_of (n - 32) else c)"

definition isalpha :: "char \<Rightarrow> bool" where
  "isalpha c = (let n = (of_char c :: nat) in
     (65 \<le> n \<and> n \<le> 90) \<or> (97 \<le> n \<and> n \<le> 122))"

definition lower :: "string \<Rightarrow> string" where
  "lower s = map lower_char s"

definition upper :: "string \<Rightarrow> string" where
  "upper s = map upper_char s"

fun title_from :: "bool \<Rightarrow> string \<Rightarrow> string" where
  \<comment> \<open>\<open>str.title\<close>: a letter after a letter is lower-cased, any other letter upper-cased.\<close>
  "title_from prev [] = []"
| "title_from prev (c # cs) =
     (if isalpha c then (if prev then lower_char c else upper_char c) # title_from True cs
      else c # title_from False cs)"

definition title_str :: "string \<Rightarrow> string" where
  "title_str s = title_from False s"

fun contains :: "string \<Rightarrow> string \<Rightarrow> bool" where
  \<comment> \<open>\<open>contains s sub\<close> is Python's \<open>sub in s\<close>.\<close>
  "contains [] sub = (sub = [])"
| "contains (c # cs) sub = (prefix sub (c # cs) \<or> contains cs sub)"

fun split_from :: "string \<Rightarrow> string \<Rightarrow> string list" where
  \<comment> \<open>\<open>str.split()\<close> with no separator; the first argument is the word being read.\<close>
  "split_from w [] = (if w = [] then [] else [w])"
| "split_from w (c # cs) =
     (if isspace c then (if w = [] then split_from [] cs else w # split_from [] cs)
      else split_from (w @ [c]) cs)"

definition split :: "string \<Rightarrow> string list" where
  "split s = split_from [] s"

fun join :: "string \<Rightarrow> string list \<Rightarrow> string" where
  \<comment> \<open>\<open>sep.join(xs)\<close>\<close>
  "join sep [] = []"
| "join sep [x] = x"
| "join sep (x # y # ys) = x @ sep @ join sep (y # ys)"

definition replace_char :: "char \<Rightarrow> char \<Rightarrow> string \<Rightarrow> string" where
  \<comment> \<open>\<open>s.replace(a, b)\<close> for one-character \<open>a\<close> and \<open>b\<close>\<close>
  "replace_char a b s = map (\<lambda>c. if c = a then b else c) s"

function str_nat :: "nat \<Rightarrow> string" where
  "str_nat n = (if n < 10 then [char_of (48 + n)] else str_nat (n div 10) @ [char_of (48 + n mod 10)])"
  by pat_completeness auto
termination
  by (relation "measure id") auto

declare str_nat.simps [simp del]

definition str_int :: "int \<Rightarrow> string" where
  \<comment> \<open>\<open>str(n)\<close> for an \<open>int\<close>, as the f-strings render a number\<close>
  "str_int i = (if i < 0 then CHR ''-'' # str_nat (nat (- i)) else str_nat (nat i))"

section \<open>Data model: \<open>models/script.py\<close>\<close>

datatype Platform = TIKTOK | KUAISHOU | YOUTUBE_SHORTS | INSTAGRAM_REELS

text \<open>
  Field names that several classes share carry a prefix of their class: \<open>d_\<close> for
  Dialogue, \<open>c_\<close> for Character, \<open>f_\<close> for CostFlag.
\<close>

record Dialogue =
  d_character :: string
  d_text :: string
  d_action :: "string option"

record Character =
  c_name :: string
  c_description :: "string option"
  c_age_range :: "string option"

record Scene =
  scene_number :: int
  location :: string
  time_of_day :: string
  interior_exterior :: string
  description :: string
  dialogues :: "Dialogue list"
  estimated_duration_seconds :: "int option"
  is_hook :: bool

record CostFlag =
  f_element_type :: string
  f_description :: string
  f_estimated_complexity :: string

record Script =
  title :: string
  genre :: string
  platform :: Platform
  target_duration_seconds :: int
  target_audience :: string
  characters :: "Character list"
  scenes :: "Scene list"
  cost_flags :: "CostFlag list"


section \<open>Messages and exceptions\<close>

text \<open>
  Every message the program builds is one constructor, carrying the values its f-string
  interpolates; the message text is given beside it.  A validator's result is the pair
  the Python returns: \<open>(valid, error)\<close> with an optional message, or \<open>(is_valid, issues)\<close>
  with a list of messages.
\<close>

datatype msg =
    NoneValue                     \<comment> \<open>Python's \<open>None\<close>, where a list of messages holds one\<close>
  | CharacterNameEmpty            \<comment> \<open>Character name cannot be empty\<close>
  | DialogueTextEmpty             \<comment> \<open>Dialogue text cannot be empty\<close>
  | DialogueTextTooLong           \<comment> \<open>Dialogue text too long (max 500 characters)\<close>
  | SceneNumberNotPositive        \<comment> \<open>Scene number must be positive\<close>
  | LocationEmpty                 \<comment> \<open>Location cannot be empty\<close>
  | InvalidTimeOfDay string       \<comment> \<open>Invalid time_of_day: \{time_of_day\}\<close>
  | InvalidInteriorExterior string  \<comment> \<open>Invalid interior_exterior: \{interior_exterior\}\<close>
  | InScene int "msg option"      \<comment> \<open>Scene \{scene_number\}: \{error\}\<close>
  | TitleEmpty                    \<comment> \<open>Title cannot be empty\<close>
  | GenreEmpty                    \<comment> \<open>Genre cannot be empty\<close>
  | TargetDurationRange           \<comment> \<open>Target duration must be between 30-120 seconds\<close>
  | TargetAudienceEmpty           \<comment> \<open>Target audience cannot be empty\<close>
  | NoScenes                      \<comment> \<open>Script must have at least one scene\<close>
  | NoHook                        \<comment> \<open>Script must have a hook in the first scene\<close>
  | CharacterNotInList string int
      \<comment> \<open>Character '\{character\}' in scene \{scene_number\} not in character list\<close>
  | DialogueTooLong int string
      \<comment> \<open>Scene \{n\}: Dialogue too long for \{character\} (>50 words may not be conversational)\<close>
  | DurationDeviates int int
      \<comment> \<open>Total estimated duration (\{total\}s) deviates significantly from target (\{target\}s)\<close>
  | SceneDescriptionEmpty         \<comment> \<open>Scene description cannot be empty\<close>
  | SceneWithoutCharacter int     \<comment> \<open>Scene \{n\} must have at least one character\<close>
  | ScriptTitleEmpty              \<comment> \<open>Script title cannot be empty\<close>
  | NoEntries                     \<comment> \<open>Breakdown must have at least one entry\<close>
  | DuplicateSceneNumbers         \<comment> \<open>Duplicate scene numbers found in breakdown\<close>
  | NotSequential                 \<comment> \<open>Scene numbers must be sequential starting from 1\<close>
  | SceneCountMismatch nat nat
      \<comment> \<open>Scene count mismatch: script has \{a\} scenes, breakdown has \{b\} entries\<close>
  | MissingEntries "int list"     \<comment> \<open>Missing breakdown entries for scenes: \{sorted(missing)\}\<close>
  | ExtraEntries "int list"
      \<comment> \<open>Extra breakdown entries for non-existent scenes: \{sorted(extra)\}\<close>
  | CharacterNotInScript int string
      \<comment> \<open>Scene \{n\}: Character '\{character\}' not in script character list\<close>
  | NoCharactersListed int        \<comment> \<open>Scene \{n\}: No characters listed\<close>
  | NoWardrobeListed int          \<comment> \<open>Scene \{n\}: No wardrobe elements listed\<close>
  | ShotIdEmpty                   \<comment> \<open>Shot ID cannot be empty\<close>
  | CameraPositionEmpty           \<comment> \<open>Camera position cannot be empty\<close>
  | VisualDescriptionEmpty        \<comment> \<open>Visual description cannot be empty\<close>
  | DurationTooShort              \<comment> \<open>Duration must be at least 1 second\<close>
  | InShot string "msg option"    \<comment> \<open>Shot \{shot_id\}: \{error\}\<close>
  | NoShots                       \<comment> \<open>Storyboard must have at least one shot\<close>
  | DuplicateShotIds              \<comment> \<open>Duplicate shot IDs found\<close>
  | TotalDeviates int int
      \<comment> \<open>Total duration (\{total\}s) deviates more than 20% from target (\{target\}s)\<close>
  | NonExistentScene string int   \<comment> \<open>Shot \{shot_id\}: References non-existent scene \{n\}\<close>
  | JumpCut string string
      \<comment> \<open>Shots \{prev\} and \{shot\}: Potential jump cut (same size and position)\<close>
  | ToleranceExceeded int int
      \<comment> \<open>Total duration (\{total\}s) deviates \{percent\}% from target (\{target\}s), exceeds 20% tolerance\<close>
  | NoShotsDefined int            \<comment> \<open>Scene \{n\}: No shots defined\<close>
  | InsufficientCoverage int      \<comment> \<open>Scene \{n\}: Insufficient coverage (only 1 shot)\<close>
  | CategoryEmpty                 \<comment> \<open>Category cannot be empty\<close>
  | InvalidPriority string        \<comment> \<open>Invalid priority: \{priority\}\<close>
  | DescriptionEmpty              \<comment> \<open>Description cannot be empty\<close>
  | NoActionableStep              \<comment> \<open>Advisory must have at least one actionable step\<close>
  | TooFewProductionItems         \<comment> \<open>Production notes must have at least 3 actionable items\<close>
  | TooFewPostProductionItems     \<comment> \<open>Post-production notes must have at least 3 actionable items\<close>
  | WorkflowError exn             \<comment> \<open>Workflow error: \{str(e)\}\<close>
and exn =
    InvalidScript "msg option"      \<comment> \<open>ValueError: Invalid script: \{error\}\<close>
  | InvalidBreakdown "msg option"   \<comment> \<open>ValueError: Invalid breakdown: \{error\}\<close>
  | NotAnEnumValue string           \<comment> \<open>ValueError of an \<open>Enum\<close> constructor\<close>
  | ZeroDivisionError
  | OverflowError                   \<comment> \<open>integer division result too large for a float\<close>
  | KeyError string
  | TypeError
  | OSError string                  \<comment> \<open>a failed \<open>mkdir\<close> or \<open>write_text\<close> at that path\<close>

definition issue_of :: "msg option \<Rightarrow> msg" where
  \<comment> \<open>the element that \<open>issues.append(error)\<close> stores for an optional message\<close>
  "issue_of error = (case error of Some m \<Rightarrow> m | None \<Rightarrow> NoneValue)"

fun validate_all :: "('a \<Rightarrow> bool \<times> msg option) \<Rightarrow> 'a list \<Rightarrow> msg option option" where
  \<comment> \<open>\<open>for x in xs: valid, error = x.validate(); if not valid: return ...\<close>: the error
      of the first element that is not valid.\<close>
  "validate_all v [] = None"
| "validate_all v (x # xs) =
     (case v x of (valid, error) \<Rightarrow> if \<not> valid then Some error else validate_all v xs)"

section \<open>Validation of scripts: \<open>models/script.py\<close>\<close>

definition Dialogue_validate :: "Dialogue \<Rightarrow> bool \<times> msg option" where
  "Dialogue_validate d =
     (if blank (d_character d) then (False, Some CharacterNameEmpty)
      else if blank (d_text d) then (False, Some DialogueTextEmpty)
      else if length (d_text d) > 500 then (False, Some DialogueTextTooLong)
      else (True, None))"

definition Character_validate :: "Character \<Rightarrow> bool \<times> msg option" where
  "Character_validate c =
     (if blank (c_name c) then (False, Some CharacterNameEmpty) else (True, None))"

definition Scene_validate :: "Scene \<Rightarrow> bool \<times> msg option" where
  "Scene_validate s =
     (if scene_number s < 1 then (False, Some SceneNumberNotPositive)
      else if blank (location s) then (False, Some LocationEmpty)
      else if time_of_day s \<notin> set [''DAY'', ''NIGHT'', ''DAWN'', ''DUSK'']
        then (False, Some (InvalidTimeOfDay (time_of_day s)))
      else if interior_exterior s \<notin> set [''INT'', ''EXT'']
        then (False, Some (InvalidInteriorExterior (interior_exterior s)))
      else case validate_all Dialogue_validate (dialogues s) of
             Some error \<Rightarrow> (False, Some (InScene (scene_number s) error))
           | None \<Rightarrow> (True, None))"

definition spoken_lines :: "Scene list \<Rightarrow> (Scene \<times> Dialogue) list" where
  \<comment> \<open>\<open>for scene in scenes: for dialogue in scene.dialogues\<close>, in visiting order\<close>
  "spoken_lines ss = concat (map (\<lambda>sc. map (Pair sc) (dialogues sc)) ss)"

definition Script_validate :: "Script \<Rightarrow> bool \<times> msg option" where
  "Script_validate s =
     (if blank (title s) then (False, Some TitleEmpty)
      else if blank (genre s) then (False, Some GenreEmpty)
      else if \<not> (30 \<le> target_duration_seconds s \<and> target_duration_seconds s \<le> 120)
        then (False, Some TargetDurationRange)
      else if blank (target_audience s) then (False, Some TargetAudienceEmpty)
      else if scenes s = [] then (False, Some NoScenes)
      else if \<not> list_ex is_hook (take 2 (scenes s)) then (False, Some NoHook)
      else case validate_all Character_validate (characters s) of
        Some error \<Rightarrow> (False, error)
      | None \<Rightarrow>
         (case validate_all Scene_validate (scenes s) of
            Some error \<Rightarrow> (False, error)
          | None \<Rightarrow>
             (case find (\<lambda>(sc, d). d_character d \<notin> set (map c_name (characters s)))
                        (spoken_lines (scenes s)) of
                Some (sc, d) \<Rightarrow> (False, Some (CharacterNotInList (d_character d) (scene_number sc)))
              | None \<Rightarrow> (True, None))))"

section \<open>\<open>ScriptGenerator\<close>: \<open>generators/script_generator.py\<close>\<close>

definition generate_characters :: "string \<Rightarrow> string \<Rightarrow> Character list" where
  "generate_characters gnr audience =
     (let genre_lower = lower gnr in
      if contains genre_lower ''romantic'' \<and> contains genre_lower ''comedy'' then
        [\<lparr>c_name = ''Maya'', c_description = Some ''Barista with a secret talent'',
          c_age_range = Some ''22-28''\<rparr>,
         \<lparr>c_name = ''Alex'', c_description = Some ''Regular customer, tech startup founder'',
          c_age_range = Some ''25-30''\<rparr>]
      else if contains genre_lower ''comedy'' then
        [\<lparr>c_name = ''Jordan'', c_description = Some ''Optimistic dreamer'',
          c_age_range = Some ''20-28''\<rparr>,
         \<lparr>c_name = ''Sam'', c_description = Some ''Sarcastic best friend'',
          c_age_range = Some ''20-28''\<rparr>]
      else if contains genre_lower ''drama'' then
        [\<lparr>c_name = ''Elena'', c_description = Some ''Determined protagonist'',
          c_age_range = Some ''25-35''\<rparr>,
         \<lparr>c_name = ''Marcus'', c_description = Some ''Mysterious stranger'',
          c_age_range = Some ''30-40''\<rparr>]
      else if contains genre_lower ''horror'' \<or> contains genre_lower ''thriller'' then
        [\<lparr>c_name = ''Riley'', c_description = Some ''Skeptical investigator'',
          c_age_range = Some ''25-32''\<rparr>]
      else
        [\<lparr>c_name = ''Taylor'', c_description = Some ''Relatable protagonist'',
          c_age_range = Some ''22-30''\<rparr>])"

definition descriptions :: "(string \<times> (string \<times> string) list) list" where
  \<comment> \<open>the dict of \<open>_get_scene_description\<close>, in insertion order\<close>
  "descriptions =
    [(''romantic comedy'',
       [(''hook'', ''The moment everything shifts - a simple mistake becomes a catalyst''),
        (''development'', ''Vulnerability surfaces through nervous explanation, walls coming down''),
        (''resolution'', ''Mutual recognition - what seemed wrong was exactly right'')]),
     (''comedy'',
       [(''hook'', ''Disaster strikes in the most mundane moment - chaos begins''),
        (''development'', ''Attempting damage control while digging deeper into absurdity''),
        (''resolution'', ''Acceptance of chaos, finding humor in the wreckage'')]),
     (''drama'',
       [(''hook'', ''The past collides with present - no more running''),
        (''development'', ''Truth emerges after years of silence, courage to speak''),
        (''resolution'', ''Catharsis - the weight of unspoken words finally lifted'')]),
     (''horror'',
       [(''hook'', ''Something's wrong - instinct screams danger''),
        (''development'', ''Dread builds, rational mind fights primal fear''),
        (''resolution'', ''Confrontation with the unknown, survival instinct takes over'')]),
     (''thriller'',
       [(''hook'', ''The first crack in normalcy - something's off''),
        (''development'', ''Paranoia or perception? Trust erodes''),
        (''resolution'', ''Truth revealed, reality shifts permanently'')])]"

definition dict_get :: "('k \<times> 'v) list \<Rightarrow> 'k \<Rightarrow> 'v \<Rightarrow> 'v" where
  \<comment> \<open>\<open>d.get(key, default)\<close>\<close>
  "dict_get d k dflt = (case map_of d k of Some v \<Rightarrow> v | None \<Rightarrow> dflt)"

fun dict_set :: "('k \<times> 'v) list \<Rightarrow> 'k \<Rightarrow> 'v \<Rightarrow> ('k \<times> 'v) list" where
  \<comment> \<open>\<open>d[k] = v\<close> on a dict kept in insertion order\<close>
  "dict_set [] k v = [(k, v)]"
| "dict_set ((k', v') # d) k v = (if k' = k then (k, v) # d else (k', v') # dict_set d k v)"

definition get_scene_description :: "string \<Rightarrow> string \<Rightarrow> string" where
  "get_scene_description gnr scene_type =
     (case find (\<lambda>(key, tbl). contains gnr key) descriptions of
        Some (key, tbl) \<Rightarrow> dict_get tbl scene_type ''Scene unfolds''
      | None \<Rightarrow>
          dict_get [(''hook'', ''Opening moment - immediate engagement''),
                    (''development'', ''Story deepens, stakes rise''),
                    (''resolution'', ''Emotional payoff, transformation complete'')]
                   scene_type ''Scene unfolds'')"

definition generate_hook :: "string \<Rightarrow> string \<Rightarrow> string \<times> string" where
  "generate_hook gnr ch =
     (if contains gnr ''romantic'' \<and> contains gnr ''comedy'' then
        (''Wait, you ordered a what?!'', ''freezes mid-pour, eyes wide with genuine surprise'')
      else if contains gnr ''comedy'' then
        (''This is NOT how I planned my morning.'', ''stares at chaos, deadpan delivery'')
      else if contains gnr ''drama'' then
        (''I can't believe you're actually here.'', ''voice cracks slightly, frozen in doorway'')
      else if contains gnr ''horror'' \<or> contains gnr ''thriller'' then
        (''Did you hear that?'', ''stops dead, breath held, listening intently'')
      else
        (''Everything changes right now.'', ''locks eyes with camera, jaw set''))"

definition generate_development :: "string \<Rightarrow> string \<Rightarrow> string option \<Rightarrow> string \<times> string" where
  "generate_development gnr char1 char2 =
     (if contains gnr ''romantic'' \<and> contains gnr ''comedy'' then
        (''You've been ordering the same drink for three months. I thought I'd surprise you.'',
         ''nervous laugh, fidgets with cup sleeve, can't quite meet their eyes'')
      else if contains gnr ''comedy'' then
        (''Okay, so maybe I should have read the instructions first.'',
         ''awkward laugh that trails off, realizes the magnitude'')
      else if contains gnr ''drama'' then
        (''I've been trying to find the right words for weeks.'',
         ''takes a shaky breath, steps closer with purpose'')
      else
        (''There's something I need to tell you.'', ''steadies voice, gathering courage''))"

definition generate_resolution :: "string \<Rightarrow> string \<Rightarrow> string option \<Rightarrow> string \<times> string" where
  "generate_resolution gnr char1 char2 =
     (if contains gnr ''romantic'' \<and> contains gnr ''comedy'' then
        (''Best wrong order ever.'', ''genuine smile breaks through, eyes soften with warmth'')
      else if contains gnr ''comedy'' then
        (''Well, at least it's a good story now.'', ''laughs genuinely, tension releases'')
      else if contains gnr ''drama'' then
        (''I'm glad I finally said it.'', ''exhales deeply, shoulders drop, relieved smile'')
      else
        (''And that's how everything changed.'', ''looks directly at camera, knowing smile''))"

definition get_location_for_genre :: "string \<Rightarrow> string \<Rightarrow> string" where
  "get_location_for_genre gnr scene_type =
     (if contains gnr ''romantic'' \<and> contains gnr ''comedy'' then
        dict_get [(''hook'', ''Coffee Shop - Counter''),
                  (''development'', ''Coffee Shop - Corner Table''),
                  (''resolution'', ''Coffee Shop - Window Seat'')] scene_type ''Coffee Shop''
      else if contains gnr ''comedy'' then
        dict_get [(''hook'', ''Apartment - Kitchen''),
                  (''development'', ''Apartment - Living Room''),
                  (''resolution'', ''Apartment - Balcony'')] scene_type ''Apartment''
      else if contains gnr ''drama'' then
        dict_get [(''hook'', ''Train Station Platform''),
                  (''development'', ''Train Station Bench''),
                  (''resolution'', ''Train Station Exit'')] scene_type ''Station''
      else ''Location - '' @ title_str scene_type)"

definition generate_scenes :: "string \<Rightarrow> int \<Rightarrow> Character list \<Rightarrow> string option \<Rightarrow> Scene list" where
  "generate_scenes gnr target_duration chars concept =
     (let genre_lower = lower gnr;
          char1 = (case chars of [] \<Rightarrow> ''Character'' | c # _ \<Rightarrow> c_name c);
          char2 = (case chars of _ # c # _ \<Rightarrow> Some (c_name c) | _ \<Rightarrow> None);
          (hook_dialogue, hook_action) = generate_hook genre_lower char1;
          hook_description = get_scene_description genre_lower ''hook'';
          hook_scene = \<lparr>scene_number = 1,
                        location = get_location_for_genre genre_lower ''hook'',
                        time_of_day = ''DAY'', interior_exterior = ''INT'',
                        description = hook_description,
                        dialogues = [\<lparr>d_character = char1, d_text = hook_dialogue,
                                      d_action = Some hook_action\<rparr>],
                        estimated_duration_seconds = Some 5, is_hook = True\<rparr>;
          scenes0 = [hook_scene];
          remaining_duration = target_duration - 5;
          (scenes1, remaining_duration1) =
            (if target_duration \<ge> 45 then
               (let dev_duration = remaining_duration div 2;
                    (dev_dialogue, dev_action) = generate_development genre_lower char1 char2;
                    dev_description = get_scene_description genre_lower ''development'';
                    dev_scene = \<lparr>scene_number = 2,
                                 location = get_location_for_genre genre_lower ''development'',
                                 time_of_day = ''DAY'', interior_exterior = ''INT'',
                                 description = dev_description,
                                 dialogues = [\<lparr>d_character = char1, d_text = dev_dialogue,
                                               d_action = Some dev_action\<rparr>],
                                 estimated_duration_seconds = Some dev_duration,
                                 is_hook = False\<rparr>
                in (scenes0 @ [dev_scene], remaining_duration - dev_duration))
             else (scenes0, remaining_duration));
          (res_dialogue, res_action) = generate_resolution genre_lower char1 char2;
          res_description = get_scene_description genre_lower ''resolution'';
          resolution_scene = \<lparr>scene_number = int (length scenes1) + 1,
                              location = get_location_for_genre genre_lower ''resolution'',
                              time_of_day = ''DAY'', interior_exterior = ''INT'',
                              description = res_description,
                              dialogues = [\<lparr>d_character = char1, d_text = res_dialogue,
                                            d_action = Some res_action\<rparr>],
                              estimated_duration_seconds = Some remaining_duration1,
                              is_hook = False\<rparr>
      in scenes1 @ [resolution_scene])"

definition scene_cost_flags :: "Scene \<Rightarrow> CostFlag list" where
  \<comment> \<open>the body of the loop of \<open>_identify_cost_flags\<close>: the flags one scene appends\<close>
  "scene_cost_flags scene =
     (if time_of_day scene = ''NIGHT'' then
        [\<lparr>f_element_type = ''night_scene'',
          f_description = ''Scene '' @ str_int (scene_number scene)
             @ '': Night shooting requires additional lighting'',
          f_estimated_complexity = ''MEDIUM''\<rparr>] else [])
     @ (if interior_exterior scene = ''EXT'' then
        [\<lparr>f_element_type = ''location'',
          f_description = ''Scene '' @ str_int (scene_number scene)
             @ '': Exterior location may require permits'',
          f_estimated_complexity = ''LOW''\<rparr>] else [])
     @ (if length (dialogues scene) > 3 then
        [\<lparr>f_element_type = ''extras'',
          f_description = ''Scene '' @ str_int (scene_number scene)
             @ '': Multiple speaking characters increase complexity'',
          f_estimated_complexity = ''MEDIUM''\<rparr>] else [])"

definition identify_cost_flags :: "Scene list \<Rightarrow> CostFlag list" where
  "identify_cost_flags ss = concat (map scene_cost_flags ss)"

definition ScriptGenerator_generate ::
  "string \<Rightarrow> string \<Rightarrow> Platform \<Rightarrow> int \<Rightarrow> string \<Rightarrow> string option \<Rightarrow> Script" where
  "ScriptGenerator_generate ttl gnr pf target audience concept =
     (let chars = generate_characters gnr audience;
          ss = generate_scenes gnr target chars concept;
          flags = identify_cost_flags ss
      in \<lparr>title = ttl, genre = gnr, platform = pf, target_duration_seconds = target,
          target_audience = audience, characters = chars, scenes = ss, cost_flags = flags\<rparr>)"

section \<open>\<open>ScriptValidator\<close>: \<open>generators/script_generator.py\<close>\<close>

definition or_int :: "int option \<Rightarrow> int \<Rightarrow> int" where
  \<comment> \<open>\<open>x or y\<close> for an optional integer \<open>x\<close>: \<open>None\<close> and \<open>0\<close> are falsy\<close>
  "or_int x y = (case x of None \<Rightarrow> y | Some v \<Rightarrow> if v = 0 then y else v)"

definition long_dialogue_issues :: "Scene list \<Rightarrow> msg list" where
  "long_dialogue_issues ss =
     map (\<lambda>(sc, d). DialogueTooLong (scene_number sc) (d_character d))
         (filter (\<lambda>(sc, d). length (split (d_text d)) > 50) (spoken_lines ss))"

text \<open>
  Python's \<open>/\<close> on two integers returns the double nearest to the exact quotient, ties to
  the even mantissa, and raises OverflowError when that double would be \<open>2 ^ 1024\<close> or
  more, which is when the quotient is at least \<open>2 ^ 1024 - 2 ^ 970\<close>.  \<open>float_div\<close>
  returns the exact quotient, which stands for the double nearest to it.  The literal
  \<open>0.3\<close> is the double \<open>5404319552844595 / 2 ^ 54\<close>; its mantissa is odd, so the double
  nearest to a quotient exceeds it exactly when the quotient is at least the midpoint
  \<open>10808639105689191 / 2 ^ 55\<close> between it and the next double.
\<close>

definition float_overflow_bound :: int where
  "float_overflow_bound = 2 ^ 1024 - 2 ^ 970"

definition float_div :: "int \<Rightarrow> int \<Rightarrow> exn + rat" where
  \<comment> \<open>\<open>a / b\<close> on integers, as a float\<close>
  "float_div a b =
     (if b = 0 then Inl ZeroDivisionError
      else let q = (of_int a :: rat) / of_int b in
           if \<bar>q\<bar> \<ge> of_int float_overflow_bound then Inl OverflowError else Inr q)"

definition exceeds_0_3 :: "rat \<Rightarrow> bool" where
  \<comment> \<open>\<open>x > 0.3\<close> for the double \<open>x\<close> nearest to the quotient \<open>q\<close>\<close>
  "exceeds_0_3 q = (q \<ge> 10808639105689191 / 2 ^ 55)"

definition validate_for_production :: "Script \<Rightarrow> exn + bool \<times> msg list" where
  "validate_for_production script =
     (let issues = [] in
      case Script_validate script of (valid, error) \<Rightarrow>
      if \<not> valid then Inr (False, issues @ [issue_of error])
      else
        let issues = issues @ long_dialogue_issues (scenes script);
            total_duration = sum_list (map (\<lambda>sc. or_int (estimated_duration_seconds sc) 0)
                                           (scenes script))
        in if total_duration > 0 then
             (case float_div \<bar>total_duration - target_duration_seconds script\<bar>
                             (target_duration_seconds script) of
                Inl e \<Rightarrow> Inl e
              | Inr deviation \<Rightarrow>
                 (let issues =
                        (if exceeds_0_3 deviation
                         then issues @ [DurationDeviates total_duration
                                          (target_duration_seconds script)]
                         else issues)
                  in Inr (length issues = 0, issues)))
           else Inr (length issues = 0, issues))"

section \<open>Data model: \<open>models/breakdown.py\<close>\<close>

datatype LocationType = INTERIOR | EXTERIOR

datatype TimeOfDay = DAY | NIGHT | DAWN | DUSK

fun LocationType_value :: "LocationType \<Rightarrow> string" where
  "LocationType_value INTERIOR = ''INT''"
| "LocationType_value EXTERIOR = ''EXT''"

fun TimeOfDay_value :: "TimeOfDay \<Rightarrow> string" where
  "TimeOfDay_value DAY = ''DAY''"
| "TimeOfDay_value NIGHT = ''NIGHT''"
| "TimeOfDay_value DAWN = ''DAWN''"
| "TimeOfDay_value DUSK = ''DUSK''"

definition LocationType_of :: "string \<Rightarrow> exn + LocationType" where
  \<comment> \<open>the call \<open>LocationType(v)\<close>\<close>
  "LocationType_of v =
     (if v = ''INT'' then Inr INTERIOR else if v = ''EXT'' then Inr EXTERIOR
      else Inl (NotAnEnumValue v))"

definition TimeOfDay_of :: "string \<Rightarrow> exn + TimeOfDay" where
  \<comment> \<open>the call \<open>TimeOfDay(v)\<close>\<close>
  "TimeOfDay_of v =
     (if v = ''DAY'' then Inr DAY else if v = ''NIGHT'' then Inr NIGHT
      else if v = ''DAWN'' then Inr DAWN else if v = ''DUSK'' then Inr DUSK
      else Inl (NotAnEnumValue v))"

text \<open>Prefixes: \<open>pe_\<close> for ProductionElement, \<open>e_\<close> for BreakdownEntry, \<open>b_\<close> for Breakdown.\<close>

record ProductionElement =
  pe_element_type :: string
  pe_description :: string
  pe_quantity :: int
  pe_notes :: "string option"

record BreakdownEntry =
  e_scene_number :: int
  e_scene_description :: string
  e_location :: string
  e_location_type :: LocationType
  e_time_of_day :: TimeOfDay
  e_characters :: "string list"
  e_props :: "ProductionElement list"
  e_wardrobe :: "ProductionElement list"
  e_makeup :: "ProductionElement list"
  e_special_requirements :: "ProductionElement list"
  e_estimated_setup_time_minutes :: "int option"

record Breakdown =
  b_script_title :: string
  entries :: "BreakdownEntry list"

definition BreakdownEntry_validate :: "BreakdownEntry \<Rightarrow> bool \<times> msg option" where
  "BreakdownEntry_validate e =
     (if e_scene_number e < 1 then (False, Some SceneNumberNotPositive)
      else if blank (e_location e) then (False, Some LocationEmpty)
      else if blank (e_scene_description e) then (False, Some SceneDescriptionEmpty)
      else if e_characters e = [] then (False, Some (SceneWithoutCharacter (e_scene_number e)))
      else (True, None))"

definition Breakdown_validate :: "Breakdown \<Rightarrow> bool \<times> msg option" where
  "Breakdown_validate b =
     (if blank (b_script_title b) then (False, Some ScriptTitleEmpty)
      else if entries b = [] then (False, Some NoEntries)
      else case validate_all BreakdownEntry_validate (entries b) of
        Some error \<Rightarrow> (False, error)
      | None \<Rightarrow>
         (let scene_numbers = map e_scene_number (entries b) in
          if length scene_numbers \<noteq> card (set scene_numbers)
            then (False, Some DuplicateSceneNumbers)
          else
            let sorted_numbers = sort scene_numbers in
            if sorted_numbers \<noteq> [1 .. int (length sorted_numbers)]
              then (False, Some NotSequential)
            else (True, None)))"

section \<open>\<open>BreakdownGenerator\<close> and \<open>BreakdownValidator\<close>: \<open>generators/breakdown_generator.py\<close>\<close>

definition element :: "string \<Rightarrow> string \<Rightarrow> int \<Rightarrow> string option \<Rightarrow> ProductionElement" where
  \<comment> \<open>\<open>ProductionElement(element_type, description, quantity, notes)\<close>\<close>
  "element t d q n = \<lparr>pe_element_type = t, pe_description = d, pe_quantity = q, pe_notes = n\<rparr>"

definition beverage_step :: "ProductionElement list \<Rightarrow> Dialogue \<Rightarrow> ProductionElement list" where
  \<comment> \<open>the body of \<open>for dialogue in scene.dialogues\<close> in \<open>_extract_props\<close>\<close>
  "beverage_step props dialogue =
     (let text_lower = lower (d_text dialogue) in
      if contains text_lower ''drink''
         \<and> \<not> list_ex (\<lambda>p. pe_description p = ''Coffee cup'') props
      then props @ [element ''prop'' ''Beverage'' 1 None] else props)"

definition extract_props :: "Scene \<Rightarrow> ProductionElement list" where
  "extract_props scene =
     (let description_lower = lower (description scene);
          props =
            (if contains description_lower ''phone'' \<or> contains description_lower ''mobile''
               then [element ''prop'' ''Mobile phone'' 1 None] else [])
          @ (if contains description_lower ''coffee'' \<or> contains description_lower ''cup''
               then [element ''prop'' ''Coffee cup'' 1 None] else [])
          @ (if contains description_lower ''table''
               then [element ''prop'' ''Table'' 1 None] else [])
          @ (if contains description_lower ''chair''
               then [element ''prop'' ''Chair'' 2 None] else [])
          @ (if contains description_lower ''car'' \<or> contains description_lower ''vehicle''
               then [element ''prop'' ''Vehicle'' 1 (Some ''Requires driver/permit'')] else [])
      in foldl beverage_step props (dialogues scene))"

definition extract_wardrobe :: "Scene \<Rightarrow> string list \<Rightarrow> ProductionElement list" where
  "extract_wardrobe scene chars =
     (let wardrobe = map (\<lambda>ch. element ''wardrobe'' (ch @ '' costume'') 1
                                   (Some ''Character-appropriate attire'')) chars;
          description_lower = lower (description scene)
      in wardrobe
         @ (if contains description_lower ''formal'' \<or> contains description_lower ''suit''
              then [element ''wardrobe'' ''Formal attire'' 1 None] else [])
         @ (if contains description_lower ''uniform''
              then [element ''wardrobe'' ''Uniform'' 1 None] else []))"

definition extract_makeup :: "Scene \<Rightarrow> ProductionElement list" where
  "extract_makeup scene =
     (let description_lower = lower (description scene) in
      [element ''makeup'' ''Basic makeup'' 1 (Some ''For all characters'')]
      @ (if contains description_lower ''blood'' \<or> contains description_lower ''injury''
           then [element ''makeup'' ''Special effects makeup'' 1 (Some ''Injury/blood effects'')]
           else [])
      @ (if contains description_lower ''age'' \<or> contains description_lower ''old''
           then [element ''makeup'' ''Aging makeup'' 1 None] else []))"

definition extract_special_requirements :: "Scene \<Rightarrow> ProductionElement list" where
  "extract_special_requirements scene =
     (let description_lower = lower (description scene) in
      (if contains description_lower ''stunt'' \<or> contains description_lower ''fight''
         then [element ''sfx'' ''Stunt coordinator'' 1 (Some ''Safety required'')] else [])
      @ (if contains description_lower ''explosion'' \<or> contains description_lower ''fire''
           then [element ''sfx'' ''Pyrotechnics'' 1 (Some ''Permit and safety officer required'')]
           else [])
      @ (if contains description_lower ''rain'' \<or> contains description_lower ''water''
           then [element ''sfx'' ''Water effects'' 1 None] else [])
      @ (if contains description_lower ''animal'' \<or> contains description_lower ''dog''
            \<or> contains description_lower ''cat''
           then [element ''sfx'' ''Animal wrangler'' 1 (Some ''Trained animals required'')]
           else [])
      @ (if contains description_lower ''vfx'' \<or> contains description_lower ''cgi''
            \<or> contains description_lower ''green screen''
           then [element ''sfx'' ''Visual effects'' 1 (Some ''Post-production VFX required'')]
           else []))"

text \<open>
  \<open>set(d.character for d in scene.dialogues)\<close> has no duplicates and no fixed order;
  the model lists the distinct speakers with \<open>remdups\<close>.
\<close>

definition speakers :: "Scene \<Rightarrow> string list" where
  "speakers scene = remdups (map d_character (dialogues scene))"

definition estimate_setup_time :: "Scene \<Rightarrow> int" where
  "estimate_setup_time scene =
     (let base_time = 15;
          base_time = (if interior_exterior scene = ''EXT'' then base_time + 10 else base_time);
          base_time = (if time_of_day scene = ''NIGHT'' then base_time + 20 else base_time);
          num_characters = int (length (speakers scene))
      in base_time + num_characters * 5)"

definition create_breakdown_entry :: "Scene \<Rightarrow> Script \<Rightarrow> exn + BreakdownEntry" where
  "create_breakdown_entry scene script =
     (let chars = speakers scene;
          props = extract_props scene;
          wardrobe = extract_wardrobe scene chars;
          makeup = extract_makeup scene;
          special_requirements = extract_special_requirements scene;
          setup_time = estimate_setup_time scene
      in case LocationType_of (interior_exterior scene) of
           Inl e \<Rightarrow> Inl e
         | Inr lt \<Rightarrow>
            (case TimeOfDay_of (time_of_day scene) of
               Inl e \<Rightarrow> Inl e
             | Inr tod \<Rightarrow>
                Inr \<lparr>e_scene_number = scene_number scene,
                     e_scene_description = description scene,
                     e_location = location scene,
                     e_location_type = lt, e_time_of_day = tod,
                     e_characters = chars, e_props = props, e_wardrobe = wardrobe,
                     e_makeup = makeup, e_special_requirements = special_requirements,
                     e_estimated_setup_time_minutes = Some setup_time\<rparr>))"

fun map_exn :: "('a \<Rightarrow> exn + 'b) \<Rightarrow> 'a list \<Rightarrow> exn + 'b list" where
  \<comment> \<open>a loop that appends \<open>f x\<close> for each \<open>x\<close> and stops at the first exception\<close>
  "map_exn f [] = Inr []"
| "map_exn f (x # xs) =
     (case f x of Inl e \<Rightarrow> Inl e
      | Inr y \<Rightarrow> (case map_exn f xs of Inl e \<Rightarrow> Inl e | Inr ys \<Rightarrow> Inr (y # ys)))"

definition BreakdownGenerator_generate :: "Script \<Rightarrow> exn + Breakdown" where
  "BreakdownGenerator_generate script =
     (case Script_validate script of (valid, error) \<Rightarrow>
      if \<not> valid then Inl (InvalidScript error)
      else (case map_exn (\<lambda>scene. create_breakdown_entry scene script) (scenes script) of
              Inl e \<Rightarrow> Inl e
            | Inr es \<Rightarrow> Inr \<lparr>b_script_title = title script, entries = es\<rparr>))"

definition validate_against_script :: "Breakdown \<Rightarrow> Script \<Rightarrow> bool \<times> msg list" where
  "validate_against_script breakdown script =
     (let issues = [] in
      case Breakdown_validate breakdown of (valid, error) \<Rightarrow>
      if \<not> valid then (False, issues @ [issue_of error])
      else
        let issues =
              (if length (entries breakdown) \<noteq> length (scenes script)
               then issues @ [SceneCountMismatch (length (scenes script)) (length (entries breakdown))]
               else issues);
            script_scene_numbers = set (map scene_number (scenes script));
            breakdown_scene_numbers = set (map e_scene_number (entries breakdown));
            missing_scenes = script_scene_numbers - breakdown_scene_numbers;
            issues = (if missing_scenes \<noteq> {}
                      then issues @ [MissingEntries (sorted_list_of_set missing_scenes)]
                      else issues);
            extra_scenes = breakdown_scene_numbers - script_scene_numbers;
            issues = (if extra_scenes \<noteq> {}
                      then issues @ [ExtraEntries (sorted_list_of_set extra_scenes)]
                      else issues);
            script_characters = set (map c_name (characters script));
            issues = issues @ concat (map (\<lambda>entry.
                        map (CharacterNotInScript (e_scene_number entry))
                            (filter (\<lambda>ch. ch \<notin> script_characters) (e_characters entry)))
                      (entries breakdown));
            issues = issues @ concat (map (\<lambda>entry.
                        (if e_characters entry = [] then [NoCharactersListed (e_scene_number entry)]
                         else [])
                        @ (if e_wardrobe entry = [] then [NoWardrobeListed (e_scene_number entry)]
                           else []))
                      (entries breakdown))
        in (length issues = 0, issues))"

section \<open>Data model: \<open>models/storyboard.py\<close>\<close>

datatype ShotSize = EXTREME_WIDE | WIDE | MEDIUM | CLOSE_UP | EXTREME_CLOSE_UP

datatype CameraMovement = STATIC | PAN | TILT | DOLLY | TRACKING | HANDHELD | CRANE

text \<open>Prefixes: \<open>sh_\<close> for the scene number of a Shot, \<open>sb_\<close> for Storyboard.\<close>

record Shot =
  shot_id :: string
  sh_scene_number :: int
  shot_size :: ShotSize
  camera_position :: string
  camera_movement :: CameraMovement
  visual_description :: string
  suggested_duration_seconds :: int
  audio_notes :: "string option"

record Storyboard =
  sb_script_title :: string
  sb_target_duration_seconds :: int
  shots :: "Shot list"

definition Shot_validate :: "Shot \<Rightarrow> bool \<times> msg option" where
  "Shot_validate sh =
     (if blank (shot_id sh) then (False, Some ShotIdEmpty)
      else if sh_scene_number sh < 1 then (False, Some SceneNumberNotPositive)
      else if blank (camera_position sh) then (False, Some CameraPositionEmpty)
      else if blank (visual_description sh) then (False, Some VisualDescriptionEmpty)
      else if suggested_duration_seconds sh < 1 then (False, Some DurationTooShort)
      else (True, None))"

text \<open>
  In \<open>Storyboard.validate\<close> and \<open>check_continuity\<close> the quotient is taken exactly and
  compared with 1/5.  The double \<open>0.2\<close> lies above 1/5, so where this exact test passes,
  the float test of the source passes too.  That the division overflows for a quotient of
  \<open>2 ^ 1024 - 2 ^ 970\<close> or more is modelled for \<open>validate_for_production\<close> only.
\<close>

definition true_div :: "int \<Rightarrow> int \<Rightarrow> exn + rat" where
  \<comment> \<open>\<open>a / b\<close> on integers, exactly; a zero divisor raises\<close>
  "true_div a b = (if b = 0 then Inl ZeroDivisionError else Inr (of_int a / of_int b))"

definition get_total_duration :: "Storyboard \<Rightarrow> int" where
  "get_total_duration sb = sum_list (map suggested_duration_seconds (shots sb))"

fun first_invalid_shot :: "Shot list \<Rightarrow> msg option" where
  \<comment> \<open>the loop over the shots in \<open>Storyboard.validate\<close>: the message it returns, if any\<close>
  "first_invalid_shot [] = None"
| "first_invalid_shot (sh # shs) =
     (case Shot_validate sh of (valid, error) \<Rightarrow>
        if \<not> valid then Some (InShot (shot_id sh) error) else first_invalid_shot shs)"

definition Storyboard_validate :: "Storyboard \<Rightarrow> exn + bool \<times> msg option" where
  "Storyboard_validate sb =
     (if blank (sb_script_title sb) then Inr (False, Some ScriptTitleEmpty)
      else if shots sb = [] then Inr (False, Some NoShots)
      else case first_invalid_shot (shots sb) of
        Some m \<Rightarrow> Inr (False, Some m)
      | None \<Rightarrow>
         (let shot_ids = map shot_id (shots sb) in
          if length shot_ids \<noteq> card (set shot_ids) then Inr (False, Some DuplicateShotIds)
          else
            let total_duration = sum_list (map suggested_duration_seconds (shots sb)) in
            case true_div \<bar>total_duration - sb_target_duration_seconds sb\<bar>
                          (sb_target_duration_seconds sb) of
              Inl e \<Rightarrow> Inl e
            | Inr deviation \<Rightarrow>
                if deviation > 1 / 5
                then Inr (False, Some (TotalDeviates total_duration (sb_target_duration_seconds sb)))
                else Inr (True, None)))"

section \<open>\<open>StoryboardGenerator\<close> and \<open>ContinuityChecker\<close>: \<open>generators/storyboard_generator.py\<close>\<close>

definition fmt_opt :: "string option \<Rightarrow> string" where
  \<comment> \<open>an optional string inside an f-string\<close>
  "fmt_opt x = (case x of None \<Rightarrow> ''None'' | Some s \<Rightarrow> s)"

definition hook_shots ::
  "Scene \<Rightarrow> string \<Rightarrow> int \<Rightarrow> string \<Rightarrow> (Dialogue \<Rightarrow> string) \<Rightarrow> (Dialogue \<Rightarrow> string) \<Rightarrow> int
   \<Rightarrow> Shot list" where
  \<comment> \<open>the three hook branches share this shape: the establishing shot A, then the reaction
      shot B on the first dialogue line, if there is one\<close>
  "hook_shots scene position_a duration_a tail_a position_b description_b duration_b =
     [\<lparr>shot_id = str_int (scene_number scene) @ ''A'',
       sh_scene_number = scene_number scene, shot_size = MEDIUM,
       camera_position = position_a, camera_movement = STATIC,
       visual_description = location scene @ '': '' @ description scene @ tail_a,
       suggested_duration_seconds = duration_a, audio_notes = None\<rparr>]
     @ (case dialogues scene of
          [] \<Rightarrow> []
        | dialogue # _ \<Rightarrow>
           [\<lparr>shot_id = str_int (scene_number scene) @ ''B'',
             sh_scene_number = scene_number scene, shot_size = CLOSE_UP,
             camera_position = position_b dialogue, camera_movement = STATIC,
             visual_description = description_b dialogue,
             suggested_duration_seconds = duration_b,
             audio_notes = Some (''Dialogue: '' @ d_character dialogue)\<rparr>])"

definition dialogue_shot :: "Scene \<Rightarrow> string \<Rightarrow> int \<Rightarrow> nat \<Rightarrow> Dialogue \<Rightarrow> Shot" where
  \<comment> \<open>the body of \<open>for idx, dialogue in enumerate(scene.dialogues)\<close>; the letter is
      \<open>chr(66 + idx)\<close>, which the model follows up to code point 255\<close>
  "dialogue_shot scene genre_lower duration_per_shot idx dialogue =
     (let shot_letter = [char_of (66 + idx)];
          (size, position) =
            (if idx = 0 then (MEDIUM, ''Medium shot, '' @ d_character dialogue @ '' in frame'')
             else if idx mod 2 = 1
               then (CLOSE_UP, ''Close-up on '' @ d_character dialogue @ CHR 0x27 # ''s expression'')
             else (MEDIUM, ''Over-shoulder or medium on '' @ d_character dialogue));
          timing_note =
            (if contains genre_lower ''comedy'' then '' - timing is key, hold for laugh''
             else if contains genre_lower ''drama'' then '' - let emotion breathe''
             else '''');
          action_desc = (case d_action dialogue of
                           None \<Rightarrow> ''''
                         | Some a \<Rightarrow> if a = [] then '''' else '' - '' @ a);
          visual_desc = d_character dialogue @ '': \"'' @ d_text dialogue @ ''\"''
                          @ action_desc @ timing_note
      in \<lparr>shot_id = str_int (scene_number scene) @ shot_letter,
          sh_scene_number = scene_number scene, shot_size = size,
          camera_position = position, camera_movement = STATIC,
          visual_description = visual_desc,
          suggested_duration_seconds = duration_per_shot,
          audio_notes = Some (''Dialogue: '' @ d_character dialogue)\<rparr>)"

definition generate_shots_for_scene :: "Scene \<Rightarrow> Script \<Rightarrow> nat \<Rightarrow> Shot list" where
  "generate_shots_for_scene scene script start_counter =
     (let scene_duration = or_int (estimated_duration_seconds scene)
                             (target_duration_seconds script div int (length (scenes script)));
          num_dialogues = int (length (dialogues scene));
          genre_lower = lower (genre script)
      in if is_hook scene then
           (if contains genre_lower ''comedy'' then
              hook_shots scene ''Eye level, centered on moment of chaos'' 1 ''. Beat before disaster.''
                (\<lambda>d. ''Tight on '' @ d_character d @ CHR 0x27 # ''s face for comedic timing'')
                (\<lambda>d. d_character d @ '': \"'' @ d_text d @ ''\" - '' @ fmt_opt (d_action d)
                        @ ''. Hold for reaction.'')
                4
            else if contains genre_lower ''drama'' then
              hook_shots scene ''Eye level, emotional distance closing'' 2 ''. Tension builds.''
                (\<lambda>d. ''Close on '' @ d_character d @ '', capturing vulnerability'')
                (\<lambda>d. d_character d @ '': \"'' @ d_text d @ ''\" - '' @ fmt_opt (d_action d)
                        @ ''. Let emotion land.'')
                3
            else
              hook_shots scene ''Eye level, centered on action'' 2 ''. Immediate visual impact.''
                (\<lambda>d. ''Eye level, tight on '' @ d_character d @ CHR 0x27 # ''s face'')
                (\<lambda>d. d_character d @ '' reacts: \"'' @ d_text d @ ''\" - '' @ fmt_opt (d_action d))
                (scene_duration - 2))
         else
           (let num_shots = 1 + num_dialogues;
                duration_per_shot = max 2 (scene_duration div num_shots);
                camera_note =
                  (if contains genre_lower ''comedy'' then ''Wide enough to capture physical comedy''
                   else if contains genre_lower ''drama'' then ''Composed for emotional weight''
                   else ''showing '' @ location scene @ '' context'');
                establishing =
                  \<lparr>shot_id = str_int (scene_number scene) @ ''A'',
                    sh_scene_number = scene_number scene, shot_size = WIDE,
                    camera_position = ''Eye level, '' @ camera_note, camera_movement = STATIC,
                    visual_description = ''Wide: '' @ location scene @ ''. '' @ description scene,
                    suggested_duration_seconds = duration_per_shot, audio_notes = None\<rparr>
            in if dialogues scene \<noteq> [] then
                 establishing
                 # map (\<lambda>(idx, d). dialogue_shot scene genre_lower duration_per_shot idx d)
                       (enumerate 0 (dialogues scene))
               else
                 [establishing,
                  \<lparr>shot_id = str_int (scene_number scene) @ ''B'',
                    sh_scene_number = scene_number scene, shot_size = MEDIUM,
                    camera_position = ''Eye level, following action'', camera_movement = STATIC,
                    visual_description = ''Action: '' @ description scene,
                    suggested_duration_seconds = scene_duration - duration_per_shot,
                    audio_notes = None\<rparr>]))"

text \<open>
  \<open>shot_counter\<close> is threaded through the loop of \<open>generate\<close> as in the source; no shot
  depends on it.
\<close>

definition StoryboardGenerator_generate :: "Script \<Rightarrow> Breakdown \<Rightarrow> exn + Storyboard" where
  "StoryboardGenerator_generate script breakdown =
     (case Script_validate script of (valid, error) \<Rightarrow>
      if \<not> valid then Inl (InvalidScript error)
      else (case Breakdown_validate breakdown of (valid, error) \<Rightarrow>
        if \<not> valid then Inl (InvalidBreakdown error)
        else
          (let (shs, shot_counter) =
                 foldl (\<lambda>(shs, shot_counter) scene.
                          let scene_shots = generate_shots_for_scene scene script shot_counter
                          in (shs @ scene_shots, shot_counter + length scene_shots))
                       ([], 0) (scenes script)
           in Inr \<lparr>sb_script_title = title script,
                   sb_target_duration_seconds = target_duration_seconds script,
                   shots = shs\<rparr>)))"

fun jump_cuts :: "Shot option \<Rightarrow> Shot list \<Rightarrow> msg list" where
  \<comment> \<open>the loop with \<open>prev_shot\<close>; an instance of a dataclass is always truthy\<close>
  "jump_cuts prev_shot [] = []"
| "jump_cuts prev_shot (shot # rest) =
     (case prev_shot of
        Some prev \<Rightarrow>
          if sh_scene_number prev = sh_scene_number shot
             \<and> shot_size prev = shot_size shot \<and> camera_position prev = camera_position shot
          then [JumpCut (shot_id prev) (shot_id shot)] else []
      | None \<Rightarrow> [])
     @ jump_cuts (Some shot) rest"

definition scene_shot_counts :: "Shot list \<Rightarrow> (int \<times> int) list" where
  "scene_shot_counts shs =
     foldl (\<lambda>counts shot. dict_set counts (sh_scene_number shot)
                              (dict_get counts (sh_scene_number shot) 0 + 1)) [] shs"

definition check_continuity :: "Storyboard \<Rightarrow> Script \<Rightarrow> exn + bool \<times> msg list" where
  "check_continuity storyboard script =
     (let issues = [] in
      case Storyboard_validate storyboard of
        Inl e \<Rightarrow> Inl e
      | Inr (valid, error) \<Rightarrow>
        if \<not> valid then Inr (False, issues @ [issue_of error])
        else
          (let script_scene_numbers = set (map scene_number (scenes script));
               issues = issues @ map (\<lambda>shot. NonExistentScene (shot_id shot) (sh_scene_number shot))
                          (filter (\<lambda>shot. sh_scene_number shot \<notin> script_scene_numbers)
                                  (shots storyboard));
               issues = issues @ jump_cuts None (shots storyboard);
               total_duration = get_total_duration storyboard
           in case true_div \<bar>total_duration - sb_target_duration_seconds storyboard\<bar>
                            (sb_target_duration_seconds storyboard) of
                Inl e \<Rightarrow> Inl e
              | Inr deviation \<Rightarrow>
                 (let issues =
                        (if deviation > 1 / 5
                         then issues @ [ToleranceExceeded total_duration
                                          (sb_target_duration_seconds storyboard)]
                         else issues);
                      counts = scene_shot_counts (shots storyboard);
                      issues = issues @ concat (map (\<lambda>scene.
                                 (case map_of counts (scene_number scene) of
                                    None \<Rightarrow> [NoShotsDefined (scene_number scene)]
                                  | Some n \<Rightarrow> if n < 2
                                              then [InsufficientCoverage (scene_number scene)]
                                              else []))
                               (scenes script))
                  in Inr (length issues = 0, issues))))"

section \<open>Data model: \<open>models/advisory.py\<close>\<close>

text \<open>Prefixes: \<open>a_\<close> for AdvisoryItem, \<open>pn_\<close> for ProductionNotes, \<open>pp_\<close> for
  PostProductionNotes.\<close>

record AdvisoryItem =
  category :: string
  priority :: string
  a_description :: string
  actionable_steps :: "string list"

record ProductionNotes =
  pn_script_title :: string
  continuity_risks :: "AdvisoryItem list"
  audio_recommendations :: "AdvisoryItem list"
  coverage_suggestions :: "AdvisoryItem list"

record PostProductionNotes =
  pp_script_title :: string
  editing_suggestions :: "AdvisoryItem list"
  platform_guidelines :: "AdvisoryItem list"
  revision_pitfalls :: "AdvisoryItem list"

definition AdvisoryItem_validate :: "AdvisoryItem \<Rightarrow> bool \<times> msg option" where
  "AdvisoryItem_validate item =
     (if blank (category item) then (False, Some CategoryEmpty)
      else if priority item \<notin> set [''HIGH'', ''MEDIUM'', ''LOW'']
        then (False, Some (InvalidPriority (priority item)))
      else if blank (a_description item) then (False, Some DescriptionEmpty)
      else if actionable_steps item = [] then (False, Some NoActionableStep)
      else (True, None))"

definition ProductionNotes_validate :: "ProductionNotes \<Rightarrow> bool \<times> msg option" where
  "ProductionNotes_validate notes =
     (if blank (pn_script_title notes) then (False, Some ScriptTitleEmpty)
      else
        let total_items = length (continuity_risks notes) + length (audio_recommendations notes)
                            + length (coverage_suggestions notes) in
        if total_items < 3 then (False, Some TooFewProductionItems)
        else (case validate_all AdvisoryItem_validate
                     (continuity_risks notes @ audio_recommendations notes
                        @ coverage_suggestions notes) of
                Some error \<Rightarrow> (False, error)
              | None \<Rightarrow> (True, None)))"

definition PostProductionNotes_validate :: "PostProductionNotes \<Rightarrow> bool \<times> msg option" where
  "PostProductionNotes_validate notes =
     (if blank (pp_script_title notes) then (False, Some ScriptTitleEmpty)
      else
        let total_items = length (editing_suggestions notes) + length (platform_guidelines notes)
                            + length (revision_pitfalls notes) in
        if total_items < 3 then (False, Some TooFewPostProductionItems)
        else (case validate_all AdvisoryItem_validate
                     (editing_suggestions notes @ platform_guidelines notes
                        @ revision_pitfalls notes) of
                Some error \<Rightarrow> (False, error)
              | None \<Rightarrow> (True, None)))"

section \<open>Advisory generators: \<open>generators/advisory_generator.py\<close>\<close>

definition advisory :: "string \<Rightarrow> string \<Rightarrow> string \<Rightarrow> string list \<Rightarrow> AdvisoryItem" where
  "advisory c p d steps = \<lparr>category = c, priority = p, a_description = d, actionable_steps = steps\<rparr>"

definition dict_append :: "('k \<times> 'v list) list \<Rightarrow> 'k \<Rightarrow> 'v \<Rightarrow> ('k \<times> 'v list) list" where
  \<comment> \<open>\<open>if k not in d: d[k] = []\<close> then \<open>d[k].append(v)\<close>\<close>
  "dict_append d k v = dict_set d k (dict_get d k [] @ [v])"

definition wardrobe_items :: "Breakdown \<Rightarrow> (string \<times> int list) list" where
  "wardrobe_items breakdown =
     foldl (\<lambda>d entry. foldl (\<lambda>d ch. dict_append d ch (e_scene_number entry)) d (e_characters entry))
           [] (entries breakdown)"

definition prop_scenes :: "Breakdown \<Rightarrow> (string \<times> int list) list" where
  "prop_scenes breakdown =
     foldl (\<lambda>d entry. foldl (\<lambda>d prop. dict_append d (pe_description prop) (e_scene_number entry))
                              d (e_props entry))
           [] (entries breakdown)"

fun location_changes :: "BreakdownEntry option \<Rightarrow> BreakdownEntry list \<Rightarrow> (int \<times> int) list" where
  "location_changes prev_entry [] = []"
| "location_changes prev_entry (entry # rest) =
     (case prev_entry of
        Some prev \<Rightarrow>
          if e_location entry \<noteq> e_location prev \<or> e_time_of_day entry \<noteq> e_time_of_day prev
          then [(e_scene_number prev, e_scene_number entry)] else []
      | None \<Rightarrow> [])
     @ location_changes (Some entry) rest"

definition analyze_continuity_risks :: "Script \<Rightarrow> Breakdown \<Rightarrow> Storyboard \<Rightarrow> AdvisoryItem list" where
  "analyze_continuity_risks script breakdown storyboard =
     map (\<lambda>(ch, ns).
            advisory ''continuity'' ''HIGH''
              (''Wardrobe continuity for '' @ ch @ '' across '' @ str_int (int (length ns)) @ '' scenes'')
              [''Document '' @ ch @ CHR 0x27 # ''s wardrobe in detail before shooting'',
               ''Take reference photos of wardrobe from multiple angles'',
               ''Maintain wardrobe consistency across scenes '' @ join '', '' (map str_int ns)])
         (filter (\<lambda>(ch, ns). length ns > 1) (wardrobe_items breakdown))
     @ map (\<lambda>(prop, ns).
            advisory ''continuity'' ''MEDIUM''
              (''Prop continuity: '' @ prop @ '' appears in multiple scenes'')
              [''Track '' @ prop @ '' placement and condition'',
               ''Take continuity photos between takes'',
               ''Designate a continuity supervisor for props''])
         (filter (\<lambda>(prop, ns). length ns > 1) (prop_scenes breakdown))
     @ (if location_changes None (entries breakdown) \<noteq> [] then
          [advisory ''continuity'' ''MEDIUM''
             ''Location/time transitions require careful continuity''
             [''Document lighting conditions for each location'',
              ''Note exact camera positions for matching shots'',
              ''Review footage before moving to next location'']]
        else [])"

definition generate_audio_recommendations ::
  "Script \<Rightarrow> Breakdown \<Rightarrow> Storyboard \<Rightarrow> AdvisoryItem list" where
  "generate_audio_recommendations script breakdown storyboard =
     (if list_ex (\<lambda>scene. dialogues scene \<noteq> []) (scenes script) then
        [advisory ''audio'' ''HIGH'' ''Dialogue recording and backup''
           [''Use lavalier mics for all speaking characters'',
            ''Record backup audio with boom mic'',
            ''Capture room tone for each location (30 seconds minimum)'',
            ''Monitor audio levels continuously during takes'']]
      else [])
     @ (case find (\<lambda>entry. LocationType_value (e_location_type entry) = ''EXT'')
                  (entries breakdown) of
          Some entry \<Rightarrow>
            [advisory ''audio'' ''MEDIUM''
               (''Exterior audio challenges for Scene '' @ str_int (e_scene_number entry))
               [''Scout location for ambient noise issues'',
                ''Plan shooting schedule around noise patterns'',
                ''Bring wind protection for microphones'',
                ''Record wild sound for atmosphere'']]
        | None \<Rightarrow> [])
     @ [advisory ''audio'' ''MEDIUM'' ''Audio coverage and wild sound''
          [''Record wild sound for each location'',
           ''Capture ambient sound separately'',
           ''Record foley reference sounds on set'',
           ''Document all audio takes with detailed notes'']]"

definition generate_coverage_suggestions :: "Script \<Rightarrow> Storyboard \<Rightarrow> AdvisoryItem list" where
  "generate_coverage_suggestions script storyboard =
     [advisory ''coverage'' ''HIGH'' ''B-roll and cutaway coverage''
        [''Shoot establishing shots from multiple angles'',
         ''Capture insert shots of key props and details'',
         ''Record environmental B-roll for each location'',
         ''Get cutaways for editing flexibility'']]
     @ map (\<lambda>(scene_num, shot_count).
              advisory ''coverage'' ''MEDIUM''
                (''Scene '' @ str_int scene_num @ '' has limited coverage (''
                   @ str_int shot_count @ '' shots)'')
                [''Consider additional angles for editing flexibility'',
                 ''Shoot safety coverage from different perspectives'',
                 ''Capture reaction shots if multiple characters present''])
           (filter (\<lambda>(scene_num, shot_count). shot_count < 3)
                   (scene_shot_counts (shots storyboard)))
     @ [advisory ''coverage'' ''MEDIUM'' ''Safety coverage and protection shots''
          [''Shoot master shots for each scene'',
           ''Get clean plates of locations without actors'',
           ''Record additional takes of critical moments'',
           ''Capture coverage for potential reshoots'']]"

definition ProductionAdvisoryGenerator_generate ::
  "Script \<Rightarrow> Breakdown \<Rightarrow> Storyboard \<Rightarrow> ProductionNotes" where
  "ProductionAdvisoryGenerator_generate script breakdown storyboard =
     \<lparr>pn_script_title = title script,
      continuity_risks = analyze_continuity_risks script breakdown storyboard,
      audio_recommendations = generate_audio_recommendations script breakdown storyboard,
      coverage_suggestions = generate_coverage_suggestions script storyboard\<rparr>"

fun Platform_value :: "Platform \<Rightarrow> string" where
  "Platform_value TIKTOK = ''tiktok''"
| "Platform_value KUAISHOU = ''kuaishou''"
| "Platform_value YOUTUBE_SHORTS = ''youtube_shorts''"
| "Platform_value INSTAGRAM_REELS = ''instagram_reels''"

definition generate_editing_suggestions :: "Script \<Rightarrow> Storyboard \<Rightarrow> AdvisoryItem list" where
  "generate_editing_suggestions script storyboard =
     (if scenes script \<noteq> [] \<and> is_hook (scenes script ! 0) then
        [advisory ''editing'' ''HIGH'' ''Hook optimization for retention''
           [''Ensure hook appears within first 3 seconds'',
            ''Use quick cuts to maintain energy'',
            ''Add sound effects or music to enhance impact'',
            ''Test multiple hook variations for engagement'']]
      else [])
     @ (if target_duration_seconds script \<le> 60 then
          [advisory ''editing'' ''HIGH'' ''Short-form pacing and rhythm''
             [''Keep cuts dynamic (2-4 seconds per shot average)'',
              ''Use jump cuts to compress time'',
              ''Add transitions sparingly (cuts are faster)'',
              ''Maintain momentum throughout - no dead air'']]
        else [])
     @ [advisory ''editing'' ''MEDIUM'' ''Scene transitions and flow''
          [''Use audio bridges between scenes'',
           ''Match action across cuts when possible'',
           ''Consider L-cuts and J-cuts for smooth transitions'',
           ''Test pacing by watching without sound'']]"

definition generate_platform_guidelines :: "Script \<Rightarrow> AdvisoryItem list" where
  "generate_platform_guidelines script =
     (let pf = Platform_value (platform script) in
      (if pf \<in> set [''tiktok'', ''instagram_reels''] then
         [advisory ''platform'' ''HIGH'' (upper pf @ '' vertical format optimization'')
            [''Export in 9:16 vertical aspect ratio'',
             ''Frame for mobile viewing (faces in upper 2/3)'',
             ''Ensure text is readable on small screens'',
             ''Test on actual mobile device before publishing'']]
       else [])
      @ [advisory ''platform'' ''HIGH'' ''Subtitles and captions for accessibility''
           [''Add burned-in subtitles (many watch without sound)'',
            ''Use large, high-contrast text (white with black outline)'',
            ''Sync subtitles precisely with dialogue'',
            ''Keep subtitle duration readable (1-2 seconds per line)''],
         advisory ''platform'' ''MEDIUM'' ''Sound design and music''
           [''Use trending audio if appropriate for platform'',
            ''Balance music and dialogue levels carefully'',
            ''Add sound effects to enhance key moments'',
            ''Ensure audio is clear even on phone speakers''],
         advisory ''platform'' ''MEDIUM'' ''Color grading for mobile viewing''
           [''Increase contrast for mobile screens'',
            ''Boost saturation slightly for impact'',
            ''Ensure skin tones are natural'',
            ''Test color on multiple devices'']])"

definition generate_revision_pitfalls :: "Script \<Rightarrow> AdvisoryItem list" where
  "generate_revision_pitfalls script =
     [advisory ''revision'' ''MEDIUM'' ''Over-editing and loss of natural flow''
        [''Don't cut too frequently - allow moments to breathe'',
         ''Preserve natural pauses in dialogue'',
         ''Avoid excessive effects or transitions'',
         ''Get fresh eyes - show to someone unfamiliar with project''],
      advisory ''revision'' ''HIGH'' ''Audio quality and consistency''
        [''Check audio levels are consistent across cuts'',
         ''Remove background noise without losing dialogue clarity'',
         ''Ensure music doesn't overpower dialogue'',
         ''Add room tone to fill gaps and smooth transitions''],
      advisory ''revision'' ''MEDIUM'' ''Pacing and retention issues''
        [''Cut ruthlessly - remove anything that doesn't serve the story'',
         ''Test with target audience for engagement'',
         ''Watch for drop-off points and tighten those sections'',
         ''Ensure payoff matches the hook's promise'']]"

definition PostProductionAdvisoryGenerator_generate ::
  "Script \<Rightarrow> Storyboard \<Rightarrow> PostProductionNotes" where
  "PostProductionAdvisoryGenerator_generate script storyboard =
     \<lparr>pp_script_title = title script,
      editing_suggestions = generate_editing_suggestions script storyboard,
      platform_guidelines = generate_platform_guidelines script,
      revision_pitfalls = generate_revision_pitfalls script\<rparr>"

section \<open>\<open>EntertainmentWorkflow\<close>: \<open>workflow/entertainment_workflow.py\<close>\<close>

text \<open>
  The workflow calls the eight objects that \<open>__init__\<close> stores in \<open>self\<close>; they are the
  fields of \<open>components\<close>, each a function that returns a value or raises.
  \<open>the_components\<close> are the ones \<open>__init__\<close> builds.
\<close>

record components =
  script_gen :: "string \<Rightarrow> string \<Rightarrow> Platform \<Rightarrow> int \<Rightarrow> string \<Rightarrow> exn + Script"
  script_validator :: "Script \<Rightarrow> exn + bool \<times> msg list"
  breakdown_gen :: "Script \<Rightarrow> exn + Breakdown"
  breakdown_validator :: "Breakdown \<Rightarrow> Script \<Rightarrow> exn + bool \<times> msg list"
  storyboard_gen :: "Script \<Rightarrow> Breakdown \<Rightarrow> exn + Storyboard"
  continuity_checker :: "Storyboard \<Rightarrow> Script \<Rightarrow> exn + bool \<times> msg list"
  production_advisory_gen :: "Script \<Rightarrow> Breakdown \<Rightarrow> Storyboard \<Rightarrow> exn + ProductionNotes"
  postprod_advisory_gen :: "Script \<Rightarrow> Storyboard \<Rightarrow> exn + PostProductionNotes"

definition the_components :: components where
  "the_components =
     \<lparr>script_gen = (\<lambda>ttl gnr pf target audience.
                      Inr (ScriptGenerator_generate ttl gnr pf target audience None)),
      script_validator = validate_for_production,
      breakdown_gen = BreakdownGenerator_generate,
      breakdown_validator = (\<lambda>breakdown script. Inr (validate_against_script breakdown script)),
      storyboard_gen = StoryboardGenerator_generate,
      continuity_checker = check_continuity,
      production_advisory_gen = (\<lambda>script breakdown storyboard.
                      Inr (ProductionAdvisoryGenerator_generate script breakdown storyboard)),
      postprod_advisory_gen = (\<lambda>script storyboard.
                      Inr (PostProductionAdvisoryGenerator_generate script storyboard))\<rparr>"

text \<open>
  The file system is the list of the paths written so far, in order; the text written is
  not modelled.  Whether \<open>mkdir\<close> or \<open>write_text\<close> raises at a path is the environment's
  choice, given by \<open>io_env\<close>.  \<open>file_path\<close> is \<open>str(output_path / name)\<close> for a relative
  name; pathlib's normalisation of other names is not modelled.
\<close>

record io_env =
  mkdir_fails :: "string \<Rightarrow> bool"
  write_fails :: "string \<Rightarrow> bool"

definition mkdir :: "io_env \<Rightarrow> string \<Rightarrow> exn + unit" where
  "mkdir io dir = (if mkdir_fails io dir then Inl (OSError dir) else Inr ())"

definition write_text :: "io_env \<Rightarrow> string list \<Rightarrow> string \<Rightarrow> exn + string list" where
  "write_text io fs p = (if write_fails io p then Inl (OSError p) else Inr (fs @ [p]))"

definition file_path :: "string \<Rightarrow> string \<Rightarrow> string \<Rightarrow> string" where
  \<comment> \<open>\<open>str(output_path / f"{title.replace(' ', '_')}{sfx}")\<close>\<close>
  "file_path output_dir ttl sfx = output_dir @ ''/'' @ replace_char CHR '' '' CHR ''_'' ttl @ sfx"

type_synonym workflow_result = "bool \<times> msg list \<times> (string \<times> string) list"

definition caught :: "exn \<Rightarrow> msg list \<Rightarrow> (string \<times> string) list \<Rightarrow> workflow_result" where
  \<comment> \<open>the \<open>except Exception as e\<close> handler\<close>
  "caught e errors output_files = (False, errors @ [WorkflowError e], output_files)"

text \<open>
  \<open>execute_full_workflow\<close> is one function in the source; the model cuts it at the comments
  \<open>Step 2\<close> to \<open>Step 5\<close>.  Each part takes the values of \<open>errors\<close> and \<open>output_files\<close> and the
  file system as they are at that point and returns the workflow's result with the final file
  system.
\<close>

definition step5 ::
  "components \<Rightarrow> io_env \<Rightarrow> string \<Rightarrow> string \<Rightarrow> Script \<Rightarrow> Storyboard
   \<Rightarrow> msg list \<Rightarrow> (string \<times> string) list \<Rightarrow> string list \<Rightarrow> workflow_result \<times> string list" where
  "step5 cs io output_dir ttl script storyboard errors output_files fs =
     (case postprod_advisory_gen cs script storyboard of
        Inl e \<Rightarrow> (caught e errors output_files, fs)
      | Inr postprod_notes \<Rightarrow>
         (case PostProductionNotes_validate postprod_notes of (valid, error) \<Rightarrow>
            if \<not> valid then ((False, errors @ [issue_of error], output_files), fs)
            else
              (let postprod_notes_md = file_path output_dir ttl ''_postproduction_notes.md'' in
               case write_text io fs postprod_notes_md of
                 Inl e \<Rightarrow> (caught e errors output_files, fs)
               | Inr fs \<Rightarrow>
                  (let output_files = dict_set output_files ''postproduction_notes'' postprod_notes_md
                   in ((True, errors, output_files), fs)))))"

definition step4 ::
  "components \<Rightarrow> io_env \<Rightarrow> string \<Rightarrow> string \<Rightarrow> Script \<Rightarrow> Breakdown \<Rightarrow> Storyboard
   \<Rightarrow> msg list \<Rightarrow> (string \<times> string) list \<Rightarrow> string list \<Rightarrow> workflow_result \<times> string list" where
  "step4 cs io output_dir ttl script breakdown storyboard errors output_files fs =
     (case production_advisory_gen cs script breakdown storyboard of
        Inl e \<Rightarrow> (caught e errors output_files, fs)
      | Inr production_notes \<Rightarrow>
         (case ProductionNotes_validate production_notes of (valid, error) \<Rightarrow>
            if \<not> valid then ((False, errors @ [issue_of error], output_files), fs)
            else
              (let prod_notes_md = file_path output_dir ttl ''_production_notes.md'' in
               case write_text io fs prod_notes_md of
                 Inl e \<Rightarrow> (caught e errors output_files, fs)
               | Inr fs \<Rightarrow>
                  (let output_files = dict_set output_files ''production_notes'' prod_notes_md
                   in step5 cs io output_dir ttl script storyboard errors output_files fs))))"

definition step3 ::
  "components \<Rightarrow> io_env \<Rightarrow> string \<Rightarrow> string \<Rightarrow> Script \<Rightarrow> Breakdown
   \<Rightarrow> msg list \<Rightarrow> (string \<times> string) list \<Rightarrow> string list \<Rightarrow> workflow_result \<times> string list" where
  "step3 cs io output_dir ttl script breakdown errors output_files fs =
     (case storyboard_gen cs script breakdown of
        Inl e \<Rightarrow> (caught e errors output_files, fs)
      | Inr storyboard \<Rightarrow>
         (case continuity_checker cs storyboard script of
            Inl e \<Rightarrow> (caught e errors output_files, fs)
          | Inr (valid, issues) \<Rightarrow>
             if \<not> valid then ((False, errors @ issues, output_files), fs)
             else
               (let storyboard_md = file_path output_dir ttl ''_storyboard.md'' in
                case write_text io fs storyboard_md of
                  Inl e \<Rightarrow> (caught e errors output_files, fs)
                | Inr fs \<Rightarrow>
                   (let output_files = dict_set output_files ''storyboard'' storyboard_md;
                        shotlist_csv = file_path output_dir ttl ''_shotlist.csv''
                    in case write_text io fs shotlist_csv of
                         Inl e \<Rightarrow> (caught e errors output_files, fs)
                       | Inr fs \<Rightarrow>
                          (let output_files = dict_set output_files ''shotlist'' shotlist_csv
                           in step4 cs io output_dir ttl script breakdown storyboard
                                    errors output_files fs)))))"

definition step2 ::
  "components \<Rightarrow> io_env \<Rightarrow> string \<Rightarrow> string \<Rightarrow> Script
   \<Rightarrow> msg list \<Rightarrow> (string \<times> string) list \<Rightarrow> string list \<Rightarrow> workflow_result \<times> string list" where
  "step2 cs io output_dir ttl script errors output_files fs =
     (case breakdown_gen cs script of
        Inl e \<Rightarrow> (caught e errors output_files, fs)
      | Inr breakdown \<Rightarrow>
         (case breakdown_validator cs breakdown script of
            Inl e \<Rightarrow> (caught e errors output_files, fs)
          | Inr (valid, issues) \<Rightarrow>
             if \<not> valid then ((False, errors @ issues, output_files), fs)
             else
               (let breakdown_json = file_path output_dir ttl ''_breakdown.json'' in
                case write_text io fs breakdown_json of
                  Inl e \<Rightarrow> (caught e errors output_files, fs)
                | Inr fs \<Rightarrow>
                   (let output_files = dict_set output_files ''breakdown_json'' breakdown_json;
                        breakdown_csv = file_path output_dir ttl ''_breakdown.csv''
                    in case write_text io fs breakdown_csv of
                         Inl e \<Rightarrow> (caught e errors output_files, fs)
                       | Inr fs \<Rightarrow>
                          (let output_files = dict_set output_files ''breakdown_csv'' breakdown_csv
                           in step3 cs io output_dir ttl script breakdown
                                    errors output_files fs)))))"

definition execute_full_workflow ::
  "components \<Rightarrow> io_env \<Rightarrow> string list \<Rightarrow> string \<Rightarrow> string \<Rightarrow> Platform \<Rightarrow> int \<Rightarrow> string \<Rightarrow> string
   \<Rightarrow> workflow_result \<times> string list" where
  "execute_full_workflow cs io fs ttl gnr pf target audience output_dir =
     (let errors = []; output_files = [] in
      case script_gen cs ttl gnr pf target audience of
        Inl e \<Rightarrow> (caught e errors output_files, fs)
      | Inr script \<Rightarrow>
         (case script_validator cs script of
            Inl e \<Rightarrow> (caught e errors output_files, fs)
          | Inr (valid, issues) \<Rightarrow>
             if \<not> valid then ((False, errors @ issues, output_files), fs)
             else
               (case mkdir io output_dir of
                  Inl e \<Rightarrow> (caught e errors output_files, fs)
                | Inr _ \<Rightarrow>
                   (let script_file = file_path output_dir ttl ''_script.json'' in
                    case write_text io fs script_file of
                      Inl e \<Rightarrow> (caught e errors output_files, fs)
                    | Inr fs \<Rightarrow>
                       (let output_files = dict_set output_files ''script'' script_file
                        in step2 cs io output_dir ttl script errors output_files fs)))))"

section \<open>JSON: \<open>to_dict\<close>, \<open>from_dict\<close>, \<open>to_json\<close>, \<open>from_json\<close>\<close>

text \<open>
  A JSON value, as \<open>json.loads\<close> returns it and \<open>json.dumps\<close> takes it: an object is a
  dict with string keys, kept in insertion order.  \<open>json.dumps\<close> and \<open>json.loads\<close> belong to
  the standard library and \<open>json.loads(json.dumps(v)) == v\<close> for these values, so the
  text between them is not modelled: \<open>to_json\<close> is \<open>to_dict\<close> and \<open>from_json\<close> is
  \<open>from_dict\<close>.  The records are typed, so where the Python would store a JSON value of
  another type in a field, the model raises \<open>TypeError\<close>.
\<close>

datatype json =
    JNull | JBool bool | JInt int | JStr string | JList "json list" | JObj "(string \<times> json) list"

definition index :: "json \<Rightarrow> string \<Rightarrow> exn + json" where
  \<comment> \<open>\<open>data[key]\<close>\<close>
  "index data k =
     (case data of
        JObj d \<Rightarrow> (case map_of d k of Some v \<Rightarrow> Inr v | None \<Rightarrow> Inl (KeyError k))
      | _ \<Rightarrow> Inl TypeError)"

definition get_or :: "json \<Rightarrow> string \<Rightarrow> json \<Rightarrow> exn + json" where
  \<comment> \<open>\<open>data.get(key, default)\<close>\<close>
  "get_or data k dflt =
     (case data of
        JObj d \<Rightarrow> (case map_of d k of Some v \<Rightarrow> Inr v | None \<Rightarrow> Inr dflt)
      | _ \<Rightarrow> Inl TypeError)"

definition keyword :: "json \<Rightarrow> string list \<Rightarrow> string \<Rightarrow> json option \<Rightarrow> exn + json" where
  \<comment> \<open>the value a dataclass constructor called as \<open>C(**data)\<close> gives to the field \<open>k\<close>:
      a key that is no field of \<open>C\<close>, or a missing field without default, is a TypeError\<close>
  "keyword data flds k dflt =
     (case data of
        JObj d \<Rightarrow>
          if \<not> list_all (\<lambda>(k', v). k' \<in> set flds) d then Inl TypeError
          else (case map_of d k of
                  Some v \<Rightarrow> Inr v
                | None \<Rightarrow> (case dflt of Some v \<Rightarrow> Inr v | None \<Rightarrow> Inl TypeError))
      | _ \<Rightarrow> Inl TypeError)"

definition as_str :: "json \<Rightarrow> exn + string" where
  "as_str v = (case v of JStr s \<Rightarrow> Inr s | _ \<Rightarrow> Inl TypeError)"

definition as_int :: "json \<Rightarrow> exn + int" where
  "as_int v = (case v of JInt i \<Rightarrow> Inr i | _ \<Rightarrow> Inl TypeError)"

definition as_bool :: "json \<Rightarrow> exn + bool" where
  "as_bool v = (case v of JBool b \<Rightarrow> Inr b | _ \<Rightarrow> Inl TypeError)"

definition as_opt_str :: "json \<Rightarrow> exn + string option" where
  "as_opt_str v = (case v of JNull \<Rightarrow> Inr None | JStr s \<Rightarrow> Inr (Some s) | _ \<Rightarrow> Inl TypeError)"

definition as_opt_int :: "json \<Rightarrow> exn + int option" where
  "as_opt_int v = (case v of JNull \<Rightarrow> Inr None | JInt i \<Rightarrow> Inr (Some i) | _ \<Rightarrow> Inl TypeError)"

definition as_list :: "json \<Rightarrow> exn + json list" where
  "as_list v = (case v of JList xs \<Rightarrow> Inr xs | _ \<Rightarrow> Inl TypeError)"

definition opt_str :: "string option \<Rightarrow> json" where
  "opt_str x = (case x of None \<Rightarrow> JNull | Some s \<Rightarrow> JStr s)"

definition opt_int :: "int option \<Rightarrow> json" where
  "opt_int x = (case x of None \<Rightarrow> JNull | Some i \<Rightarrow> JInt i)"

definition bind :: "exn + 'a \<Rightarrow> ('a \<Rightarrow> exn + 'b) \<Rightarrow> exn + 'b" where
  \<comment> \<open>evaluate, and go on with the value unless an exception was raised\<close>
  "bind m f = (case m of Inl e \<Rightarrow> Inl e | Inr x \<Rightarrow> f x)"

definition Platform_of :: "string \<Rightarrow> exn + Platform" where
  \<comment> \<open>the call \<open>Platform(v)\<close>\<close>
  "Platform_of v =
     (if v = ''tiktok'' then Inr TIKTOK else if v = ''kuaishou'' then Inr KUAISHOU
      else if v = ''youtube_shorts'' then Inr YOUTUBE_SHORTS
      else if v = ''instagram_reels'' then Inr INSTAGRAM_REELS
      else Inl (NotAnEnumValue v))"

subsection \<open>Script\<close>

definition Dialogue_asdict :: "Dialogue \<Rightarrow> json" where
  "Dialogue_asdict d =
     JObj [(''character'', JStr (d_character d)), (''text'', JStr (d_text d)),
           (''action'', opt_str (d_action d))]"

definition Character_asdict :: "Character \<Rightarrow> json" where
  "Character_asdict c =
     JObj [(''name'', JStr (c_name c)), (''description'', opt_str (c_description c)),
           (''age_range'', opt_str (c_age_range c))]"

definition Scene_asdict :: "Scene \<Rightarrow> json" where
  "Scene_asdict s =
     JObj [(''scene_number'', JInt (scene_number s)), (''location'', JStr (location s)),
           (''time_of_day'', JStr (time_of_day s)),
           (''interior_exterior'', JStr (interior_exterior s)),
           (''description'', JStr (description s)),
           (''dialogues'', JList (map Dialogue_asdict (dialogues s))),
           (''estimated_duration_seconds'', opt_int (estimated_duration_seconds s)),
           (''is_hook'', JBool (is_hook s))]"

definition CostFlag_asdict :: "CostFlag \<Rightarrow> json" where
  "CostFlag_asdict f =
     JObj [(''element_type'', JStr (f_element_type f)), (''description'', JStr (f_description f)),
           (''estimated_complexity'', JStr (f_estimated_complexity f))]"

definition Script_to_dict :: "Script \<Rightarrow> json" where
  "Script_to_dict s =
     JObj [(''title'', JStr (title s)), (''genre'', JStr (genre s)),
           (''platform'', JStr (Platform_value (platform s))),
           (''target_duration_seconds'', JInt (target_duration_seconds s)),
           (''target_audience'', JStr (target_audience s)),
           (''characters'', JList (map Character_asdict (characters s))),
           (''scenes'', JList (map Scene_asdict (scenes s))),
           (''cost_flags'', JList (map CostFlag_asdict (cost_flags s)))]"

definition Script_to_json :: "Script \<Rightarrow> json" where
  "Script_to_json s = Script_to_dict s"

definition Dialogue_of :: "json \<Rightarrow> exn + Dialogue" where
  \<comment> \<open>\<open>Dialogue(**d)\<close>\<close>
  "Dialogue_of d =
     (let flds = [''character'', ''text'', ''action''] in
      bind (bind (keyword d flds ''character'' None) as_str) (\<lambda>c.
      bind (bind (keyword d flds ''text'' None) as_str) (\<lambda>t.
      bind (bind (keyword d flds ''action'' (Some JNull)) as_opt_str) (\<lambda>a.
      Inr \<lparr>d_character = c, d_text = t, d_action = a\<rparr>))))"

definition Character_of :: "json \<Rightarrow> exn + Character" where
  \<comment> \<open>\<open>Character(**char)\<close>\<close>
  "Character_of c =
     (let flds = [''name'', ''description'', ''age_range''] in
      bind (bind (keyword c flds ''name'' None) as_str) (\<lambda>n.
      bind (bind (keyword c flds ''description'' (Some JNull)) as_opt_str) (\<lambda>d.
      bind (bind (keyword c flds ''age_range'' (Some JNull)) as_opt_str) (\<lambda>a.
      Inr \<lparr>c_name = n, c_description = d, c_age_range = a\<rparr>))))"

definition Scene_of :: "json \<Rightarrow> exn + Scene" where
  \<comment> \<open>\<open>Scene(**{**scene, "dialogues": [Dialogue(**d) for d in scene.get("dialogues", [])]})\<close>\<close>
  "Scene_of scene =
     (let flds = [''scene_number'', ''location'', ''time_of_day'', ''interior_exterior'',
                    ''description'', ''dialogues'', ''estimated_duration_seconds'', ''is_hook''] in
      bind (bind (bind (get_or scene ''dialogues'' (JList [])) as_list) (map_exn Dialogue_of)) (\<lambda>ds.
      bind (bind (keyword scene flds ''scene_number'' None) as_int) (\<lambda>n.
      bind (bind (keyword scene flds ''location'' None) as_str) (\<lambda>l.
      bind (bind (keyword scene flds ''time_of_day'' None) as_str) (\<lambda>t.
      bind (bind (keyword scene flds ''interior_exterior'' None) as_str) (\<lambda>ie.
      bind (bind (keyword scene flds ''description'' None) as_str) (\<lambda>de.
      bind (bind (keyword scene flds ''estimated_duration_seconds'' (Some JNull)) as_opt_int) (\<lambda>du.
      bind (bind (keyword scene flds ''is_hook'' (Some (JBool False))) as_bool) (\<lambda>h.
      Inr \<lparr>scene_number = n, location = l, time_of_day = t, interior_exterior = ie,
           description = de, dialogues = ds, estimated_duration_seconds = du,
           is_hook = h\<rparr>)))))))))"

definition CostFlag_of :: "json \<Rightarrow> exn + CostFlag" where
  \<comment> \<open>\<open>CostFlag(**flag)\<close>\<close>
  "CostFlag_of f =
     (let flds = [''element_type'', ''description'', ''estimated_complexity''] in
      bind (bind (keyword f flds ''element_type'' None) as_str) (\<lambda>t.
      bind (bind (keyword f flds ''description'' None) as_str) (\<lambda>d.
      bind (bind (keyword f flds ''estimated_complexity'' None) as_str) (\<lambda>c.
      Inr \<lparr>f_element_type = t, f_description = d, f_estimated_complexity = c\<rparr>))))"

definition Script_from_dict :: "json \<Rightarrow> exn + Script" where
  "Script_from_dict data =
     bind (bind (index data ''title'') as_str) (\<lambda>t.
     bind (bind (index data ''genre'') as_str) (\<lambda>g.
     bind (bind (bind (index data ''platform'') as_str) Platform_of) (\<lambda>p.
     bind (bind (index data ''target_duration_seconds'') as_int) (\<lambda>d.
     bind (bind (index data ''target_audience'') as_str) (\<lambda>a.
     bind (bind (bind (get_or data ''characters'' (JList [])) as_list) (map_exn Character_of)) (\<lambda>cs.
     bind (bind (bind (get_or data ''scenes'' (JList [])) as_list) (map_exn Scene_of)) (\<lambda>ss.
     bind (bind (bind (get_or data ''cost_flags'' (JList [])) as_list) (map_exn CostFlag_of)) (\<lambda>fs.
     Inr \<lparr>title = t, genre = g, platform = p, target_duration_seconds = d,
          target_audience = a, characters = cs, scenes = ss, cost_flags = fs\<rparr>))))))))"

definition Script_from_json :: "json \<Rightarrow> exn + Script" where
  "Script_from_json j = Script_from_dict j"

subsection \<open>Breakdown\<close>

definition ProductionElement_asdict :: "ProductionElement \<Rightarrow> json" where
  "ProductionElement_asdict p =
     JObj [(''element_type'', JStr (pe_element_type p)), (''description'', JStr (pe_description p)),
           (''quantity'', JInt (pe_quantity p)), (''notes'', opt_str (pe_notes p))]"

definition BreakdownEntry_to_dict :: "BreakdownEntry \<Rightarrow> json" where
  "BreakdownEntry_to_dict e =
     JObj [(''scene_number'', JInt (e_scene_number e)),
           (''scene_description'', JStr (e_scene_description e)),
           (''location'', JStr (e_location e)),
           (''location_type'', JStr (LocationType_value (e_location_type e))),
           (''time_of_day'', JStr (TimeOfDay_value (e_time_of_day e))),
           (''characters'', JList (map JStr (e_characters e))),
           (''props'', JList (map ProductionElement_asdict (e_props e))),
           (''wardrobe'', JList (map ProductionElement_asdict (e_wardrobe e))),
           (''makeup'', JList (map ProductionElement_asdict (e_makeup e))),
           (''special_requirements'', JList (map ProductionElement_asdict (e_special_requirements e))),
           (''estimated_setup_time_minutes'', opt_int (e_estimated_setup_time_minutes e))]"

definition Breakdown_to_dict :: "Breakdown \<Rightarrow> json" where
  "Breakdown_to_dict b =
     JObj [(''script_title'', JStr (b_script_title b)),
           (''entries'', JList (map BreakdownEntry_to_dict (entries b)))]"

definition Breakdown_to_json :: "Breakdown \<Rightarrow> json" where
  "Breakdown_to_json b = Breakdown_to_dict b"

definition ProductionElement_of :: "json \<Rightarrow> exn + ProductionElement" where
  \<comment> \<open>\<open>ProductionElement(**p)\<close>\<close>
  "ProductionElement_of p =
     (let flds = [''element_type'', ''description'', ''quantity'', ''notes''] in
      bind (bind (keyword p flds ''element_type'' None) as_str) (\<lambda>t.
      bind (bind (keyword p flds ''description'' None) as_str) (\<lambda>d.
      bind (bind (keyword p flds ''quantity'' (Some (JInt 1))) as_int) (\<lambda>q.
      bind (bind (keyword p flds ''notes'' (Some JNull)) as_opt_str) (\<lambda>n.
      Inr \<lparr>pe_element_type = t, pe_description = d, pe_quantity = q, pe_notes = n\<rparr>)))))"

definition elements_of :: "json \<Rightarrow> string \<Rightarrow> exn + ProductionElement list" where
  \<comment> \<open>\<open>[ProductionElement(**p) for p in e.get(key, [])]\<close>\<close>
  "elements_of e k = bind (bind (get_or e k (JList [])) as_list) (map_exn ProductionElement_of)"

definition BreakdownEntry_of :: "json \<Rightarrow> exn + BreakdownEntry" where
  "BreakdownEntry_of e =
     bind (bind (index e ''scene_number'') as_int) (\<lambda>n.
     bind (bind (index e ''scene_description'') as_str) (\<lambda>d.
     bind (bind (index e ''location'') as_str) (\<lambda>l.
     bind (bind (bind (index e ''location_type'') as_str) LocationType_of) (\<lambda>lt.
     bind (bind (bind (index e ''time_of_day'') as_str) TimeOfDay_of) (\<lambda>tod.
     bind (bind (bind (get_or e ''characters'' (JList [])) as_list) (map_exn as_str)) (\<lambda>cs.
     bind (elements_of e ''props'') (\<lambda>ps.
     bind (elements_of e ''wardrobe'') (\<lambda>ws.
     bind (elements_of e ''makeup'') (\<lambda>ms.
     bind (elements_of e ''special_requirements'') (\<lambda>srs.
     bind (bind (get_or e ''estimated_setup_time_minutes'' JNull) as_opt_int) (\<lambda>st.
     Inr \<lparr>e_scene_number = n, e_scene_description = d, e_location = l,
          e_location_type = lt, e_time_of_day = tod, e_characters = cs, e_props = ps,
          e_wardrobe = ws, e_makeup = ms, e_special_requirements = srs,
          e_estimated_setup_time_minutes = st\<rparr>)))))))))))"

definition Breakdown_from_dict :: "json \<Rightarrow> exn + Breakdown" where
  "Breakdown_from_dict data =
     bind (bind (index data ''script_title'') as_str) (\<lambda>t.
     bind (bind (bind (get_or data ''entries'' (JList [])) as_list) (map_exn BreakdownEntry_of)) (\<lambda>es.
     Inr \<lparr>b_script_title = t, entries = es\<rparr>))"

definition Breakdown_from_json :: "json \<Rightarrow> exn + Breakdown" where
  "Breakdown_from_json j = Breakdown_from_dict j"

subsection \<open>Storyboard\<close>

fun ShotSize_value :: "ShotSize \<Rightarrow> string" where
  "ShotSize_value EXTREME_WIDE = ''EWS''"
| "ShotSize_value WIDE = ''WS''"
| "ShotSize_value MEDIUM = ''MS''"
| "ShotSize_value CLOSE_UP = ''CU''"
| "ShotSize_value EXTREME_CLOSE_UP = ''ECU''"

fun CameraMovement_value :: "CameraMovement \<Rightarrow> string" where
  "CameraMovement_value STATIC = ''Static''"
| "CameraMovement_value PAN = ''Pan''"
| "CameraMovement_value TILT = ''Tilt''"
| "CameraMovement_value DOLLY = ''Dolly''"
| "CameraMovement_value TRACKING = ''Tracking''"
| "CameraMovement_value HANDHELD = ''Handheld''"
| "CameraMovement_value CRANE = ''Crane''"

definition ShotSize_of :: "string \<Rightarrow> exn + ShotSize" where
  \<comment> \<open>the call \<open>ShotSize(v)\<close>\<close>
  "ShotSize_of v =
     (if v = ''EWS'' then Inr EXTREME_WIDE else if v = ''WS'' then Inr WIDE
      else if v = ''MS'' then Inr MEDIUM else if v = ''CU'' then Inr CLOSE_UP
      else if v = ''ECU'' then Inr EXTREME_CLOSE_UP else Inl (NotAnEnumValue v))"

definition CameraMovement_of :: "string \<Rightarrow> exn + CameraMovement" where
  \<comment> \<open>the call \<open>CameraMovement(v)\<close>\<close>
  "CameraMovement_of v =
     (if v = ''Static'' then Inr STATIC else if v = ''Pan'' then Inr PAN
      else if v = ''Tilt'' then Inr TILT else if v = ''Dolly'' then Inr DOLLY
      else if v = ''Tracking'' then Inr TRACKING else if v = ''Handheld'' then Inr HANDHELD
      else if v = ''Crane'' then Inr CRANE else Inl (NotAnEnumValue v))"

definition Shot_to_dict :: "Shot \<Rightarrow> json" where
  "Shot_to_dict sh =
     JObj [(''shot_id'', JStr (shot_id sh)), (''scene_number'', JInt (sh_scene_number sh)),
           (''shot_size'', JStr (ShotSize_value (shot_size sh))),
           (''camera_position'', JStr (camera_position sh)),
           (''camera_movement'', JStr (CameraMovement_value (camera_movement sh))),
           (''visual_description'', JStr (visual_description sh)),
           (''suggested_duration_seconds'', JInt (suggested_duration_seconds sh)),
           (''audio_notes'', opt_str (audio_notes sh))]"

definition Storyboard_to_dict :: "Storyboard \<Rightarrow> json" where
  "Storyboard_to_dict sb =
     JObj [(''script_title'', JStr (sb_script_title sb)),
           (''target_duration_seconds'', JInt (sb_target_duration_seconds sb)),
           (''shots'', JList (map Shot_to_dict (shots sb)))]"

definition Storyboard_to_json :: "Storyboard \<Rightarrow> json" where
  "Storyboard_to_json sb = Storyboard_to_dict sb"

definition Shot_of :: "json \<Rightarrow> exn + Shot" where
  "Shot_of s =
     bind (bind (index s ''shot_id'') as_str) (\<lambda>i.
     bind (bind (index s ''scene_number'') as_int) (\<lambda>n.
     bind (bind (bind (index s ''shot_size'') as_str) ShotSize_of) (\<lambda>sz.
     bind (bind (index s ''camera_position'') as_str) (\<lambda>p.
     bind (bind (bind (index s ''camera_movement'') as_str) CameraMovement_of) (\<lambda>m.
     bind (bind (index s ''visual_description'') as_str) (\<lambda>v.
     bind (bind (index s ''suggested_duration_seconds'') as_int) (\<lambda>d.
     bind (bind (get_or s ''audio_notes'' JNull) as_opt_str) (\<lambda>a.
     Inr \<lparr>shot_id = i, sh_scene_number = n, shot_size = sz, camera_position = p,
          camera_movement = m, visual_description = v, suggested_duration_seconds = d,
          audio_notes = a\<rparr>))))))))"

definition Storyboard_from_dict :: "json \<Rightarrow> exn + Storyboard" where
  "Storyboard_from_dict data =
     bind (bind (index data ''script_title'') as_str) (\<lambda>t.
     bind (bind (index data ''target_duration_seconds'') as_int) (\<lambda>d.
     bind (bind (bind (get_or data ''shots'' (JList [])) as_list) (map_exn Shot_of)) (\<lambda>shs.
     Inr \<lparr>sb_script_title = t, sb_target_duration_seconds = d, shots = shs\<rparr>)))"

definition Storyboard_from_json :: "json \<Rightarrow> exn + Storyboard" where
  "Storyboard_from_json j = Storyboard_from_dict j"

section \<open>Auxiliary definitions and example inputs\<close>

definition entry_for :: "Scene \<Rightarrow> BreakdownEntry" where
  \<comment> \<open>the entry that \<open>_create_breakdown_entry\<close> builds for a scene that passes
      \<open>Scene.validate\<close>, where neither enum constructor raises\<close>
  "entry_for scene =
     \<lparr>e_scene_number = scene_number scene,
      e_scene_description = description scene,
      e_location = location scene,
      e_location_type = (if interior_exterior scene = ''INT'' then INTERIOR else EXTERIOR),
      e_time_of_day = (if time_of_day scene = ''DAY'' then DAY
                       else if time_of_day scene = ''NIGHT'' then NIGHT
                       else if time_of_day scene = ''DAWN'' then DAWN else DUSK),
      e_characters = speakers scene, e_props = extract_props scene,
      e_wardrobe = extract_wardrobe scene (speakers scene),
      e_makeup = extract_makeup scene,
      e_special_requirements = extract_special_requirements scene,
      e_estimated_setup_time_minutes = Some (estimate_setup_time scene)\<rparr>"

definition drama_script :: Script where
  \<comment> \<open>the scenario of the tests: title "Test", genre "Drama", TikTok, 60 seconds, "Adults"\<close>
  "drama_script = ScriptGenerator_generate ''Test'' ''Drama'' TIKTOK 60 ''Adults'' None"

definition drama_breakdown :: Breakdown where
  \<comment> \<open>what \<open>BreakdownGenerator.generate\<close> returns for \<open>drama_script\<close>\<close>
  "drama_breakdown = \<lparr>b_script_title = title drama_script,
                       entries = map entry_for (scenes drama_script)\<rparr>"

definition says :: "string \<Rightarrow> Dialogue" where
  "says t = \<lparr>d_character = ''Elena'', d_text = t, d_action = None\<rparr>"

definition example_scene :: "int \<Rightarrow> bool \<Rightarrow> Dialogue list \<Rightarrow> int option \<Rightarrow> Scene" where
  "example_scene n hook ds duration =
     \<lparr>scene_number = n, location = ''Studio'', time_of_day = ''DAY'', interior_exterior = ''INT'',
      description = ''Two friends talk'', dialogues = ds,
      estimated_duration_seconds = duration, is_hook = hook\<rparr>"

definition example_script :: "int \<Rightarrow> Scene list \<Rightarrow> Script" where
  "example_script target ss =
     \<lparr>title = ''Test'', genre = ''Drama'', platform = TIKTOK, target_duration_seconds = target,
      target_audience = ''Adults'',
      characters = [\<lparr>c_name = ''Elena'', c_description = None, c_age_range = None\<rparr>],
      scenes = ss, cost_flags = []\<rparr>"

definition example_shot :: "string \<Rightarrow> int \<Rightarrow> int \<Rightarrow> Shot" where
  "example_shot i n duration =
     \<lparr>shot_id = i, sh_scene_number = n, shot_size = MEDIUM, camera_position = ''Eye level'',
      camera_movement = STATIC, visual_description = ''Elena speaks'',
      suggested_duration_seconds = duration, audio_notes = None\<rparr>"

definition example_storyboard :: "Shot list \<Rightarrow> Storyboard" where
  "example_storyboard shs =
     \<lparr>sb_script_title = ''Test'', sb_target_duration_seconds = 10, shots = shs\<rparr>"

definition reliable :: io_env where
  \<comment> \<open>an environment where no \<open>mkdir\<close> and no \<open>write_text\<close> raises\<close>
  "reliable = \<lparr>mkdir_fails = (\<lambda>p. False), write_fails = (\<lambda>p. False)\<rparr>"

definition failing_at :: "string \<Rightarrow> io_env" where
  \<comment> \<open>an environment where \<open>write_text\<close> raises at the path \<open>p\<close> and nowhere else\<close>
  "failing_at p = \<lparr>mkdir_fails = (\<lambda>q. False), write_fails = (\<lambda>q. q = p)\<rparr>"

definition artifacts :: "string list" where
  \<comment> \<open>the keys of \<open>output_files\<close>, in the order the workflow stores them\<close>
  "artifacts = [''script'', ''breakdown_json'', ''breakdown_csv'', ''storyboard'', ''shotlist'',
                ''production_notes'', ''postproduction_notes'']"

definition drama_storyboard :: Storyboard where
  \<comment> \<open>what \<open>StoryboardGenerator.generate\<close> returns for \<open>drama_script\<close> and its breakdown\<close>
  "drama_storyboard =
     \<lparr>sb_script_title = title drama_script,
      sb_target_duration_seconds = target_duration_seconds drama_script,
      shots = concat (map (\<lambda>sc. generate_shots_for_scene sc drama_script 0) (scenes drama_script))\<rparr>"

section \<open>Facts about strings\<close>

lemma blank_iff: "blank s = list_all isspace s"
proof (cases "\<forall>x\<in>set s. isspace x")
  case True
  then have "dropWhile isspace s = []" by simp
  then have "strip s = []" by (simp only: strip_def rev.simps dropWhile.simps)
  then show ?thesis using True by (simp add: blank_def list_all_iff)
next
  case False
  then have ne: "dropWhile isspace s \<noteq> []" by simp
  then have h1: "\<not> isspace (hd (dropWhile isspace s))" by (rule hd_dropWhile)
  have h2: "hd (dropWhile isspace s) \<in> set (rev (dropWhile isspace s))" using ne by simp
  have "dropWhile isspace (rev (dropWhile isspace s)) \<noteq> []"
    using h1 h2 by (metis dropWhile_eq_Nil_conv)
  then have "strip s \<noteq> []" by (simp only: strip_def rev_is_Nil_conv not_False_eq_True)
  moreover have "s \<noteq> []" using False by auto
  ultimately show ?thesis using False by (simp add: blank_def list_all_iff)
qed

lemma not_blank_Cons: "\<not> isspace c \<Longrightarrow> \<not> blank (c # cs)"
  by (simp add: blank_iff)

lemma isspace_simps [simp]:
  "isspace (Char b0 b1 b2 b3 b4 b5 b6 b7) =
     (let n = (of_char (Char b0 b1 b2 b3 b4 b5 b6 b7) :: nat) in
     (9 \<le> n \<and> n \<le> 13) \<or> (28 \<le> n \<and> n \<le> 32) \<or> n = 133 \<or> n = 160)"
  by (simp add: isspace_def)

section \<open>The generated script\<close>

lemma generate_characters_cases:
  "generate_characters g a \<in> set
     [[\<lparr>c_name = ''Maya'', c_description = Some ''Barista with a secret talent'',
          c_age_range = Some ''22-28''\<rparr>,
         \<lparr>c_name = ''Alex'', c_description = Some ''Regular customer, tech startup founder'',
          c_age_range = Some ''25-30''\<rparr>],
        [\<lparr>c_name = ''Jordan'', c_description = Some ''Optimistic dreamer'',
          c_age_range = Some ''20-28''\<rparr>,
         \<lparr>c_name = ''Sam'', c_description = Some ''Sarcastic best friend'',
          c_age_range = Some ''20-28''\<rparr>],
        [\<lparr>c_name = ''Elena'', c_description = Some ''Determined protagonist'',
          c_age_range = Some ''25-35''\<rparr>,
         \<lparr>c_name = ''Marcus'', c_description = Some ''Mysterious stranger'',
          c_age_range = Some ''30-40''\<rparr>],
        [\<lparr>c_name = ''Riley'', c_description = Some ''Skeptical investigator'',
          c_age_range = Some ''25-32''\<rparr>],
        [\<lparr>c_name = ''Taylor'', c_description = Some ''Relatable protagonist'',
          c_age_range = Some ''22-30''\<rparr>]]"
  unfolding generate_characters_def Let_def by simp

lemma generate_characters_valid:
  "generate_characters g a \<noteq> [] \<and> list_all (\<lambda>c. \<not> blank (c_name c)) (generate_characters g a)"
  using generate_characters_cases[of g a] by (auto simp: blank_iff)

lemma hook_text_ok:
  "\<not> blank (fst (generate_hook g c)) \<and> length (fst (generate_hook g c)) \<le> 500"
  unfolding generate_hook_def by (simp add: blank_iff)

lemma development_text_ok:
  "\<not> blank (fst (generate_development g c c2)) \<and> length (fst (generate_development g c c2)) \<le> 500"
  unfolding generate_development_def by (simp add: blank_iff)

lemma resolution_text_ok:
  "\<not> blank (fst (generate_resolution g c c2)) \<and> length (fst (generate_resolution g c c2)) \<le> 500"
  unfolding generate_resolution_def by (simp add: blank_iff)

lemma hook_text_len: "\<not> 500 < length (fst (generate_hook g c))"
  using hook_text_ok[of g c] by simp

lemma development_text_len: "\<not> 500 < length (fst (generate_development g c c2))"
  using development_text_ok[of g c c2] by simp

lemma resolution_text_len: "\<not> 500 < length (fst (generate_resolution g c c2))"
  using resolution_text_ok[of g c c2] by simp

lemma location_not_blank: "\<not> blank (get_location_for_genre g st)"
  unfolding get_location_for_genre_def dict_get_def by (simp add: blank_iff)


lemma generate_scenes_eq:
  "generate_scenes g d chars c =
    (let gl = lower g;
         char1 = (case chars of [] \<Rightarrow> ''Character'' | c # _ \<Rightarrow> c_name c);
         char2 = (case chars of _ # c # _ \<Rightarrow> Some (c_name c) | _ \<Rightarrow> None);
         hook_scene = \<lparr>scene_number = 1,
                        location = get_location_for_genre gl ''hook'',
                        time_of_day = ''DAY'', interior_exterior = ''INT'',
                        description = get_scene_description gl ''hook'',
                        dialogues = [\<lparr>d_character = char1, d_text = fst (generate_hook gl char1),
                                      d_action = Some (snd (generate_hook gl char1))\<rparr>],
                        estimated_duration_seconds = Some 5, is_hook = True\<rparr>;
         dev_scene = \<lparr>scene_number = 2,
                        location = get_location_for_genre gl ''development'',
                        time_of_day = ''DAY'', interior_exterior = ''INT'',
                        description = get_scene_description gl ''development'',
                        dialogues = [\<lparr>d_character = char1,
                                      d_text = fst (generate_development gl char1 char2),
                                      d_action = Some (snd (generate_development gl char1 char2))\<rparr>],
                        estimated_duration_seconds = Some ((d - 5) div 2), is_hook = False\<rparr>;
         res_scene = (\<lambda>n r. \<lparr>scene_number = n,
                        location = get_location_for_genre gl ''resolution'',
                        time_of_day = ''DAY'', interior_exterior = ''INT'',
                        description = get_scene_description gl ''resolution'',
                        dialogues = [\<lparr>d_character = char1,
                                      d_text = fst (generate_resolution gl char1 char2),
                                      d_action = Some (snd (generate_resolution gl char1 char2))\<rparr>],
                        estimated_duration_seconds = Some r, is_hook = False\<rparr>)
     in if d \<ge> 45 then [hook_scene, dev_scene, res_scene 3 (d - 5 - (d - 5) div 2)]
        else [hook_scene, res_scene 2 (d - 5)])"
  unfolding generate_scenes_def Let_def by (simp add: case_prod_beta)


lemma Script_validate_generated:
  assumes "\<not> blank ttl" "\<not> blank g" "\<not> blank a" "30 \<le> d" "d \<le> 120"
  shows "Script_validate (ScriptGenerator_generate ttl g pf d a c) = (True, None)"
proof -
  obtain ch chs where chars: "generate_characters g a = ch # chs" and nb: "\<not> blank (c_name ch)"
    and all: "list_all (\<lambda>c. \<not> blank (c_name c)) chs"
    using generate_characters_valid[of g a] by (cases "generate_characters g a") auto
  have cv: "validate_all Character_validate (ch # chs) = None"
    using nb all by (induction chs) (auto simp: Character_validate_def)
  show ?thesis
    using assms nb cv
    unfolding ScriptGenerator_generate_def Script_validate_def Let_def
    by (simp add: chars generate_scenes_eq Let_def Scene_validate_def Dialogue_validate_def
        hook_text_ok development_text_ok resolution_text_ok location_not_blank spoken_lines_def
        hook_text_len development_text_len resolution_text_len)
qed


lemma generated_scene_numbers:
  "map scene_number (scenes (ScriptGenerator_generate ttl g pf d a c))
     = [1 .. int (length (scenes (ScriptGenerator_generate ttl g pf d a c)))]"
  unfolding ScriptGenerator_generate_def
  by (simp add: generate_scenes_eq Let_def upto_rec1)

section \<open>Helper facts about iteration\<close>

lemma validate_all_None: "(validate_all v xs = None) = list_all (\<lambda>x. fst (v x)) xs"
  by (induction xs) (auto split: prod.splits)

lemma map_exn_Inr:
  "list_all (\<lambda>x. f x = Inr (g x)) xs \<Longrightarrow> map_exn f xs = Inr (map g xs)"
  by (induction xs) auto

lemma sum_list_all_zero: "\<forall>x\<in>set xs. f x = (0::int) \<Longrightarrow> sum_list (map f xs) = 0"
  by (induction xs) auto

section \<open>Valid scripts and the breakdown generator\<close>

lemma Scene_validate_fields:
  "fst (Scene_validate sc) \<Longrightarrow>
     1 \<le> scene_number sc \<and> \<not> blank (location sc) \<and>
     time_of_day sc \<in> set [''DAY'', ''NIGHT'', ''DAWN'', ''DUSK''] \<and>
     interior_exterior sc \<in> set [''INT'', ''EXT'']"
  unfolding Scene_validate_def by (simp split: if_splits)

lemma create_breakdown_entry_valid:
  "fst (Scene_validate sc) \<Longrightarrow> create_breakdown_entry sc s = Inr (entry_for sc)"
  using Scene_validate_fields[of sc]
  unfolding create_breakdown_entry_def entry_for_def LocationType_of_def TimeOfDay_of_def Let_def
  by auto

lemma Script_validate_scenes:
  "fst (Script_validate s) \<Longrightarrow> list_all (\<lambda>sc. fst (Scene_validate sc)) (scenes s)"
  unfolding Script_validate_def
  by (auto split: if_splits option.splits simp: validate_all_None)

lemma Script_validate_title: "fst (Script_validate s) \<Longrightarrow> \<not> blank (title s)"
  unfolding Script_validate_def by (simp split: if_splits)

lemma Script_validate_target: "fst (Script_validate s) \<Longrightarrow> 30 \<le> target_duration_seconds s"
  unfolding Script_validate_def by (simp split: if_splits)

lemma Script_validate_target_upper:
  "fst (Script_validate s) \<Longrightarrow> target_duration_seconds s \<le> 120"
  unfolding Script_validate_def by (simp split: if_splits)

lemma BreakdownGenerator_generate_valid:
  "fst (Script_validate s) \<Longrightarrow>
     BreakdownGenerator_generate s = Inr \<lparr>b_script_title = title s, entries = map entry_for (scenes s)\<rparr>"
proof -
  assume v: "fst (Script_validate s)"
  have "list_all (\<lambda>sc. create_breakdown_entry sc s = Inr (entry_for sc)) (scenes s)"
    using Script_validate_scenes[OF v] by (simp add: list_all_iff create_breakdown_entry_valid)
  then have "map_exn (\<lambda>sc. create_breakdown_entry sc s) (scenes s) = Inr (map entry_for (scenes s))"
    by (rule map_exn_Inr)
  then show ?thesis using v unfolding BreakdownGenerator_generate_def
    by (cases "Script_validate s") simp
qed

lemma BreakdownGenerator_generate_invalid:
  "\<not> fst (Script_validate s) \<Longrightarrow>
     BreakdownGenerator_generate s = Inl (InvalidScript (snd (Script_validate s)))"
  unfolding BreakdownGenerator_generate_def by (cases "Script_validate s") simp

lemma drama_script_valid: "fst (Script_validate drama_script)"
  unfolding drama_script_def
  by (simp add: Script_validate_generated blank_iff)

section \<open>Scripts: claims C2, C3, C5 and C9\<close>

text \<open>
  C2.  Whatever the title, genre, platform, audience, concept and target duration, the
  script that \<open>ScriptGenerator.generate\<close> returns has a first scene, that scene is the
  hook, lasts 5 seconds and is scene 1, and the scene numbers are 1, 2, ..., \<open>len(scenes)\<close>
  in list order.
\<close>

theorem generated_script_hook_and_numbering:
  "scenes (ScriptGenerator_generate ttl g pf d a c) \<noteq> [] \<and>
   is_hook (scenes (ScriptGenerator_generate ttl g pf d a c) ! 0) \<and>
   estimated_duration_seconds (scenes (ScriptGenerator_generate ttl g pf d a c) ! 0) = Some 5 \<and>
   scene_number (scenes (ScriptGenerator_generate ttl g pf d a c) ! 0) = 1 \<and>
   map scene_number (scenes (ScriptGenerator_generate ttl g pf d a c))
     = [1 .. int (length (scenes (ScriptGenerator_generate ttl g pf d a c)))]"
  unfolding ScriptGenerator_generate_def
  by (simp add: generate_scenes_eq Let_def upto_rec1)

theorem generated_script_hook_and_numbering_witness:
  "length (scenes (ScriptGenerator_generate ''Test'' ''Drama'' TIKTOK 60 ''Adults'' None)) = 3 \<and>
   is_hook (scenes (ScriptGenerator_generate ''Test'' ''Drama'' TIKTOK 60 ''Adults'' None) ! 0) \<and>
   map scene_number (scenes (ScriptGenerator_generate ''Test'' ''Drama'' TIKTOK 60 ''Adults'' None))
     = [1, 2, 3]"
proof -
  have "length (scenes (ScriptGenerator_generate ''Test'' ''Drama'' TIKTOK 60 ''Adults'' None)) = 3"
    unfolding ScriptGenerator_generate_def by (simp add: generate_scenes_eq Let_def)
  then show ?thesis
    using generated_script_hook_and_numbering
            [of "''Test''" "''Drama''" TIKTOK 60 "''Adults''" None]
    by (simp add: upto_rec1)
qed

text \<open>
  C3, as amended.  \<open>ScriptGenerator.generate\<close> has no raising branch (the model is a total
  function, not a sum).  For every input whose title, genre and target audience each hold a
  character that is not whitespace, and whose target duration is between 30 and 120, the
  generated script passes \<open>Script.validate\<close> with \<open>(True, None)\<close>.
  \<open>BreakdownGenerator.generate\<close> raises exactly when its input script fails
  \<open>Script.validate\<close>, so it returns a breakdown for such a generated script.
\<close>

theorem generated_script_validates:
  assumes "\<not> blank ttl" "\<not> blank g" "\<not> blank a" "30 \<le> d" "d \<le> 120"
  shows "Script_validate (ScriptGenerator_generate ttl g pf d a c) = (True, None) \<and>
         (\<forall>s. (\<exists>e. BreakdownGenerator_generate s = Inl e) = (\<not> fst (Script_validate s))) \<and>
         (\<exists>b. BreakdownGenerator_generate (ScriptGenerator_generate ttl g pf d a c) = Inr b)"
proof -
  have v: "Script_validate (ScriptGenerator_generate ttl g pf d a c) = (True, None)"
    using assms by (rule Script_validate_generated)
  have iff: "\<forall>s. (\<exists>e. BreakdownGenerator_generate s = Inl e) = (\<not> fst (Script_validate s))"
  proof
    fix s
    show "(\<exists>e. BreakdownGenerator_generate s = Inl e) = (\<not> fst (Script_validate s))"
      using BreakdownGenerator_generate_valid[of s] BreakdownGenerator_generate_invalid[of s]
      by (cases "fst (Script_validate s)") auto
  qed
  show ?thesis
    using v iff BreakdownGenerator_generate_valid[of "ScriptGenerator_generate ttl g pf d a c"]
    by simp
qed

theorem generated_script_validates_witness:
  "\<not> blank ''Test'' \<and> \<not> blank ''Drama'' \<and> \<not> blank ''Adults'' \<and>
   Script_validate (ScriptGenerator_generate ''Test'' ''Drama'' TIKTOK 60 ''Adults'' None)
     = (True, None) \<and>
   (\<exists>b. BreakdownGenerator_generate
           (ScriptGenerator_generate ''Test'' ''Drama'' TIKTOK 60 ''Adults'' None) = Inr b)"
proof -
  have h: "\<not> blank ''Test''" "\<not> blank ''Drama''" "\<not> blank ''Adults''"
          "(30::int) \<le> 60" "(60::int) \<le> 120"
    by (simp_all add: blank_iff)
  show ?thesis using h generated_script_validates[OF h, of TIKTOK None] by blast
qed

text \<open>
  C3 as stated fails: the title \<open>" "\<close> is not empty, yet the script generated for it fails
  \<open>Script.validate\<close> with "Title cannot be empty", and \<open>BreakdownGenerator.generate\<close> raises
  on that script.
\<close>

theorem whitespace_title_rejected:
  "'' '' \<noteq> [] \<and> ''Drama'' \<noteq> [] \<and> ''Adults'' \<noteq> [] \<and> (30::int) \<le> 60 \<and> (60::int) \<le> 120 \<and>
   Script_validate (ScriptGenerator_generate '' '' ''Drama'' TIKTOK 60 ''Adults'' None)
     = (False, Some TitleEmpty) \<and>
   BreakdownGenerator_generate (ScriptGenerator_generate '' '' ''Drama'' TIKTOK 60 ''Adults'' None)
     = Inl (InvalidScript (Some TitleEmpty))"
  by code_simp

text \<open>
  The two float operations of \<open>validate_for_production\<close>, on the integers that reach them:
  a positive target of at most 120 and a non-negative numerator.
\<close>

lemma float_overflow_bound_pos: "0 < float_overflow_bound"
  unfolding float_overflow_bound_def
  using power_strict_increasing[of 970 1024 "2::int"] by simp

lemma exceeds_0_3_int:
  assumes b: "0 < b" "b \<le> 120"
  shows "exceeds_0_3 (of_int a / of_int b) = (10 * a > 3 * b)"
proof -
  have "exceeds_0_3 (of_int a / of_int b)
          = ((10808639105689191 :: rat) / 36028797018963968 \<le> of_int a / of_int b)"
    by (simp add: exceeds_0_3_def)
  also have "\<dots> = (10808639105689191 * of_int b \<le> 36028797018963968 * (of_int a :: rat))"
    using b by (simp add: field_simps)
  also have "\<dots> = ((of_int (10808639105689191 * b) :: rat) \<le> of_int (36028797018963968 * a))"
    by simp
  also have "\<dots> = (10808639105689191 * b \<le> 36028797018963968 * a)"
    by (simp only: of_int_le_iff)
  also have "\<dots> = (10 * a > 3 * b)"
    using b by linarith
  finally show ?thesis .
qed

lemma float_div_int:
  assumes "0 < b" "0 \<le> a"
  shows "float_div a b = (if a \<ge> float_overflow_bound * b then Inl OverflowError
                          else Inr (of_int a / of_int b))"
proof -
  have q: "\<bar>(of_int a :: rat) / of_int b\<bar> = of_int a / of_int b"
    using assms by simp
  have "((of_int float_overflow_bound :: rat) \<le> of_int a / of_int b)
          = (of_int float_overflow_bound * of_int b \<le> (of_int a :: rat))"
    using assms by (simp add: field_simps)
  also have "\<dots> = ((of_int (float_overflow_bound * b) :: rat) \<le> of_int a)"
    by simp
  also have "\<dots> = (float_overflow_bound * b \<le> a)"
    by (simp only: of_int_le_iff)
  finally have o: "((of_int float_overflow_bound :: rat) \<le> of_int a / of_int b)
                     = (float_overflow_bound * b \<le> a)" .
  show ?thesis using assms unfolding float_div_def Let_def q o by simp
qed

text \<open>
  C5, as amended.  \<open>validate_for_production\<close> applies its three checks in order, and only
  the structural self-check short-circuits: when \<open>Script.validate\<close> fails, the result is
  \<open>False\<close> with that one error.  When it passes, the word-count check and the duration
  check both run.  With \<open>total\<close> the summed duration and \<open>excess = |total - target|\<close>: if
  \<open>total\<close> is positive and the quotient \<open>excess / target\<close> is too large for a float, that
  is \<open>excess \<ge> (2^1024 - 2^970) * target\<close>, the division raises \<open>OverflowError\<close>.
  Otherwise the issue list is the "too long" issues, in script order, followed by the
  duration issue if \<open>total\<close> is positive and deviates from the target by more than 30%
  (\<open>10 * excess > 3 * target\<close>, which for the targets 30 to 120 that \<open>Script.validate\<close>
  admits is when the float quotient exceeds the float \<open>0.3\<close>); the script is valid exactly
  when that list is empty.
\<close>

theorem validate_for_production_accumulates:
  "(\<not> fst (Script_validate s) \<longrightarrow>
      validate_for_production s = Inr (False, [issue_of (snd (Script_validate s))])) \<and>
   (fst (Script_validate s) \<longrightarrow>
      validate_for_production s =
        (let total = sum_list (map (\<lambda>sc. or_int (estimated_duration_seconds sc) 0) (scenes s));
             target = target_duration_seconds s;
             excess = \<bar>total - target\<bar>
         in if total > 0 \<and> excess \<ge> float_overflow_bound * target then Inl OverflowError
            else let issues = long_dialogue_issues (scenes s)
                              @ (if total > 0 \<and> 10 * excess > 3 * target
                                 then [DurationDeviates total target] else [])
                 in Inr (issues = [], issues)))"
proof (cases "fst (Script_validate s)")
  case False
  then show ?thesis unfolding validate_for_production_def
    by (cases "Script_validate s") simp
next
  case True
  have lo: "0 < target_duration_seconds s" using True Script_validate_target[of s] by simp
  have hi: "target_duration_seconds s \<le> 120" using True by (rule Script_validate_target_upper)
  have fd: "\<And>a. float_div \<bar>a\<bar> (target_duration_seconds s)
                 = (if \<bar>a\<bar> \<ge> float_overflow_bound * target_duration_seconds s
                    then Inl OverflowError
                    else Inr (of_int \<bar>a\<bar> / of_int (target_duration_seconds s)))"
    using lo by (simp add: float_div_int)
  have dev: "\<And>a. exceeds_0_3 (of_int a / of_int (target_duration_seconds s))
                      = (10 * a > 3 * target_duration_seconds s)"
    using lo hi by (rule exceeds_0_3_int)
  show ?thesis using True unfolding validate_for_production_def Let_def fd
    by (cases "Script_validate s") (auto simp: dev simp del: of_int_abs)
qed

theorem validate_for_production_accumulates_witness:
  "\<not> fst (Script_validate (ScriptGenerator_generate ''Test'' ''Drama'' TIKTOK 200 ''Adults'' None)) \<and>
   validate_for_production (ScriptGenerator_generate ''Test'' ''Drama'' TIKTOK 200 ''Adults'' None)
     = Inr (False, [TargetDurationRange]) \<and>
   fst (Script_validate drama_script) \<and>
   validate_for_production drama_script = Inr (True, []) \<and>
   fst (Script_validate (example_script 60
          [example_scene 1 True [says ''Hi''] (Some (2 ^ 1030))])) \<and>
   validate_for_production (example_script 60
          [example_scene 1 True [says ''Hi''] (Some (2 ^ 1030))]) = Inl OverflowError"
proof -
  let ?bad = "ScriptGenerator_generate ''Test'' ''Drama'' TIKTOK 200 ''Adults'' None"
  let ?huge = "example_script 60 [example_scene 1 True [says ''Hi''] (Some (2 ^ 1030))]"
  have b: "Script_validate ?bad = (False, Some TargetDurationRange)" by code_simp
  have g: "fst (Script_validate drama_script)" by (rule drama_script_valid)
  have l: "long_dialogue_issues (scenes drama_script) = []"
    unfolding drama_script_def by code_simp
  have t: "sum_list (map (\<lambda>sc. or_int (estimated_duration_seconds sc) 0) (scenes drama_script)) = 60"
    unfolding drama_script_def by code_simp
  have d: "target_duration_seconds drama_script = 60"
    unfolding drama_script_def by code_simp
  have h: "fst (Script_validate ?huge)" by code_simp
  have ht: "sum_list (map (\<lambda>sc. or_int (estimated_duration_seconds sc) 0) (scenes ?huge))
              = 2 ^ 1030"
    by (simp add: example_script_def example_scene_def or_int_def)
  have hd: "target_duration_seconds ?huge = 60"
    by (simp add: example_script_def)
  have ho: "float_overflow_bound * 60 \<le> 2 ^ 1030 - 60" by code_simp
  have p: "(0::int) < 2 ^ 1030" by simp
  show ?thesis
    using validate_for_production_accumulates[of ?bad]
          validate_for_production_accumulates[of drama_script]
          validate_for_production_accumulates[of ?huge] b g h ho p float_overflow_bound_pos
    by (simp add: l t d ht hd issue_of_def Let_def del: power_numeral)
qed

text \<open>
  C5 as stated fails: in this script the one dialogue line has 51 words and the scenes sum
  to 5 seconds against a target of 60, and the issue of the later duration check stands in
  the list behind the issue of the failed word-count check.
\<close>

theorem duration_issue_after_long_dialogue:
  "fst (Script_validate (example_script 60
          [example_scene 1 True [says (concat (replicate 51 ''word ''))] (Some 5)])) \<and>
   validate_for_production (example_script 60
          [example_scene 1 True [says (concat (replicate 51 ''word ''))] (Some 5)])
     = Inr (False, [DialogueTooLong 1 ''Elena'', DurationDeviates 5 60])"
  by code_simp

text \<open>
  C9.  A script that passes \<open>Script.validate\<close>, has no dialogue line of more than 50
  words, and whose scenes all have an estimated duration of \<open>None\<close> or 0, passes
  \<open>validate_for_production\<close> with no issue: the deviation check is skipped when the summed
  duration is not positive.
\<close>

theorem zero_duration_skips_deviation_check:
  assumes "fst (Script_validate s)"
      and "list_all (\<lambda>(sc, d). length (split (d_text d)) \<le> 50) (spoken_lines (scenes s))"
      and "list_all (\<lambda>sc. estimated_duration_seconds sc = None
                           \<or> estimated_duration_seconds sc = Some 0) (scenes s)"
  shows "validate_for_production s = Inr (True, [])"
proof -
  have l: "long_dialogue_issues (scenes s) = []"
    using assms(2) unfolding long_dialogue_issues_def
    by (auto simp: filter_empty_conv list_all_iff)
  have "\<forall>sc \<in> set (scenes s). or_int (estimated_duration_seconds sc) 0 = 0"
    using assms(3) by (auto simp: list_all_iff or_int_def)
  then have z: "sum_list (map (\<lambda>sc. or_int (estimated_duration_seconds sc) 0) (scenes s)) = 0"
    by (rule sum_list_all_zero)
  show ?thesis using assms(1) l z unfolding validate_for_production_def
    by (cases "Script_validate s") (simp add: Let_def)
qed

theorem zero_duration_skips_deviation_check_witness:
  "fst (Script_validate (example_script 60
          [example_scene 1 True [says ''Hello''] None, example_scene 2 False [] (Some 0)])) \<and>
   target_duration_seconds (example_script 60
          [example_scene 1 True [says ''Hello''] None, example_scene 2 False [] (Some 0)]) = 60 \<and>
   validate_for_production (example_script 60
          [example_scene 1 True [says ''Hello''] None, example_scene 2 False [] (Some 0)])
     = Inr (True, [])"
proof -
  let ?s = "example_script 60
          [example_scene 1 True [says ''Hello''] None, example_scene 2 False [] (Some 0)]"
  have a: "fst (Script_validate ?s)" by code_simp
  have b: "list_all (\<lambda>(sc, d). length (split (d_text d)) \<le> 50) (spoken_lines (scenes ?s))"
    by code_simp
  have c: "list_all (\<lambda>sc. estimated_duration_seconds sc = None
                           \<or> estimated_duration_seconds sc = Some 0) (scenes ?s)"
    by (simp add: example_script_def example_scene_def)
  show ?thesis
    using a zero_duration_skips_deviation_check[OF a b c]
    by (simp add: example_script_def)
qed


section \<open>Breakdowns: claims C10 and C7\<close>

lemma beverage_fold:
  "\<not> list_ex (\<lambda>p. pe_description p = ''Coffee cup'') props \<Longrightarrow>
   filter (\<lambda>p. pe_description p = ''Beverage'') (foldl beverage_step props ds)
     = filter (\<lambda>p. pe_description p = ''Beverage'') props
       @ replicate (length (filter (\<lambda>d. contains (lower (d_text d)) ''drink'') ds))
                   (element ''prop'' ''Beverage'' 1 None)"
proof (induction ds arbitrary: props)
  case Nil
  then show ?case by simp
next
  case (Cons d ds)
  have nc: "\<not> list_ex (\<lambda>p. pe_description p = ''Coffee cup'') (beverage_step props d)"
    using Cons.prems by (simp add: beverage_step_def element_def Let_def)
  show ?case
    using Cons.IH[OF nc] Cons.prems
    by (simp add: beverage_step_def element_def Let_def replicate_append_same)
qed

text \<open>
  C10.  For a scene whose lower-cased description contains neither "coffee" nor "cup", the
  props of its breakdown entry hold one "Beverage" element for every dialogue line whose
  lower-cased text contains "drink": with k such lines the elements described as "Beverage"
  are k copies of the generic Beverage prop, duplicates included.
\<close>

theorem drink_lines_give_beverages:
  assumes "\<not> contains (lower (description scene)) ''coffee''"
      and "\<not> contains (lower (description scene)) ''cup''"
      and "create_breakdown_entry scene script = Inr e"
  shows "filter (\<lambda>p. pe_description p = ''Beverage'') (e_props e)
           = replicate (length (filter (\<lambda>d. contains (lower (d_text d)) ''drink'')
                                       (dialogues scene)))
                       (element ''prop'' ''Beverage'' 1 None)"
proof -
  have p: "e_props e = extract_props scene"
    using assms(3) unfolding create_breakdown_entry_def
    by (auto simp: Let_def split: sum.splits)
  have f: "extract_props scene =
             foldl beverage_step
               ((if contains (lower (description scene)) ''phone''
                    \<or> contains (lower (description scene)) ''mobile''
                   then [element ''prop'' ''Mobile phone'' 1 None] else [])
                @ (if contains (lower (description scene)) ''table''
                   then [element ''prop'' ''Table'' 1 None] else [])
                @ (if contains (lower (description scene)) ''chair''
                   then [element ''prop'' ''Chair'' 2 None] else [])
                @ (if contains (lower (description scene)) ''car''
                    \<or> contains (lower (description scene)) ''vehicle''
                   then [element ''prop'' ''Vehicle'' 1 (Some ''Requires driver/permit'')] else []))
               (dialogues scene)"
    using assms(1,2) unfolding extract_props_def Let_def by simp
  show ?thesis
    unfolding p f
    by (subst beverage_fold) (simp_all add: element_def)
qed

theorem drink_lines_give_beverages_witness:
  "\<not> contains (lower (description
        (example_scene 1 True [says ''Drink up'', says ''Another drink?''] (Some 5)))) ''coffee'' \<and>
   \<not> contains (lower (description
        (example_scene 1 True [says ''Drink up'', says ''Another drink?''] (Some 5)))) ''cup'' \<and>
   (case create_breakdown_entry
           (example_scene 1 True [says ''Drink up'', says ''Another drink?''] (Some 5))
           (example_script 60
              [example_scene 1 True [says ''Drink up'', says ''Another drink?''] (Some 5)]) of
      Inr e \<Rightarrow> filter (\<lambda>p. pe_description p = ''Beverage'') (e_props e)
    | Inl x \<Rightarrow> [])
   = [element ''prop'' ''Beverage'' 1 None, element ''prop'' ''Beverage'' 1 None]"
proof -
  let ?sc = "example_scene 1 True [says ''Drink up'', says ''Another drink?''] (Some 5)"
  let ?s = "example_script 60 [?sc]"
  have a: "\<not> contains (lower (description ?sc)) ''coffee''" by code_simp
  have b: "\<not> contains (lower (description ?sc)) ''cup''" by code_simp
  have "fst (Scene_validate ?sc)" by code_simp
  then have e: "create_breakdown_entry ?sc ?s = Inr (entry_for ?sc)"
    by (rule create_breakdown_entry_valid)
  have k: "length (filter (\<lambda>d. contains (lower (d_text d)) ''drink'') (dialogues ?sc)) = 2"
    by code_simp
  show ?thesis
    using a b drink_lines_give_beverages[OF a b e] e k by (simp add: numeral_2_eq_2)
qed

lemma entry_for_valid:
  "fst (Scene_validate sc) \<Longrightarrow> \<not> blank (description sc) \<Longrightarrow> dialogues sc \<noteq> [] \<Longrightarrow>
     BreakdownEntry_validate (entry_for sc) = (True, None)"
  using Scene_validate_fields[of sc]
  unfolding BreakdownEntry_validate_def entry_for_def speakers_def
  by (cases "dialogues sc") (auto simp: not_less)

lemma upto_butlast: "1 \<le> n \<Longrightarrow> butlast [1 .. n] = [1 .. n - 1]"
  by (simp add: upto_rec2)

text \<open>
  C7, as amended.  Take a breakdown generated from a script that passes \<open>Script.validate\<close>
  and has at least two scenes, and remove its last entry.  \<open>validate_against_script\<close> against
  the original script then returns \<open>is_valid = False\<close>.  When moreover the scene numbers of
  the script are 1, ..., N in list order and every scene but the last has a description
  that is not blank and at least one dialogue line, the remaining entries pass the
  breakdown's self-check and the issues hold "Missing breakdown entries for scenes: [N]".
\<close>

theorem missing_last_entry_reported:
  assumes v: "fst (Script_validate s)"
      and g: "BreakdownGenerator_generate s = Inr b"
      and n: "2 \<le> length (scenes s)"
  shows "\<not> fst (validate_against_script (b\<lparr>entries := butlast (entries b)\<rparr>) s) \<and>
         (map scene_number (scenes s) = [1 .. int (length (scenes s))] \<and>
          list_all (\<lambda>sc. \<not> blank (description sc) \<and> dialogues sc \<noteq> []) (butlast (scenes s))
          \<longrightarrow> MissingEntries [int (length (scenes s))]
                \<in> set (snd (validate_against_script (b\<lparr>entries := butlast (entries b)\<rparr>) s)))"
proof -
  let ?N = "int (length (scenes s))"
  let ?b = "b\<lparr>entries := butlast (entries b)\<rparr>"
  have b: "b = \<lparr>b_script_title = title s, entries = map entry_for (scenes s)\<rparr>"
    using BreakdownGenerator_generate_valid[OF v] g by simp
  have es: "entries ?b = map entry_for (butlast (scenes s))"
    by (simp add: b map_butlast)
  have len: "length (entries ?b) \<noteq> length (scenes s)"
    using n by (simp add: es)
  have first: "\<not> fst (validate_against_script ?b s)"
    using len unfolding validate_against_script_def Let_def
    by (cases "Breakdown_validate ?b") (auto simp del: length_butlast)
  have second: "MissingEntries [?N] \<in> set (snd (validate_against_script ?b s))"
    if num: "map scene_number (scenes s) = [1 .. ?N]"
    and ok: "list_all (\<lambda>sc. \<not> blank (description sc) \<and> dialogues sc \<noteq> []) (butlast (scenes s))"
  proof -
    have nums: "map e_scene_number (entries ?b) = [1 .. ?N - 1]"
    proof -
      have "map e_scene_number (entries ?b) = butlast (map scene_number (scenes s))"
        by (simp add: es map_butlast entry_for_def comp_def)
      then show ?thesis using num n by (simp add: upto_butlast)
    qed
    have lenN: "length [1 .. ?N - 1] = length (scenes s) - 1"
      using n by simp
    have lenN': "int (length (scenes s) - Suc 0) = ?N - 1"
      using n by simp
    have sv: "list_all (\<lambda>sc. fst (Scene_validate sc)) (butlast (scenes s))"
      using Script_validate_scenes[OF v] by (auto simp: list_all_iff dest: in_set_butlastD)
    have ev: "validate_all BreakdownEntry_validate (entries ?b) = None"
      using sv ok by (simp add: validate_all_None es list_all_iff entry_for_valid)
    have ne: "entries ?b \<noteq> []" using n by (cases "scenes s") (auto simp: es)
    have bv: "Breakdown_validate ?b = (True, None)"
      unfolding Breakdown_validate_def Let_def
      using ev ne Script_validate_title[OF v] nums lenN
      by (simp add: b distinct_card lenN' del: length_butlast)
    have "set (map scene_number (scenes s)) - set (map e_scene_number (entries ?b)) = {?N}"
      unfolding nums num using n by auto
    then have miss: "set (map scene_number (scenes s)) - set (map e_scene_number (entries ?b)) \<noteq> {}"
      and sorted: "sorted_list_of_set (set (map scene_number (scenes s))
                     - set (map e_scene_number (entries ?b))) = [?N]"
      by simp_all
    show ?thesis
      unfolding validate_against_script_def Let_def
      using bv miss sorted by (simp del: length_butlast set_map)
  qed
  show ?thesis using first second by blast
qed

theorem missing_last_entry_reported_witness:
  "fst (Script_validate drama_script) \<and> length (scenes drama_script) = 3 \<and>
   (case BreakdownGenerator_generate drama_script of
      Inr b \<Rightarrow> \<not> fst (validate_against_script (b\<lparr>entries := butlast (entries b)\<rparr>) drama_script) \<and>
               MissingEntries [3]
                 \<in> set (snd (validate_against_script (b\<lparr>entries := butlast (entries b)\<rparr>) drama_script))
    | Inl e \<Rightarrow> False)"
proof -
  let ?b = "\<lparr>b_script_title = title drama_script, entries = map entry_for (scenes drama_script)\<rparr>"
  have v: "fst (Script_validate drama_script)" by (rule drama_script_valid)
  have g: "BreakdownGenerator_generate drama_script = Inr ?b"
    using v by (rule BreakdownGenerator_generate_valid)
  have l: "length (scenes drama_script) = 3"
    unfolding drama_script_def ScriptGenerator_generate_def
    by (simp add: generate_scenes_eq Let_def)
  then have n: "2 \<le> length (scenes drama_script)" by simp
  have num: "map scene_number (scenes drama_script) = [1 .. int (length (scenes drama_script))]"
    unfolding drama_script_def by (rule generated_scene_numbers)
  have ok: "list_all (\<lambda>sc. \<not> blank (description sc) \<and> dialogues sc \<noteq> [])
              (butlast (scenes drama_script))"
    unfolding drama_script_def by code_simp
  show ?thesis
    using v l missing_last_entry_reported[OF v g n] num ok by (simp add: g)
qed

text \<open>
  C7 as stated fails: this script passes \<open>Script.validate\<close> and has three scenes, numbered
  1, 2, 3, but its scene 2 has no dialogue.  Its breakdown without the last entry fails the
  breakdown's self-check ("Scene 2 must have at least one character"), so the comparison
  of scene numbers is not reached and no issue reports the missing scene.
\<close>

theorem silent_scene_hides_missing_entry:
  "fst (Script_validate (example_script 60
          [example_scene 1 True [says ''Hi''] (Some 5), example_scene 2 False [] (Some 27),
           example_scene 3 False [says ''Bye''] (Some 28)])) \<and>
   (case BreakdownGenerator_generate (example_script 60
          [example_scene 1 True [says ''Hi''] (Some 5), example_scene 2 False [] (Some 27),
           example_scene 3 False [says ''Bye''] (Some 28)]) of
      Inr b \<Rightarrow> validate_against_script (b\<lparr>entries := butlast (entries b)\<rparr>)
                 (example_script 60
                   [example_scene 1 True [says ''Hi''] (Some 5), example_scene 2 False [] (Some 27),
                    example_scene 3 False [says ''Bye''] (Some 28)])
    | Inl e \<Rightarrow> (True, []))
   = (False, [SceneWithoutCharacter 2])"
  by code_simp


section \<open>Storyboards: claims C8 and C1\<close>

lemma jump_cuts_mem:
  "Suc i < length shs \<Longrightarrow>
   sh_scene_number (shs ! i) = sh_scene_number (shs ! Suc i) \<Longrightarrow>
   shot_size (shs ! i) = shot_size (shs ! Suc i) \<Longrightarrow>
   camera_position (shs ! i) = camera_position (shs ! Suc i) \<Longrightarrow>
   JumpCut (shot_id (shs ! i)) (shot_id (shs ! Suc i)) \<in> set (jump_cuts prev shs)"
proof (induction shs arbitrary: prev i)
  case Nil
  then show ?case by simp
next
  case (Cons a shs)
  show ?case
  proof (cases i)
    case 0
    then obtain b rest where shs: "shs = b # rest" using Cons.prems(1) by (cases shs) auto
    show ?thesis using Cons.prems 0 by (simp add: shs)
  next
    case (Suc j)
    then have "JumpCut (shot_id (shs ! j)) (shot_id (shs ! Suc j)) \<in> set (jump_cuts (Some a) shs)"
      using Cons.prems by (intro Cons.IH) auto
    then show ?thesis using Suc by simp
  qed
qed

lemma Storyboard_validate_target:
  "Storyboard_validate sb = Inr (True, None) \<Longrightarrow> sb_target_duration_seconds sb \<noteq> 0"
  unfolding Storyboard_validate_def true_div_def
  by (auto simp: Let_def split: if_splits option.splits)

text \<open>
  C8.  If a storyboard passes \<open>Storyboard.validate\<close> and two consecutive shots have the
  same scene number, the same shot size and the same camera position, then
  \<open>check_continuity\<close>, against any script, returns \<open>is_valid = False\<close> and its issues hold
  "Shots \<open>a\<close> and \<open>b\<close>: Potential jump cut (same size and position)" for the ids of these two
  shots.
\<close>

theorem jump_cut_reported:
  assumes "Storyboard_validate sb = Inr (True, None)"
      and "Suc i < length (shots sb)"
      and "sh_scene_number (shots sb ! i) = sh_scene_number (shots sb ! Suc i)"
      and "shot_size (shots sb ! i) = shot_size (shots sb ! Suc i)"
      and "camera_position (shots sb ! i) = camera_position (shots sb ! Suc i)"
  shows "\<exists>issues. check_continuity sb script = Inr (False, issues) \<and>
           JumpCut (shot_id (shots sb ! i)) (shot_id (shots sb ! Suc i)) \<in> set issues"
proof -
  have j: "JumpCut (shot_id (shots sb ! i)) (shot_id (shots sb ! Suc i))
             \<in> set (jump_cuts None (shots sb))"
    using assms(2-5) by (rule jump_cuts_mem)
  then have ne: "jump_cuts None (shots sb) \<noteq> []" by auto
  have t: "sb_target_duration_seconds sb \<noteq> 0"
    using assms(1) by (rule Storyboard_validate_target)
  show ?thesis
    unfolding check_continuity_def Let_def true_div_def
    using assms(1) j ne t by simp
qed

theorem jump_cut_reported_witness:
  "Storyboard_validate (example_storyboard [example_shot ''1A'' 1 5, example_shot ''1B'' 1 5])
     = Inr (True, None) \<and>
   check_continuity (example_storyboard [example_shot ''1A'' 1 5, example_shot ''1B'' 1 5])
       drama_script
     = Inr (False, [JumpCut ''1A'' ''1B'', NoShotsDefined 2, NoShotsDefined 3])"
proof -
  let ?sb = "example_storyboard [example_shot ''1A'' 1 5, example_shot ''1B'' 1 5]"
  have v: "Storyboard_validate ?sb = Inr (True, None)" by code_simp
  have i: "Suc 0 < length (shots ?sb)" by (simp add: example_storyboard_def)
  have same: "sh_scene_number (shots ?sb ! 0) = sh_scene_number (shots ?sb ! Suc 0)"
             "shot_size (shots ?sb ! 0) = shot_size (shots ?sb ! Suc 0)"
             "camera_position (shots ?sb ! 0) = camera_position (shots ?sb ! Suc 0)"
    by (simp_all add: example_storyboard_def example_shot_def)
  have c: "check_continuity ?sb drama_script
             = Inr (False, [JumpCut ''1A'' ''1B'', NoShotsDefined 2, NoShotsDefined 3])"
    unfolding drama_script_def by code_simp
  show ?thesis
    using v c jump_cut_reported[OF v i same, of drama_script] by simp
qed

lemma shots_counter_irrelevant:
  "generate_shots_for_scene scene script k = generate_shots_for_scene scene script 0"
  by (simp add: generate_shots_for_scene_def)

lemma foldl_shots:
  "foldl (\<lambda>(shs, shot_counter) scene.
            (shs @ generate_shots_for_scene scene script shot_counter,
             shot_counter + length (generate_shots_for_scene scene script shot_counter)))
         (acc, k) scs
   = (acc @ concat (map (\<lambda>sc. generate_shots_for_scene sc script 0) scs),
      k + length (concat (map (\<lambda>sc. generate_shots_for_scene sc script 0) scs)))"
proof (induction scs arbitrary: acc k)
  case Nil
  then show ?case by simp
next
  case (Cons sc scs)
  show ?case
    by (simp add: Cons.IH shots_counter_irrelevant[of sc script k])
qed

lemma StoryboardGenerator_generate_shots:
  "StoryboardGenerator_generate s bd = Inr sb \<Longrightarrow>
     sb = \<lparr>sb_script_title = title s, sb_target_duration_seconds = target_duration_seconds s,
           shots = concat (map (\<lambda>sc. generate_shots_for_scene sc s 0) (scenes s))\<rparr>"
  unfolding StoryboardGenerator_generate_def
  by (auto simp: foldl_shots Let_def split: prod.splits if_splits)

lemma hook_scene_duration:
  "is_hook sc \<Longrightarrow> estimated_duration_seconds sc = Some 5 \<Longrightarrow> dialogues sc = [dl] \<Longrightarrow>
     sum_list (map suggested_duration_seconds (generate_shots_for_scene sc s k)) = 5"
  by (simp add: generate_shots_for_scene_def hook_shots_def or_int_def Let_def)

lemma regular_scene_duration:
  "\<not> is_hook sc \<Longrightarrow> estimated_duration_seconds sc = Some x \<Longrightarrow> x \<noteq> 0 \<Longrightarrow> dialogues sc = [dl] \<Longrightarrow>
     sum_list (map suggested_duration_seconds (generate_shots_for_scene sc s k))
       = 2 * max 2 (x div 2)"
  by (simp add: generate_shots_for_scene_def dialogue_shot_def or_int_def Let_def
        split: prod.splits)

lemma generated_total:
  assumes "30 \<le> d" "d \<le> 120"
  shows "sum_list (map suggested_duration_seconds
            (concat (map (\<lambda>sc. generate_shots_for_scene sc s 0)
               (scenes (ScriptGenerator_generate ttl g pf d a c)))))
         = (if d \<ge> 45 then 5 + 2 * max 2 (((d - 5) div 2) div 2)
                               + 2 * max 2 ((d - 5 - (d - 5) div 2) div 2)
            else 5 + 2 * max 2 ((d - 5) div 2))"
  using assms unfolding ScriptGenerator_generate_def
  by (simp add: generate_scenes_eq Let_def hook_scene_duration regular_scene_duration)

text \<open>
  C1.  Let the script be generated by \<open>ScriptGenerator.generate\<close> with a target duration
  between 30 and 120, the breakdown by \<open>BreakdownGenerator.generate\<close> from that script, and
  the storyboard by \<open>StoryboardGenerator.generate\<close> from both.  Then the storyboard's target
  is the script's, and the summed suggested duration of its shots deviates from the target
  by at most 20% of the target: \<open>abs(total - target) / target \<le> 0.20\<close>.
\<close>

theorem storyboard_duration_within_tolerance:
  assumes "30 \<le> d" "d \<le> 120"
      and "BreakdownGenerator_generate (ScriptGenerator_generate ttl g pf d a c) = Inr bd"
      and "StoryboardGenerator_generate (ScriptGenerator_generate ttl g pf d a c) bd = Inr sb"
  shows "sb_target_duration_seconds sb = d \<and>
         (of_int \<bar>get_total_duration sb - d\<bar> :: rat) / of_int d \<le> 1 / 5"
proof -
  let ?G = "ScriptGenerator_generate ttl g pf d a c"
  have sb: "sb = \<lparr>sb_script_title = title ?G, sb_target_duration_seconds = target_duration_seconds ?G,
                  shots = concat (map (\<lambda>sc. generate_shots_for_scene sc ?G 0) (scenes ?G))\<rparr>"
    using assms(4) by (rule StoryboardGenerator_generate_shots)
  have tg: "sb_target_duration_seconds sb = d"
    by (subst sb) (simp add: ScriptGenerator_generate_def Let_def)
  have "get_total_duration sb = sum_list (map suggested_duration_seconds
          (concat (map (\<lambda>sc. generate_shots_for_scene sc ?G 0) (scenes ?G))))"
    by (subst sb) (simp add: get_total_duration_def)
  then have tot: "get_total_duration sb =
           (if d \<ge> 45 then 5 + 2 * max 2 (((d - 5) div 2) div 2)
                               + 2 * max 2 ((d - 5 - (d - 5) div 2) div 2)
            else 5 + 2 * max 2 ((d - 5) div 2))"
    using generated_total[OF assms(1,2)] by simp
  have close: "\<bar>get_total_duration sb - d\<bar> \<le> 2"
    using assms(1,2) unfolding tot by (auto simp: max_def)
  then have "5 * \<bar>get_total_duration sb - d\<bar> \<le> 5 * 2" by (rule mult_left_mono) simp
  then have "5 * \<bar>get_total_duration sb - d\<bar> \<le> d" using assms(1) by simp
  then have "(of_int (5 * \<bar>get_total_duration sb - d\<bar>) :: rat) \<le> of_int d"
    by (simp only: of_int_le_iff)
  then have "(of_int \<bar>get_total_duration sb - d\<bar> :: rat) / of_int d \<le> 1 / 5"
    using assms(1) by (simp add: field_simps)
  then show ?thesis using tg by simp
qed

theorem storyboard_duration_within_tolerance_witness:
  "(case BreakdownGenerator_generate drama_script of
      Inr bd \<Rightarrow>
        (case StoryboardGenerator_generate drama_script bd of
           Inr sb \<Rightarrow> sb_target_duration_seconds sb = 60 \<and> get_total_duration sb = 59 \<and>
                     (of_int \<bar>get_total_duration sb - 60\<bar> :: rat) / of_int 60 \<le> 1 / 5
         | Inl e \<Rightarrow> False)
    | Inl e \<Rightarrow> False)"
proof -
  have h: "(30::int) \<le> 60" "(60::int) \<le> 120" by simp_all
  let ?bd = "\<lparr>b_script_title = title drama_script, entries = map entry_for (scenes drama_script)\<rparr>"
  have g: "BreakdownGenerator_generate drama_script = Inr ?bd"
    using drama_script_valid by (rule BreakdownGenerator_generate_valid)
  obtain sb where s: "StoryboardGenerator_generate drama_script ?bd = Inr sb"
    and t: "get_total_duration sb = 59"
  proof -
    have "case StoryboardGenerator_generate drama_script ?bd of
            Inr sb \<Rightarrow> get_total_duration sb = 59 | Inl e \<Rightarrow> False"
      unfolding drama_script_def by code_simp
    then show ?thesis using that by (cases "StoryboardGenerator_generate drama_script ?bd") auto
  qed
  show ?thesis
    using storyboard_duration_within_tolerance[OF h g[unfolded drama_script_def] s[unfolded drama_script_def]] t
    by (simp add: g s)
qed

section \<open>JSON round trips: claim C6\<close>

lemma bind_Inr [simp]: "bind (Inr x) f = f x"
  by (simp add: bind_def)

lemma bind_Inl [simp]: "bind (Inl e) f = Inl e"
  by (simp add: bind_def)

lemma map_exn_map:
  "(\<And>x. f (g x) = Inr x) \<Longrightarrow> map_exn f (map g xs) = Inr xs"
  by (induction xs) auto

lemma as_opt_str_opt_str [simp]: "as_opt_str (opt_str x) = Inr x"
  by (cases x) (simp_all add: as_opt_str_def opt_str_def)

lemma as_opt_int_opt_int [simp]: "as_opt_int (opt_int x) = Inr x"
  by (cases x) (simp_all add: as_opt_int_def opt_int_def)

lemma as_simps [simp]:
  "as_str (JStr s) = Inr s" "as_int (JInt i) = Inr i" "as_bool (JBool b) = Inr b"
  "as_list (JList xs) = Inr xs"
  by (simp_all add: as_str_def as_int_def as_bool_def as_list_def)

lemma Platform_round_trip [simp]: "Platform_of (Platform_value p) = Inr p"
  by (cases p) (simp_all add: Platform_of_def)

lemma LocationType_round_trip [simp]: "LocationType_of (LocationType_value t) = Inr t"
  by (cases t) (simp_all add: LocationType_of_def)

lemma TimeOfDay_round_trip [simp]: "TimeOfDay_of (TimeOfDay_value t) = Inr t"
  by (cases t) (simp_all add: TimeOfDay_of_def)

lemma ShotSize_round_trip [simp]: "ShotSize_of (ShotSize_value z) = Inr z"
  by (cases z) (simp_all add: ShotSize_of_def)

lemma CameraMovement_round_trip [simp]: "CameraMovement_of (CameraMovement_value m) = Inr m"
  by (cases m) (simp_all add: CameraMovement_of_def)

lemma Dialogue_round_trip: "Dialogue_of (Dialogue_asdict d) = Inr d"
  by (simp add: Dialogue_of_def Dialogue_asdict_def keyword_def)

lemma Character_round_trip: "Character_of (Character_asdict c) = Inr c"
  by (simp add: Character_of_def Character_asdict_def keyword_def)

lemma CostFlag_round_trip: "CostFlag_of (CostFlag_asdict f) = Inr f"
  by (simp add: CostFlag_of_def CostFlag_asdict_def keyword_def)

lemma Scene_round_trip: "Scene_of (Scene_asdict s) = Inr s"
  by (simp add: Scene_of_def Scene_asdict_def keyword_def get_or_def
        map_exn_map[of Dialogue_of Dialogue_asdict, OF Dialogue_round_trip])

lemma Script_round_trip: "Script_from_json (Script_to_json s) = Inr s"
  by (simp add: Script_from_json_def Script_to_json_def Script_from_dict_def Script_to_dict_def
        index_def get_or_def
        map_exn_map[of Character_of Character_asdict, OF Character_round_trip]
        map_exn_map[of Scene_of Scene_asdict, OF Scene_round_trip]
        map_exn_map[of CostFlag_of CostFlag_asdict, OF CostFlag_round_trip])

lemma ProductionElement_round_trip: "ProductionElement_of (ProductionElement_asdict p) = Inr p"
  by (simp add: ProductionElement_of_def ProductionElement_asdict_def keyword_def)

lemma as_str_JStr: "as_str (JStr s) = Inr s"
  by simp

lemma BreakdownEntry_round_trip: "BreakdownEntry_of (BreakdownEntry_to_dict e) = Inr e"
  by (simp add: BreakdownEntry_of_def BreakdownEntry_to_dict_def index_def get_or_def elements_of_def
        map_exn_map[of ProductionElement_of ProductionElement_asdict, OF ProductionElement_round_trip]
        map_exn_map[of as_str JStr, OF as_str_JStr])

lemma Breakdown_round_trip: "Breakdown_from_json (Breakdown_to_json b) = Inr b"
  by (simp add: Breakdown_from_json_def Breakdown_to_json_def Breakdown_from_dict_def
        Breakdown_to_dict_def index_def get_or_def
        map_exn_map[of BreakdownEntry_of BreakdownEntry_to_dict, OF BreakdownEntry_round_trip])

lemma Shot_round_trip: "Shot_of (Shot_to_dict sh) = Inr sh"
  by (simp add: Shot_of_def Shot_to_dict_def index_def get_or_def)

lemma Storyboard_round_trip: "Storyboard_from_json (Storyboard_to_json sb) = Inr sb"
  by (simp add: Storyboard_from_json_def Storyboard_to_json_def Storyboard_from_dict_def
        Storyboard_to_dict_def index_def get_or_def
        map_exn_map[of Shot_of Shot_to_dict, OF Shot_round_trip])

text \<open>
  C6.  Every Script, with its nested Characters, Scenes, Dialogues and CostFlags, its
  Platform and its optional fields, is what \<open>Script.from_json\<close> returns for its
  \<open>to_json\<close>, field for field; the same holds for every Breakdown and every Storyboard.
\<close>

theorem json_round_trip:
  "Script_from_json (Script_to_json s) = Inr s \<and>
   Breakdown_from_json (Breakdown_to_json b) = Inr b \<and>
   Storyboard_from_json (Storyboard_to_json sb) = Inr sb"
  by (simp add: Script_round_trip Breakdown_round_trip Storyboard_round_trip)

theorem json_round_trip_witness:
  "Script_from_json (Script_to_json drama_script) = Inr drama_script \<and>
   Breakdown_from_json (Breakdown_to_json drama_breakdown) = Inr drama_breakdown \<and>
   Storyboard_from_json (Storyboard_to_json drama_storyboard) = Inr drama_storyboard"
  by (rule json_round_trip)

section \<open>The workflow: claim C4\<close>

subsection \<open>The generated breakdown and storyboard pass their gates\<close>

lemma Script_validate_speakers:
  assumes "fst (Script_validate s)" "sc \<in> set (scenes s)"
  shows "set (speakers sc) \<subseteq> set (map c_name (characters s))"
proof -
  have "find (\<lambda>(sc, d). d_character d \<notin> set (map c_name (characters s))) (spoken_lines (scenes s)) = None"
    using assms(1) unfolding Script_validate_def
    by (auto split: if_splits option.splits)
  then have "\<forall>p \<in> set (spoken_lines (scenes s)). d_character (snd p) \<in> set (map c_name (characters s))"
    by (auto simp: find_None_iff)
  moreover have "\<forall>d \<in> set (dialogues sc). (sc, d) \<in> set (spoken_lines (scenes s))"
    using assms(2) by (auto simp: spoken_lines_def)
  ultimately show ?thesis by (fastforce simp: speakers_def)
qed

lemma Breakdown_validate_generated:
  assumes v: "fst (Script_validate s)"
      and num: "map scene_number (scenes s) = [1 .. int (length (scenes s))]"
      and ok: "list_all (\<lambda>sc. \<not> blank (description sc) \<and> dialogues sc \<noteq> []) (scenes s)"
  shows "Breakdown_validate \<lparr>b_script_title = title s, entries = map entry_for (scenes s)\<rparr>
           = (True, None)"
proof -
  have ne: "scenes s \<noteq> []" using v unfolding Script_validate_def by (auto split: if_splits)
  have sv: "list_all (\<lambda>sc. fst (Scene_validate sc)) (scenes s)"
    using v by (rule Script_validate_scenes)
  have ev: "validate_all BreakdownEntry_validate (map entry_for (scenes s)) = None"
    using sv ok by (simp add: validate_all_None list_all_iff entry_for_valid)
  have nums: "map e_scene_number (map entry_for (scenes s)) = [1 .. int (length (scenes s))]"
    using num by (simp add: entry_for_def comp_def)
  show ?thesis
    unfolding Breakdown_validate_def Let_def
    using ev ne Script_validate_title[OF v] nums
    by (simp add: distinct_card del: map_map)
qed

lemma validate_against_script_generated:
  assumes v: "fst (Script_validate s)"
      and num: "map scene_number (scenes s) = [1 .. int (length (scenes s))]"
      and ok: "list_all (\<lambda>sc. \<not> blank (description sc) \<and> dialogues sc \<noteq> []) (scenes s)"
  shows "validate_against_script \<lparr>b_script_title = title s, entries = map entry_for (scenes s)\<rparr> s
           = (True, [])"
proof -
  let ?b = "\<lparr>b_script_title = title s, entries = map entry_for (scenes s)\<rparr>"
  have bv: "Breakdown_validate ?b = (True, None)"
    using assms by (rule Breakdown_validate_generated)
  have nums: "map e_scene_number (map entry_for (scenes s)) = map scene_number (scenes s)"
    by (simp add: entry_for_def comp_def)
  have chars: "concat (map (\<lambda>entry.
                  map (CharacterNotInScript (e_scene_number entry))
                      (filter (\<lambda>ch. ch \<notin> set (map c_name (characters s))) (e_characters entry)))
                (map entry_for (scenes s))) = []"
    using Script_validate_speakers[OF v]
    by (auto simp: entry_for_def filter_empty_conv)
  have sp: "\<forall>sc \<in> set (scenes s). speakers sc \<noteq> []"
    using ok by (auto simp: list_all_iff speakers_def)
  have crit: "concat (map (\<lambda>entry.
                  (if e_characters entry = [] then [NoCharactersListed (e_scene_number entry)] else [])
                  @ (if e_wardrobe entry = [] then [NoWardrobeListed (e_scene_number entry)] else []))
                (map entry_for (scenes s))) = []"
    using sp by (auto simp: entry_for_def extract_wardrobe_def Let_def)
  show ?thesis
    unfolding validate_against_script_def Let_def
    using bv chars crit nums by (simp del: map_map set_map)
qed

lemma StoryboardGenerator_generate_valid:
  "fst (Script_validate s) \<Longrightarrow> Breakdown_validate bd = (True, None) \<Longrightarrow>
     StoryboardGenerator_generate s bd =
       Inr \<lparr>sb_script_title = title s, sb_target_duration_seconds = target_duration_seconds s,
            shots = concat (map (\<lambda>sc. generate_shots_for_scene sc s 0) (scenes s))\<rparr>"
  unfolding StoryboardGenerator_generate_def
  by (cases "Script_validate s") (simp add: foldl_shots Let_def)

subsection \<open>The advisory notes always validate\<close>

lemma advisory_valid:
  "\<not> blank c \<Longrightarrow> p \<in> set [''HIGH'', ''MEDIUM'', ''LOW''] \<Longrightarrow> \<not> blank d \<Longrightarrow> steps \<noteq> [] \<Longrightarrow>
     fst (AdvisoryItem_validate (advisory c p d steps))"
  by (simp add: AdvisoryItem_validate_def advisory_def)

lemma continuity_risks_valid:
  "list_all (\<lambda>i. fst (AdvisoryItem_validate i)) (analyze_continuity_risks s b sb)"
  unfolding analyze_continuity_risks_def
  by (auto simp: list_all_iff blank_iff intro!: advisory_valid)

lemma audio_recommendations_valid:
  "list_all (\<lambda>i. fst (AdvisoryItem_validate i)) (generate_audio_recommendations s b sb)"
  unfolding generate_audio_recommendations_def
  by (auto simp: list_all_iff blank_iff split: option.splits intro!: advisory_valid)

lemma coverage_suggestions_valid:
  "list_all (\<lambda>i. fst (AdvisoryItem_validate i)) (generate_coverage_suggestions s sb)"
  unfolding generate_coverage_suggestions_def
  by (auto simp: list_all_iff blank_iff intro!: advisory_valid)

lemma audio_recommendations_length: "1 \<le> length (generate_audio_recommendations s b sb)"
  unfolding generate_audio_recommendations_def by simp

lemma coverage_suggestions_length: "2 \<le> length (generate_coverage_suggestions s sb)"
  unfolding generate_coverage_suggestions_def by simp

lemma ProductionNotes_valid:
  assumes "\<not> blank (title s)"
  shows "ProductionNotes_validate (ProductionAdvisoryGenerator_generate s b sb) = (True, None)"
proof -
  have "validate_all AdvisoryItem_validate
          (analyze_continuity_risks s b sb @ generate_audio_recommendations s b sb
             @ generate_coverage_suggestions s sb) = None"
    by (simp add: validate_all_None continuity_risks_valid audio_recommendations_valid
          coverage_suggestions_valid)
  then show ?thesis
    using assms audio_recommendations_length[of s b sb] coverage_suggestions_length[of s sb]
    unfolding ProductionNotes_validate_def ProductionAdvisoryGenerator_generate_def Let_def
    by simp
qed

lemma editing_suggestions_valid:
  "list_all (\<lambda>i. fst (AdvisoryItem_validate i)) (generate_editing_suggestions s sb)"
  unfolding generate_editing_suggestions_def
  by (auto simp: list_all_iff blank_iff intro!: advisory_valid)

lemma platform_guidelines_valid:
  "list_all (\<lambda>i. fst (AdvisoryItem_validate i)) (generate_platform_guidelines s)"
  unfolding generate_platform_guidelines_def Let_def
  by (cases "platform s") (auto simp: list_all_iff blank_iff upper_def upper_char_def intro!: advisory_valid)

lemma revision_pitfalls_valid:
  "list_all (\<lambda>i. fst (AdvisoryItem_validate i)) (generate_revision_pitfalls s)"
  unfolding generate_revision_pitfalls_def
  by (auto simp: list_all_iff blank_iff intro!: advisory_valid)

lemma revision_pitfalls_length: "length (generate_revision_pitfalls s) = 3"
  unfolding generate_revision_pitfalls_def by simp

lemma PostProductionNotes_valid:
  assumes "\<not> blank (title s)"
  shows "PostProductionNotes_validate (PostProductionAdvisoryGenerator_generate s sb) = (True, None)"
proof -
  have "validate_all AdvisoryItem_validate
          (generate_editing_suggestions s sb @ generate_platform_guidelines s
             @ generate_revision_pitfalls s) = None"
    by (simp add: validate_all_None editing_suggestions_valid platform_guidelines_valid
          revision_pitfalls_valid)
  then show ?thesis
    using assms revision_pitfalls_length[of s]
    unfolding PostProductionNotes_validate_def PostProductionAdvisoryGenerator_generate_def Let_def
    by simp
qed

subsection \<open>The run of the test scenario\<close>

lemma drama_production_ready: "validate_for_production drama_script = Inr (True, [])"
  unfolding drama_script_def by code_simp

lemma drama_scenes_spoken:
  "list_all (\<lambda>sc. \<not> blank (description sc) \<and> dialogues sc \<noteq> []) (scenes drama_script)"
  unfolding drama_script_def by code_simp

lemma drama_scene_numbers:
  "map scene_number (scenes drama_script) = [1 .. int (length (scenes drama_script))]"
  unfolding drama_script_def by (rule generated_scene_numbers)

lemma drama_breakdown_generated: "BreakdownGenerator_generate drama_script = Inr drama_breakdown"
  unfolding drama_breakdown_def
  using drama_script_valid by (rule BreakdownGenerator_generate_valid)

lemma drama_breakdown_valid: "validate_against_script drama_breakdown drama_script = (True, [])"
  unfolding drama_breakdown_def
  using drama_script_valid drama_scene_numbers drama_scenes_spoken
  by (rule validate_against_script_generated)

lemma drama_storyboard_generated:
  "StoryboardGenerator_generate drama_script drama_breakdown = Inr drama_storyboard"
  unfolding drama_storyboard_def
  using drama_script_valid
proof (rule StoryboardGenerator_generate_valid)
  show "Breakdown_validate drama_breakdown = (True, None)"
    unfolding drama_breakdown_def
    using drama_script_valid drama_scene_numbers drama_scenes_spoken
    by (rule Breakdown_validate_generated)
qed

lemma drama_storyboard_continuous: "check_continuity drama_storyboard drama_script = Inr (True, [])"
  unfolding drama_storyboard_def drama_script_def by code_simp

lemma drama_title: "title drama_script = ''Test''"
  unfolding drama_script_def ScriptGenerator_generate_def by (simp add: Let_def)

lemma drama_notes:
  "ProductionNotes_validate
     (ProductionAdvisoryGenerator_generate drama_script drama_breakdown drama_storyboard) = (True, None)"
  "PostProductionNotes_validate
     (PostProductionAdvisoryGenerator_generate drama_script drama_storyboard) = (True, None)"
  by (simp_all add: ProductionNotes_valid PostProductionNotes_valid drama_title blank_iff)

lemma file_paths:
  "file_path ''out'' ''Test'' ''_script.json'' = ''out/Test_script.json''"
  "file_path ''out'' ''Test'' ''_breakdown.json'' = ''out/Test_breakdown.json''"
  "file_path ''out'' ''Test'' ''_breakdown.csv'' = ''out/Test_breakdown.csv''"
  "file_path ''out'' ''Test'' ''_storyboard.md'' = ''out/Test_storyboard.md''"
  "file_path ''out'' ''Test'' ''_shotlist.csv'' = ''out/Test_shotlist.csv''"
  "file_path ''out'' ''Test'' ''_production_notes.md'' = ''out/Test_production_notes.md''"
  "file_path ''out'' ''Test'' ''_postproduction_notes.md'' = ''out/Test_postproduction_notes.md''"
  by (simp_all add: file_path_def replace_char_def)

lemma drama_run_csv_fails:
  "execute_full_workflow the_components (failing_at ''out/Test_breakdown.csv'') []
       ''Test'' ''Drama'' TIKTOK 60 ''Adults'' ''out''
   = ((False, [WorkflowError (OSError ''out/Test_breakdown.csv'')],
       [(''script'', ''out/Test_script.json''),
        (''breakdown_json'', ''out/Test_breakdown.json'')]),
      [''out/Test_script.json'', ''out/Test_breakdown.json''])"
  unfolding execute_full_workflow_def step2_def step3_def step4_def step5_def
            the_components_def failing_at_def mkdir_def write_text_def caught_def Let_def
  by (simp add: drama_script_def[symmetric] drama_production_ready drama_breakdown_generated
        drama_breakdown_valid file_paths)

subsection \<open>The steps of the workflow\<close>

lemma take_artifacts:
  "take 0 artifacts = []" "take 1 artifacts = [''script'']"
  "take (Suc 0) artifacts = [''script'']"
  "take 2 artifacts = [''script'', ''breakdown_json'']"
  "take 3 artifacts = [''script'', ''breakdown_json'', ''breakdown_csv'']"
  "take 4 artifacts = [''script'', ''breakdown_json'', ''breakdown_csv'', ''storyboard'']"
  "take 5 artifacts = [''script'', ''breakdown_json'', ''breakdown_csv'', ''storyboard'', ''shotlist'']"
  "take 6 artifacts = [''script'', ''breakdown_json'', ''breakdown_csv'', ''storyboard'', ''shotlist'',
                       ''production_notes'']"
  by (simp_all add: artifacts_def)

lemma step5_outcome:
  assumes "step5 cs io out ttl script sb [] files0 fs0 = ((ok, errs, files), fs')"
      and "map fst files0 = take 6 artifacts" and "fs0 = fs @ map snd files0"
  shows "fs' = fs @ map snd files \<and>
         (ok \<longrightarrow> errs = [] \<and> map fst files = artifacts) \<and>
         (\<not> ok \<longrightarrow>
            (\<exists>e n. errs = [WorkflowError e] \<and> n < 7 \<and> map fst files = take n artifacts)
          \<or> (\<exists>notes error. postprod_advisory_gen cs script sb = Inr notes \<and>
                PostProductionNotes_validate notes = (False, error) \<and> errs = [issue_of error] \<and>
                map fst files = take 6 artifacts))"
proof -
  obtain a b c d e f where files0: "files0 = [(''script'', a), (''breakdown_json'', b),
        (''breakdown_csv'', c), (''storyboard'', d), (''shotlist'', e), (''production_notes'', f)]"
    using assms(2) by (auto simp: artifacts_def map_eq_Cons_conv)
  show ?thesis
    using assms(1,3) unfolding step5_def caught_def write_text_def Let_def files0
    by (auto simp: take_artifacts artifacts_def split: sum.splits prod.splits if_splits
             intro!: exI[of _ "6::nat"])
qed

lemma step4_outcome:
  assumes "step4 cs io out ttl script bd sb [] files0 fs0 = ((ok, errs, files), fs')"
      and "map fst files0 = take 5 artifacts" and "fs0 = fs @ map snd files0"
  shows "fs' = fs @ map snd files \<and>
         (ok \<longrightarrow> errs = [] \<and> map fst files = artifacts) \<and>
         (\<not> ok \<longrightarrow>
            (\<exists>e n. errs = [WorkflowError e] \<and> n < 7 \<and> map fst files = take n artifacts)
          \<or> (\<exists>notes error. production_advisory_gen cs script bd sb = Inr notes \<and>
                ProductionNotes_validate notes = (False, error) \<and> errs = [issue_of error] \<and>
                map fst files = take 5 artifacts)
          \<or> (\<exists>notes error. postprod_advisory_gen cs script sb = Inr notes \<and>
                PostProductionNotes_validate notes = (False, error) \<and> errs = [issue_of error] \<and>
                map fst files = take 6 artifacts))"
proof -
  obtain a b c d e where files0: "files0 = [(''script'', a), (''breakdown_json'', b),
        (''breakdown_csv'', c), (''storyboard'', d), (''shotlist'', e)]"
    using assms(2) by (auto simp: artifacts_def map_eq_Cons_conv)
  show ?thesis
  proof (cases "production_advisory_gen cs script bd sb")
    case (Inl x)
    then show ?thesis
      using assms(1,3) unfolding step4_def caught_def files0
      by (auto simp: take_artifacts intro!: exI[of _ "5::nat"])
  next
    case (Inr pn)
    obtain valid error where v: "ProductionNotes_validate pn = (valid, error)" by fastforce
    show ?thesis
    proof (cases valid)
      case False
      then show ?thesis
        using assms(1,3) Inr v unfolding step4_def files0
        by (auto simp: take_artifacts)
    next
      case True
      let ?p = "file_path out ttl ''_production_notes.md''"
      show ?thesis
      proof (cases "write_fails io ?p")
        case wf: True
        then show ?thesis
          using assms(1,3) Inr v True unfolding step4_def caught_def write_text_def Let_def files0
          by (auto simp: take_artifacts intro!: exI[of _ "5::nat"])
      next
        case wf: False
        have s5: "step5 cs io out ttl script sb [] (files0 @ [(''production_notes'', ?p)])
                    (fs0 @ [?p]) = ((ok, errs, files), fs')"
          using assms(1) Inr v True wf unfolding step4_def write_text_def Let_def files0 by simp
        show ?thesis
          using step5_outcome[OF s5, of fs] assms(3) by (auto simp: files0 take_artifacts)
      qed
    qed
  qed
qed


lemma step3_outcome:
  assumes "step3 cs io out ttl script bd [] files0 fs0 = ((ok, errs, files), fs')"
      and "map fst files0 = take 3 artifacts" and "fs0 = fs @ map snd files0"
  shows "fs' = fs @ map snd files \<and>
         (ok \<longrightarrow> errs = [] \<and> map fst files = artifacts) \<and>
         (\<not> ok \<longrightarrow>
            (\<exists>e n. errs = [WorkflowError e] \<and> n < 7 \<and> map fst files = take n artifacts)
          \<or> (\<exists>sb. storyboard_gen cs script bd = Inr sb \<and>
                continuity_checker cs sb script = Inr (False, errs) \<and>
                map fst files = take 3 artifacts)
          \<or> (\<exists>sb notes error. storyboard_gen cs script bd = Inr sb \<and>
                production_advisory_gen cs script bd sb = Inr notes \<and>
                ProductionNotes_validate notes = (False, error) \<and> errs = [issue_of error] \<and>
                map fst files = take 5 artifacts)
          \<or> (\<exists>sb notes error. storyboard_gen cs script bd = Inr sb \<and>
                postprod_advisory_gen cs script sb = Inr notes \<and>
                PostProductionNotes_validate notes = (False, error) \<and> errs = [issue_of error] \<and>
                map fst files = take 6 artifacts))"
proof -
  obtain a b c where files0: "files0 = [(''script'', a), (''breakdown_json'', b),
        (''breakdown_csv'', c)]"
    using assms(2) by (auto simp: artifacts_def map_eq_Cons_conv)
  show ?thesis
  proof (cases "storyboard_gen cs script bd")
    case (Inl x)
    then show ?thesis
      using assms(1,3) unfolding step3_def caught_def files0
      by (auto simp: take_artifacts intro!: exI[of _ "3::nat"])
  next
    case (Inr sb)
    show ?thesis
    proof (cases "continuity_checker cs sb script")
      case (Inl x)
      then show ?thesis
        using assms(1,3) Inr unfolding step3_def caught_def files0
        by (auto simp: take_artifacts intro!: exI[of _ "3::nat"])
    next
      case chk: (Inr r)
      obtain valid issues where r: "r = (valid, issues)" by fastforce
      show ?thesis
      proof (cases valid)
        case False
        then show ?thesis
          using assms(1,3) Inr chk r unfolding step3_def files0
          by (auto simp: take_artifacts)
      next
        case True
        let ?p = "file_path out ttl ''_storyboard.md''"
        let ?q = "file_path out ttl ''_shotlist.csv''"
        show ?thesis
        proof (cases "write_fails io ?p")
          case wf: True
          then show ?thesis
            using assms(1,3) Inr chk r True
            unfolding step3_def caught_def write_text_def Let_def files0
            by (auto simp: take_artifacts intro!: exI[of _ "3::nat"])
        next
          case wp: False
          show ?thesis
          proof (cases "write_fails io ?q")
            case wf: True
            then show ?thesis
              using assms(1,3) Inr chk r True wp
              unfolding step3_def caught_def write_text_def Let_def files0
              by (auto simp: take_artifacts intro!: exI[of _ "4::nat"])
          next
            case wq: False
            have s4: "step4 cs io out ttl script bd sb []
                        (files0 @ [(''storyboard'', ?p), (''shotlist'', ?q)])
                        (fs0 @ [?p, ?q]) = ((ok, errs, files), fs')"
              using assms(1) Inr chk r True wp wq
              unfolding step3_def write_text_def Let_def files0 by simp
            show ?thesis
              using step4_outcome[OF s4, of fs] assms(3) Inr
              by (auto simp: files0 take_artifacts)
          qed
        qed
      qed
    qed
  qed
qed

lemma step2_outcome:
  assumes "step2 cs io out ttl script [] files0 fs0 = ((ok, errs, files), fs')"
      and "map fst files0 = take 1 artifacts" and "fs0 = fs @ map snd files0"
  shows "fs' = fs @ map snd files \<and>
         (ok \<longrightarrow> errs = [] \<and> map fst files = artifacts) \<and>
         (\<not> ok \<longrightarrow>
            (\<exists>e n. errs = [WorkflowError e] \<and> n < 7 \<and> map fst files = take n artifacts)
          \<or> (\<exists>bd. breakdown_gen cs script = Inr bd \<and>
                breakdown_validator cs bd script = Inr (False, errs) \<and>
                map fst files = take 1 artifacts)
          \<or> (\<exists>bd sb. breakdown_gen cs script = Inr bd \<and> storyboard_gen cs script bd = Inr sb \<and>
                continuity_checker cs sb script = Inr (False, errs) \<and>
                map fst files = take 3 artifacts)
          \<or> (\<exists>bd sb notes error. breakdown_gen cs script = Inr bd \<and>
                storyboard_gen cs script bd = Inr sb \<and>
                production_advisory_gen cs script bd sb = Inr notes \<and>
                ProductionNotes_validate notes = (False, error) \<and> errs = [issue_of error] \<and>
                map fst files = take 5 artifacts)
          \<or> (\<exists>bd sb notes error. breakdown_gen cs script = Inr bd \<and>
                storyboard_gen cs script bd = Inr sb \<and>
                postprod_advisory_gen cs script sb = Inr notes \<and>
                PostProductionNotes_validate notes = (False, error) \<and> errs = [issue_of error] \<and>
                map fst files = take 6 artifacts))"
proof -
  obtain a where files0: "files0 = [(''script'', a)]"
    using assms(2) by (auto simp: artifacts_def map_eq_Cons_conv)
  show ?thesis
  proof (cases "breakdown_gen cs script")
    case (Inl x)
    then show ?thesis
      using assms(1,3) unfolding step2_def caught_def files0
      by (auto simp: take_artifacts intro!: exI[of _ "1::nat"])
  next
    case (Inr bd)
    show ?thesis
    proof (cases "breakdown_validator cs bd script")
      case (Inl x)
      then show ?thesis
        using assms(1,3) Inr unfolding step2_def caught_def files0
        by (auto simp: take_artifacts intro!: exI[of _ "1::nat"])
    next
      case chk: (Inr r)
      obtain valid issues where r: "r = (valid, issues)" by fastforce
      show ?thesis
      proof (cases valid)
        case False
        then show ?thesis
          using assms(1,3) Inr chk r unfolding step2_def files0
          by (auto simp: take_artifacts)
      next
        case True
        let ?p = "file_path out ttl ''_breakdown.json''"
        let ?q = "file_path out ttl ''_breakdown.csv''"
        show ?thesis
        proof (cases "write_fails io ?p")
          case wf: True
          then show ?thesis
            using assms(1,3) Inr chk r True
            unfolding step2_def caught_def write_text_def Let_def files0
            by (auto simp: take_artifacts intro!: exI[of _ "1::nat"])
        next
          case wp: False
          show ?thesis
          proof (cases "write_fails io ?q")
            case wf: True
            then show ?thesis
              using assms(1,3) Inr chk r True wp
              unfolding step2_def caught_def write_text_def Let_def files0
              by (auto simp: take_artifacts intro!: exI[of _ "2::nat"])
          next
            case wq: False
            have s3: "step3 cs io out ttl script bd []
                        (files0 @ [(''breakdown_json'', ?p), (''breakdown_csv'', ?q)])
                        (fs0 @ [?p, ?q]) = ((ok, errs, files), fs')"
              using assms(1) Inr chk r True wp wq
              unfolding step2_def write_text_def Let_def files0 by simp
            show ?thesis
              using step3_outcome[OF s3, of fs] assms(3) Inr
              by (auto simp: files0 take_artifacts)
          qed
        qed
      qed
    qed
  qed
qed

text \<open>
  Every run is classified.  Let \<open>execute_full_workflow\<close> return \<open>(ok, errs, files)\<close> and
  leave the file system \<open>fs'\<close>.  The paths in \<open>files\<close> are exactly what the run has
  written, in order.  If \<open>ok\<close> holds, \<open>errs\<close> is empty and the keys of \<open>files\<close> are the
  seven artifacts.  Otherwise either an exception was caught, \<open>errs\<close> is the one
  "Workflow error" message and the keys are a proper prefix of the seven, or a validation
  gate failed, \<open>errs\<close> are the issues of that gate and the keys are the artifacts of the
  stages before it.
\<close>

lemma workflow_result_cases:
  assumes "execute_full_workflow cs io fs ttl gnr pf d aud out = ((ok, errs, files), fs')"
  shows "fs' = fs @ map snd files \<and>
         (ok \<longrightarrow> errs = [] \<and> map fst files = artifacts) \<and>
         (\<not> ok \<longrightarrow>
            (\<exists>e n. errs = [WorkflowError e] \<and> n < 7 \<and> map fst files = take n artifacts)
          \<or> (\<exists>script. script_gen cs ttl gnr pf d aud = Inr script \<and>
                script_validator cs script = Inr (False, errs) \<and> files = [])
          \<or> (\<exists>script bd. script_gen cs ttl gnr pf d aud = Inr script \<and>
                breakdown_gen cs script = Inr bd \<and>
                breakdown_validator cs bd script = Inr (False, errs) \<and>
                map fst files = take 1 artifacts)
          \<or> (\<exists>script bd sb. script_gen cs ttl gnr pf d aud = Inr script \<and>
                breakdown_gen cs script = Inr bd \<and> storyboard_gen cs script bd = Inr sb \<and>
                continuity_checker cs sb script = Inr (False, errs) \<and>
                map fst files = take 3 artifacts)
          \<or> (\<exists>script bd sb notes error. script_gen cs ttl gnr pf d aud = Inr script \<and>
                breakdown_gen cs script = Inr bd \<and> storyboard_gen cs script bd = Inr sb \<and>
                production_advisory_gen cs script bd sb = Inr notes \<and>
                ProductionNotes_validate notes = (False, error) \<and> errs = [issue_of error] \<and>
                map fst files = take 5 artifacts)
          \<or> (\<exists>script bd sb notes error. script_gen cs ttl gnr pf d aud = Inr script \<and>
                breakdown_gen cs script = Inr bd \<and> storyboard_gen cs script bd = Inr sb \<and>
                postprod_advisory_gen cs script sb = Inr notes \<and>
                PostProductionNotes_validate notes = (False, error) \<and> errs = [issue_of error] \<and>
                map fst files = take 6 artifacts))"
proof (cases "script_gen cs ttl gnr pf d aud")
  case (Inl x)
  then show ?thesis
    using assms unfolding execute_full_workflow_def caught_def Let_def
    by (auto simp: take_artifacts intro!: exI[of _ "0::nat"])
next
  case (Inr script)
  show ?thesis
  proof (cases "script_validator cs script")
    case (Inl x)
    then show ?thesis
      using assms Inr unfolding execute_full_workflow_def caught_def Let_def
      by (auto simp: take_artifacts intro!: exI[of _ "0::nat"])
  next
    case chk: (Inr r)
    obtain valid issues where r: "r = (valid, issues)" by fastforce
    show ?thesis
    proof (cases valid)
      case False
      then show ?thesis
        using assms Inr chk r unfolding execute_full_workflow_def Let_def
        by auto
    next
      case True
      let ?p = "file_path out ttl ''_script.json''"
      show ?thesis
      proof (cases "mkdir_fails io out \<or> write_fails io ?p")
        case wf: True
        then show ?thesis
          using assms Inr chk r True
          unfolding execute_full_workflow_def caught_def write_text_def mkdir_def Let_def
          by (auto simp: take_artifacts intro!: exI[of _ "0::nat"] split: if_splits)
      next
        case wp: False
        have s2: "step2 cs io out ttl script [] [(''script'', ?p)] (fs @ [?p])
                    = ((ok, errs, files), fs')"
          using assms Inr chk r True wp
          unfolding execute_full_workflow_def write_text_def mkdir_def Let_def by simp
        show ?thesis
          using step2_outcome[OF s2, of fs] Inr
          by (auto simp: take_artifacts)
      qed
    qed
  qed
qed

subsection \<open>What a run returns\<close>

text \<open>
  C4, as amended.  The result of \<open>execute_full_workflow\<close> is determined by how far the run
  gets; \<open>stage1\<close> to \<open>stage5\<close> say that the generator of that stage returned, its gate
  passed and its files were written, after the stages before it.  \<open>stopped errs files\<close> says that the run
  returns \<open>success = False\<close> with the errors \<open>errs\<close> and the map \<open>files\<close>, and that the
  files written are exactly the paths of \<open>files\<close>, in order.
  \<^item> If all five stages complete, the run returns \<open>success = True\<close>, no errors, and the map
    of the seven artifacts, whose files are exactly the ones written.
  \<^item> If the gate of a stage fails, the run stops with the issues of that gate and the
    artifacts of the stages before it: none for the script gate, 1 for the breakdown gate,
    3 for the continuity gate, 5 for the production notes, 6 for the post-production notes.
  \<^item> If a generator, a validator, \<open>mkdir\<close> or \<open>write_text\<close> raises \<open>e\<close>, the run stops with
    the one "Workflow error" message of \<open>e\<close> and the artifacts written before it.  Between
    the two writes of stage 2 or stage 3 that is the first artifact of the stage as well
    (\<open>f2\<close>, \<open>f4\<close>), so the map need not end where a stage ends.
\<close>

theorem workflow_outcomes:
  "let run = execute_full_workflow cs io fs ttl gnr pf d aud out;
       p1 = file_path out ttl ''_script.json'';
       p2 = file_path out ttl ''_breakdown.json'';
       p3 = file_path out ttl ''_breakdown.csv'';
       p4 = file_path out ttl ''_storyboard.md'';
       p5 = file_path out ttl ''_shotlist.csv'';
       p6 = file_path out ttl ''_production_notes.md'';
       p7 = file_path out ttl ''_postproduction_notes.md'';
       f1 = [(''script'', p1)];
       f2 = f1 @ [(''breakdown_json'', p2)];
       f3 = f2 @ [(''breakdown_csv'', p3)];
       f4 = f3 @ [(''storyboard'', p4)];
       f5 = f4 @ [(''shotlist'', p5)];
       f6 = f5 @ [(''production_notes'', p6)];
       f7 = f6 @ [(''postproduction_notes'', p7)];
       stopped = (\<lambda>errs files. run = ((False, errs, files), fs @ map snd files));
       raised = (\<lambda>e files. stopped [WorkflowError e] files);
       gen1 = (script_gen cs ttl gnr pf d aud = Inr script);
       gate1 = (gen1 \<and> script_validator cs script = Inr (True, i1));
       stage1 = (gate1 \<and> \<not> mkdir_fails io out \<and> \<not> write_fails io p1);
       gen2 = (stage1 \<and> breakdown_gen cs script = Inr bd);
       gate2 = (gen2 \<and> breakdown_validator cs bd script = Inr (True, i2));
       stage2 = (gate2 \<and> \<not> write_fails io p2 \<and> \<not> write_fails io p3);
       gen3 = (stage2 \<and> storyboard_gen cs script bd = Inr sb);
       gate3 = (gen3 \<and> continuity_checker cs sb script = Inr (True, i3));
       stage3 = (gate3 \<and> \<not> write_fails io p4 \<and> \<not> write_fails io p5);
       gen4 = (stage3 \<and> production_advisory_gen cs script bd sb = Inr pn);
       gate4 = (gen4 \<and> fst (ProductionNotes_validate pn));
       stage4 = (gate4 \<and> \<not> write_fails io p6);
       gen5 = (stage4 \<and> postprod_advisory_gen cs script sb = Inr ppn);
       gate5 = (gen5 \<and> fst (PostProductionNotes_validate ppn));
       stage5 = (gate5 \<and> \<not> write_fails io p7)
   in (stage5 \<longrightarrow> run = ((True, [], f7), fs @ map snd f7)) \<and>
      map fst f7 = artifacts \<and>
      (gen1 \<and> script_validator cs script = Inr (False, issues) \<longrightarrow> stopped issues []) \<and>
      (gen2 \<and> breakdown_validator cs bd script = Inr (False, issues) \<longrightarrow> stopped issues f1) \<and>
      (gen3 \<and> continuity_checker cs sb script = Inr (False, issues) \<longrightarrow> stopped issues f3) \<and>
      (gen4 \<and> \<not> fst (ProductionNotes_validate pn)
         \<longrightarrow> stopped [issue_of (snd (ProductionNotes_validate pn))] f5) \<and>
      (gen5 \<and> \<not> fst (PostProductionNotes_validate ppn)
         \<longrightarrow> stopped [issue_of (snd (PostProductionNotes_validate ppn))] f6) \<and>
      (script_gen cs ttl gnr pf d aud = Inl e \<longrightarrow> raised e []) \<and>
      (gen1 \<and> script_validator cs script = Inl e \<longrightarrow> raised e []) \<and>
      (gate1 \<and> mkdir_fails io out \<longrightarrow> raised (OSError out) []) \<and>
      (gate1 \<and> \<not> mkdir_fails io out \<and> write_fails io p1 \<longrightarrow> raised (OSError p1) []) \<and>
      (stage1 \<and> breakdown_gen cs script = Inl e \<longrightarrow> raised e f1) \<and>
      (gen2 \<and> breakdown_validator cs bd script = Inl e \<longrightarrow> raised e f1) \<and>
      (gate2 \<and> write_fails io p2 \<longrightarrow> raised (OSError p2) f1) \<and>
      (gate2 \<and> \<not> write_fails io p2 \<and> write_fails io p3 \<longrightarrow> raised (OSError p3) f2) \<and>
      (stage2 \<and> storyboard_gen cs script bd = Inl e \<longrightarrow> raised e f3) \<and>
      (gen3 \<and> continuity_checker cs sb script = Inl e \<longrightarrow> raised e f3) \<and>
      (gate3 \<and> write_fails io p4 \<longrightarrow> raised (OSError p4) f3) \<and>
      (gate3 \<and> \<not> write_fails io p4 \<and> write_fails io p5 \<longrightarrow> raised (OSError p5) f4) \<and>
      (stage3 \<and> production_advisory_gen cs script bd sb = Inl e \<longrightarrow> raised e f5) \<and>
      (gate4 \<and> write_fails io p6 \<longrightarrow> raised (OSError p6) f5) \<and>
      (stage4 \<and> postprod_advisory_gen cs script sb = Inl e \<longrightarrow> raised e f6) \<and>
      (gate5 \<and> write_fails io p7 \<longrightarrow> raised (OSError p7) f6)"
  unfolding Let_def
  by (intro conjI impI)
     (clarsimp simp: execute_full_workflow_def step2_def step3_def step4_def step5_def
        caught_def write_text_def mkdir_def Let_def case_prod_beta artifacts_def)+

theorem workflow_outcomes_witness:
  "execute_full_workflow the_components reliable [] ''Test'' ''Drama'' TIKTOK 60 ''Adults'' ''out''
   = ((True, [],
       [(''script'', ''out/Test_script.json''),
        (''breakdown_json'', ''out/Test_breakdown.json''),
        (''breakdown_csv'', ''out/Test_breakdown.csv''),
        (''storyboard'', ''out/Test_storyboard.md''),
        (''shotlist'', ''out/Test_shotlist.csv''),
        (''production_notes'', ''out/Test_production_notes.md''),
        (''postproduction_notes'', ''out/Test_postproduction_notes.md'')]),
      [''out/Test_script.json'', ''out/Test_breakdown.json'', ''out/Test_breakdown.csv'',
       ''out/Test_storyboard.md'', ''out/Test_shotlist.csv'', ''out/Test_production_notes.md'',
       ''out/Test_postproduction_notes.md'']) \<and>
   execute_full_workflow the_components reliable [] ''Test'' ''Drama'' TIKTOK 200 ''Adults'' ''out''
   = ((False, [TargetDurationRange], []), []) \<and>
   execute_full_workflow
       (the_components\<lparr>continuity_checker := (\<lambda>storyboard script. Inr (False, [NoShots]))\<rparr>)
       reliable [] ''Test'' ''Drama'' TIKTOK 60 ''Adults'' ''out''
   = ((False, [NoShots],
       [(''script'', ''out/Test_script.json''),
        (''breakdown_json'', ''out/Test_breakdown.json''),
        (''breakdown_csv'', ''out/Test_breakdown.csv'')]),
      [''out/Test_script.json'', ''out/Test_breakdown.json'', ''out/Test_breakdown.csv'']) \<and>
   execute_full_workflow the_components (failing_at ''out/Test_storyboard.md'') []
       ''Test'' ''Drama'' TIKTOK 60 ''Adults'' ''out''
   = ((False, [WorkflowError (OSError ''out/Test_storyboard.md'')],
       [(''script'', ''out/Test_script.json''),
        (''breakdown_json'', ''out/Test_breakdown.json''),
        (''breakdown_csv'', ''out/Test_breakdown.csv'')]),
      [''out/Test_script.json'', ''out/Test_breakdown.json'', ''out/Test_breakdown.csv''])"
proof -
  let ?long = "ScriptGenerator_generate ''Test'' ''Drama'' TIKTOK 200 ''Adults'' None"
  let ?pn = "ProductionAdvisoryGenerator_generate drama_script drama_breakdown drama_storyboard"
  let ?ppn = "PostProductionAdvisoryGenerator_generate drama_script drama_storyboard"
  let ?stub = "the_components\<lparr>continuity_checker := (\<lambda>storyboard script. Inr (False, [NoShots]))\<rparr>"
  note facts = the_components_def reliable_def failing_at_def drama_script_def[symmetric]
    drama_production_ready drama_breakdown_generated drama_breakdown_valid
    drama_storyboard_generated drama_storyboard_continuous drama_notes file_paths
  note run = workflow_outcomes[where fs = "[]" and ttl = "''Test''" and gnr = "''Drama''"
      and pf = TIKTOK and aud = "''Adults''" and out = "''out''" and ?i1.0 = "[]"
      and ?i2.0 = "[]" and ?i3.0 = "[]" and pn = ?pn and ppn = ?ppn, unfolded Let_def]
  have long: "validate_for_production ?long = Inr (False, [TargetDurationRange])"
    by code_simp
  have a: "execute_full_workflow the_components reliable [] ''Test'' ''Drama'' TIKTOK 60 ''Adults'' ''out''
   = ((True, [],
       [(''script'', ''out/Test_script.json''),
        (''breakdown_json'', ''out/Test_breakdown.json''),
        (''breakdown_csv'', ''out/Test_breakdown.csv''),
        (''storyboard'', ''out/Test_storyboard.md''),
        (''shotlist'', ''out/Test_shotlist.csv''),
        (''production_notes'', ''out/Test_production_notes.md''),
        (''postproduction_notes'', ''out/Test_postproduction_notes.md'')]),
      [''out/Test_script.json'', ''out/Test_breakdown.json'', ''out/Test_breakdown.csv'',
       ''out/Test_storyboard.md'', ''out/Test_shotlist.csv'', ''out/Test_production_notes.md'',
       ''out/Test_postproduction_notes.md''])"
    using run[where cs = the_components and io = reliable and d = 60 and script = drama_script
              and bd = drama_breakdown and sb = drama_storyboard, THEN conjunct1]
    by (simp add: facts)
  have b: "execute_full_workflow the_components reliable [] ''Test'' ''Drama'' TIKTOK 200 ''Adults'' ''out''
   = ((False, [TargetDurationRange], []), [])"
    using run[where cs = the_components and io = reliable and d = 200 and script = ?long
              and issues = "[TargetDurationRange]",
              THEN conjunct2, THEN conjunct2, THEN conjunct1]
    by (simp add: the_components_def long)
  have c: "execute_full_workflow ?stub reliable [] ''Test'' ''Drama'' TIKTOK 60 ''Adults'' ''out''
   = ((False, [NoShots],
       [(''script'', ''out/Test_script.json''),
        (''breakdown_json'', ''out/Test_breakdown.json''),
        (''breakdown_csv'', ''out/Test_breakdown.csv'')]),
      [''out/Test_script.json'', ''out/Test_breakdown.json'', ''out/Test_breakdown.csv''])"
    using run[where cs = ?stub and io = reliable and d = 60 and script = drama_script
              and bd = drama_breakdown and sb = drama_storyboard and issues = "[NoShots]",
              THEN conjunct2, THEN conjunct2, THEN conjunct2, THEN conjunct2, THEN conjunct1]
    by (simp add: facts)
  have d: "execute_full_workflow the_components (failing_at ''out/Test_storyboard.md'') []
       ''Test'' ''Drama'' TIKTOK 60 ''Adults'' ''out''
   = ((False, [WorkflowError (OSError ''out/Test_storyboard.md'')],
       [(''script'', ''out/Test_script.json''),
        (''breakdown_json'', ''out/Test_breakdown.json''),
        (''breakdown_csv'', ''out/Test_breakdown.csv'')]),
      [''out/Test_script.json'', ''out/Test_breakdown.json'', ''out/Test_breakdown.csv''])"
    using run[where cs = the_components and io = "failing_at ''out/Test_storyboard.md''"
              and d = 60 and script = drama_script
              and bd = drama_breakdown and sb = drama_storyboard]
    by (simp add: facts)
  show ?thesis using a b c d by (simp only: simp_thms)
qed

text \<open>
  C4 as stated fails: in this run \<open>write_text\<close> raises at the CSV file of the breakdown.
  Stage 2 is not completed, and the stage completed before the failure wrote the script
  alone, yet the returned map holds \<open>breakdown_json\<close> beside \<open>script\<close>.
\<close>

theorem interrupted_stage_keeps_first_artifact:
  "execute_full_workflow the_components (failing_at ''out/Test_breakdown.csv'') []
       ''Test'' ''Drama'' TIKTOK 60 ''Adults'' ''out''
   = ((False, [WorkflowError (OSError ''out/Test_breakdown.csv'')],
       [(''script'', ''out/Test_script.json''),
        (''breakdown_json'', ''out/Test_breakdown.json'')]),
      [''out/Test_script.json'', ''out/Test_breakdown.json'']) \<and>
   [''script'', ''breakdown_json''] \<noteq> take 1 artifacts"
  using drama_run_csv_fails by (simp add: take_artifacts)

end
